theory Spec2Isabelle
  imports Complex_Main
begin

section \<open>The voxel world of the 3D block game (3d-game/main.js)\<close>

text \<open>
  JavaScript numbers are modelled as the reals: every comparison and every arithmetic
  operation of the source is kept, rounding is not. Where the source compares two values
  that are equal over the reals, its doubles can decide either way; the player tick does so
  on its own output in one place, the ground test of \<open>updatePlayer\<close> (see \<open>groundCheck\<close>).
  \<open>null\<close> and \<open>undefined\<close> results are \<open>None\<close>. The global arrays and objects of the source (\<open>worldBlocks\<close>, \<open>worldLayers\<close>,
  \<open>playerState\<close>, \<open>keys\<close>, the camera) are passed explicitly, and a function that mutates one
  returns the new value.
\<close>

subsection \<open>Data model\<close>

record vec3 =
  vec_x :: real
  vec_y :: real
  vec_z :: real

text \<open>An axis-aligned box: the six bounds of \<open>playerBody\<close>, \<open>playerBox\<close> and \<open>userData\<close>.\<close>

record box =
  minX :: real
  maxX :: real
  minY :: real
  maxY :: real
  minZ :: real
  maxZ :: real

text \<open>
  \<open>block.userData\<close>. A property the source never sets (\<open>isVoid\<close> and \<open>isPlaced\<close> of a
  generated block, \<open>worldLayer\<close> of a placed block) is \<open>undefined\<close> there: falsy for the two
  flags, \<open>None\<close> for the layer.
\<close>

record blockData = box +
  isBlock :: bool
  isVoid :: bool
  isPlaced :: bool
  worldLayer :: "real option"

text \<open>
  A block mesh: its position, the \<open>visible\<close> flag of the scene object, the colour of its
  material, the two shadow flags, and its \<open>userData\<close>. Every mesh pushed on \<open>worldBlocks\<close> is
  created with a \<open>userData\<close> object, so the test \<open>!blockData\<close> of the loops is never true.
\<close>

record block =
  b_position :: vec3
  visible :: bool
  material :: nat
  receiveShadow :: bool
  castShadow :: bool
  userData :: blockData

record playerState =
  position :: vec3
  velocity :: vec3
  isOnGround :: bool
  moveSpeed :: real
  jumpPower :: real
  gravity :: real
  attackDamage :: real
  attackRange :: real
  pickaxeBreakRange :: real
  hasVoidEscapePowerup :: bool
  isStuckInVoid :: bool
  wood :: real

definition FALL_THROUGH_HEIGHT :: real where
  "FALL_THROUGH_HEIGHT = 2"

text \<open>\<open>playerBody\<close>, built by \<open>createPlayer\<close> from the size 0.8 x 2 x 0.8.\<close>

definition playerBody :: box where
  "playerBody = \<lparr>minX = - (8 / 10) / 2, maxX = (8 / 10) / 2, minY = - 2 / 2, maxY = 2 / 2,
     minZ = - (8 / 10) / 2, maxZ = (8 / 10) / 2\<rparr>"

text \<open>The \<open>playerBox\<close> that the queries build around a position.\<close>

definition playerBoxAt :: "real \<Rightarrow> real \<Rightarrow> real \<Rightarrow> box" where
  "playerBoxAt px py pz =
     \<lparr>minX = px + minX playerBody, maxX = px + maxX playerBody,
      minY = py + minY playerBody, maxY = py + maxY playerBody,
      minZ = pz + minZ playerBody, maxZ = pz + maxZ playerBody\<rparr>"

text \<open>The strict overlap test of two boxes, as \<open>checkCollision\<close> and the void checks write it.\<close>

definition boxesOverlap :: "box \<Rightarrow> blockData \<Rightarrow> bool" where
  "boxesOverlap pb bd \<longleftrightarrow>
     maxX pb > minX bd \<and> minX pb < maxX bd \<and>
     maxY pb > minY bd \<and> minY pb < maxY bd \<and>
     maxZ pb > minZ bd \<and> minZ pb < maxZ bd"

text \<open>The horizontal test of the ground queries: the player's footprint at (x, z) over the block.\<close>

definition overBlock :: "real \<Rightarrow> real \<Rightarrow> blockData \<Rightarrow> bool" where
  "overBlock px pz bd \<longleftrightarrow>
     px + minX playerBody < maxX bd \<and> px + maxX playerBody > minX bd \<and>
     pz + minZ playerBody < maxZ bd \<and> pz + maxZ playerBody > minZ bd"

text \<open>
  The guard \<open>!blockData || !blockData.isBlock || blockData.isVoid || !block.visible\<close> that
  opens the loop body of every collision and ground query.
\<close>

definition skipBlock :: "block \<Rightarrow> bool" where
  "skipBlock b \<longleftrightarrow> \<not> isBlock (userData b) \<or> isVoid (userData b) \<or> \<not> visible b"

subsection \<open>Sky band and world layers\<close>

definition isInBlueSky :: "real \<Rightarrow> bool" where
  "isInBlueSky py \<longleftrightarrow> py > FALL_THROUGH_HEIGHT"

text \<open>The layer list that \<open>createWorld\<close> stores in \<open>worldLayers\<close>.\<close>

definition worldLayers :: "real list" where
  "worldLayers = [0, - 50, - 100, - 150]"

text \<open>
  \<open>getNextWorldLayerBelow\<close>: the layers sorted descending, the first one below \<open>currentY\<close>,
  else the last (lowest) one; on an empty list the source reads \<open>undefined\<close>.
\<close>

definition getNextWorldLayerBelow :: "real list \<Rightarrow> real \<Rightarrow> real option" where
  "getNextWorldLayerBelow layers currentY =
     (let sortedLayers = rev (sort layers) in
      case find (\<lambda>layerY. layerY < currentY) sortedLayers of
        Some layerY \<Rightarrow> Some layerY
      | None \<Rightarrow> (if sortedLayers = [] then None else Some (last sortedLayers)))"

subsection \<open>Collision and ground-height queries\<close>

fun checkCollisionLoop :: "box \<Rightarrow> block list \<Rightarrow> blockData option" where
  "checkCollisionLoop pb [] = None"
| "checkCollisionLoop pb (b # bs) =
     (if skipBlock b then checkCollisionLoop pb bs
      else if maxY (userData b) > FALL_THROUGH_HEIGHT then checkCollisionLoop pb bs
      else if boxesOverlap pb (userData b) then Some (userData b)
      else checkCollisionLoop pb bs)"

definition checkCollision :: "block list \<Rightarrow> real \<Rightarrow> real \<Rightarrow> real \<Rightarrow> blockData option" where
  "checkCollision worldBlocks newX newY newZ =
     (if isInBlueSky newY then None
      else checkCollisionLoop (playerBoxAt newX newY newZ) worldBlocks)"

text \<open>
  One pass of the loop body of \<open>getGroundHeight\<close> over a block; \<open>maxHeight\<close> is \<open>None\<close> for
  \<open>null\<close>. The step height 0.5 is the local constant \<open>maxStepHeight\<close>.
\<close>

definition raiseTo :: "real option \<Rightarrow> real \<Rightarrow> real option" where
  "raiseTo maxHeight blockTop =
     (case maxHeight of None \<Rightarrow> Some blockTop
      | Some h \<Rightarrow> if blockTop > h then Some blockTop else Some h)"

definition groundStep :: "real \<Rightarrow> real \<Rightarrow> real \<Rightarrow> bool \<Rightarrow> block \<Rightarrow> real option \<Rightarrow> real option" where
  "groundStep px pz currentY allowStepUp b maxHeight =
     (if skipBlock b then maxHeight
      else if maxY (userData b) > FALL_THROUGH_HEIGHT then maxHeight
      else if overBlock px pz (userData b) then
        (let playerBottom = currentY + minY playerBody; blockTop = maxY (userData b) in
         if blockTop \<le> playerBottom then raiseTo maxHeight blockTop
         else if allowStepUp \<and> blockTop \<le> playerBottom + 1 / 2 then raiseTo maxHeight blockTop
         else maxHeight)
      else maxHeight)"

definition getGroundHeight :: "block list \<Rightarrow> real \<Rightarrow> real \<Rightarrow> real \<Rightarrow> bool \<Rightarrow> real option" where
  "getGroundHeight worldBlocks px pz currentY allowStepUp =
     (if isInBlueSky currentY then None
      else fold (groundStep px pz currentY allowStepUp) worldBlocks None)"

text \<open>\<open>getGroundHeightOnLayer\<close>: the layer's own height, raised by every block of that layer
  (or of no layer) under the footprint. There is no test against \<open>FALL_THROUGH_HEIGHT\<close>.\<close>

definition layerStep :: "real \<Rightarrow> real \<Rightarrow> real \<Rightarrow> block \<Rightarrow> real \<Rightarrow> real" where
  "layerStep px pz layerY b maxHeight =
     (if skipBlock b then maxHeight
      else if worldLayer (userData b) \<noteq> Some layerY \<and> worldLayer (userData b) \<noteq> None then maxHeight
      else if overBlock px pz (userData b) then
        (if maxY (userData b) > maxHeight then maxY (userData b) else maxHeight)
      else maxHeight)"

definition getGroundHeightOnLayer :: "block list \<Rightarrow> real \<Rightarrow> real \<Rightarrow> real \<Rightarrow> real" where
  "getGroundHeightOnLayer worldBlocks px pz layerY =
     fold (layerStep px pz layerY) worldBlocks layerY"

text \<open>A ground block of \<open>createWorldLayer\<close> at grid cell (gx, gz) of the layer \<open>groundY\<close>.\<close>

definition groundBlock :: "real \<Rightarrow> real \<Rightarrow> real \<Rightarrow> nat \<Rightarrow> block" where
  "groundBlock gx groundY gz colour =
     \<lparr>b_position = \<lparr>vec_x = gx, vec_y = groundY - 1 / 2, vec_z = gz\<rparr>,
      visible = True, material = colour, receiveShadow = True, castShadow = True,
      userData = \<lparr>minX = gx - 1 / 2, maxX = gx + 1 / 2,
                  minY = (groundY - 1 / 2) - 1 / 2, maxY = (groundY - 1 / 2) + 1 / 2,
                  minZ = gz - 1 / 2, maxZ = gz + 1 / 2,
                  isBlock = True, isVoid = False, isPlaced = False,
                  worldLayer = Some groundY\<rparr>\<rparr>"

subsection \<open>Void trap detection\<close>

text \<open>\<open>checkIfPlayerInVoid\<close>: does the player's box at its position overlap a visible void block?\<close>

fun voidLoop :: "box \<Rightarrow> block list \<Rightarrow> bool" where
  "voidLoop pb [] = False"
| "voidLoop pb (b # bs) =
     (if \<not> isVoid (userData b) then voidLoop pb bs
      else if \<not> visible b then voidLoop pb bs
      else if boxesOverlap pb (userData b) then True
      else voidLoop pb bs)"

definition checkIfPlayerInVoid :: "block list \<Rightarrow> playerState \<Rightarrow> bool" where
  "checkIfPlayerInVoid worldBlocks ps =
     voidLoop (playerBoxAt (vec_x (position ps)) (vec_y (position ps)) (vec_z (position ps)))
       worldBlocks"

definition handleVoidTrap :: "block list \<Rightarrow> playerState \<Rightarrow> playerState" where
  "handleVoidTrap worldBlocks ps =
     (if checkIfPlayerInVoid worldBlocks ps then
        (if \<not> isStuckInVoid ps then ps\<lparr>isStuckInVoid := True\<rparr> else ps)
      else
        (if isStuckInVoid ps then ps\<lparr>isStuckInVoid := False\<rparr> else ps))"

subsection \<open>Mining\<close>

text \<open>The three block states of the data model, read off the flags of \<open>userData\<close>.\<close>

datatype blockState = Solid | Placed | Void

definition stateOf :: "block \<Rightarrow> blockState option" where
  "stateOf b =
     (if isBlock (userData b) \<and> \<not> isVoid (userData b) then
        (if isPlaced (userData b) then Some Placed else Some Solid)
      else if \<not> isBlock (userData b) \<and> isVoid (userData b) then Some Void
      else None)"

definition voidMaterial :: nat where
  "voidMaterial = 17"

text \<open>
  \<open>breakBlock\<close>: returns at once on a block whose \<open>isBlock\<close> is false; otherwise swaps the
  material, drops the shadows and sets the two flags. The block object stays where it is.
\<close>

definition breakBlock :: "block \<Rightarrow> block" where
  "breakBlock b =
     (if \<not> isBlock (userData b) then b
      else b\<lparr>material := voidMaterial, receiveShadow := False, castShadow := False,
             userData := (userData b)\<lparr>isBlock := False, isVoid := True\<rparr>\<rparr>)"

text \<open>
  \<open>breakBlock\<close> on the block object held at index \<open>i\<close> of \<open>worldBlocks\<close>; an index outside
  the array stands for the \<open>null\<close> argument, on which the source returns.
\<close>

definition breakBlockAt :: "nat \<Rightarrow> block list \<Rightarrow> block list" where
  "breakBlockAt i worldBlocks =
     (if i < length worldBlocks then worldBlocks[i := breakBlock (worldBlocks ! i)]
      else worldBlocks)"

text \<open>
  \<open>getTargetBlock\<close>. The view direction is what \<open>camera.getWorldDirection\<close> returns and is a
  parameter. The pair carried through the inner loop is \<open>closestBlock\<close> (its index in
  \<open>worldBlocks\<close>) with \<open>closestDistance\<close>; \<open>None\<close> is the initial \<open>null\<close> with \<open>Infinity\<close>.
\<close>

definition pointInside :: "vec3 \<Rightarrow> blockData \<Rightarrow> bool" where
  "pointInside c bd \<longleftrightarrow>
     vec_x c \<ge> minX bd \<and> vec_x c \<le> maxX bd \<and>
     vec_y c \<ge> minY bd \<and> vec_y c \<le> maxY bd \<and>
     vec_z c \<ge> minZ bd \<and> vec_z c \<le> maxZ bd"

definition centreDistance :: "vec3 \<Rightarrow> blockData \<Rightarrow> real" where
  "centreDistance start bd =
     sqrt ((vec_x start - (minX bd + maxX bd) / 2)\<^sup>2 +
           (vec_y start - (minY bd + maxY bd) / 2)\<^sup>2 +
           (vec_z start - (minZ bd + maxZ bd) / 2)\<^sup>2)"

definition targetStep :: "vec3 \<Rightarrow> vec3 \<Rightarrow> nat \<times> block \<Rightarrow> (nat \<times> real) option \<Rightarrow> (nat \<times> real) option" where
  "targetStep start c ib closest =
     (let b = snd ib; bd = userData b in
      if \<not> isBlock bd then closest
      else if isVoid bd then closest
      else if \<not> visible b then closest
      else if pointInside c bd then
        (let blockDistance = centreDistance start bd in
         case closest of
           None \<Rightarrow> Some (fst ib, blockDistance)
         | Some (j, closestDistance) \<Rightarrow>
             if blockDistance < closestDistance then Some (fst ib, blockDistance) else closest)
      else closest)"

fun targetMarch :: "block list \<Rightarrow> vec3 \<Rightarrow> vec3 \<Rightarrow> real \<Rightarrow> nat list \<Rightarrow> (nat \<times> real) option" where
  "targetMarch worldBlocks start dir checkDistance [] = None"
| "targetMarch worldBlocks start dir checkDistance (step # steps) =
     (let distance = real step * (1 / 2) in
      if distance > checkDistance then None
      else
        (let c = \<lparr>vec_x = vec_x start + vec_x dir * distance,
                  vec_y = vec_y start + vec_y dir * distance,
                  vec_z = vec_z start + vec_z dir * distance\<rparr> in
         case fold (targetStep start c) (enumerate 0 worldBlocks) None of
           Some found \<Rightarrow> Some found
         | None \<Rightarrow> targetMarch worldBlocks start dir checkDistance steps))"

definition getTargetBlock :: "block list \<Rightarrow> playerState \<Rightarrow> vec3 \<Rightarrow> nat option" where
  "getTargetBlock worldBlocks ps cameraDirection =
     (let checkDistance = pickaxeBreakRange ps;
          steps = nat \<lceil>checkDistance / (1 / 2)\<rceil> in
      map_option fst
        (targetMarch worldBlocks (position ps) cameraDirection checkDistance [1..<Suc steps]))"

subsection \<open>Building\<close>

text \<open>The occupancy loop of \<open>tryPlaceBlock\<close>: void and invisible blocks are passed over.\<close>

definition occupies :: "block \<Rightarrow> real \<Rightarrow> real \<Rightarrow> real \<Rightarrow> bool" where
  "occupies b blockX blockY blockZ \<longleftrightarrow>
     \<bar>vec_x (b_position b) - blockX\<bar> < 1 / 10 \<and>
     \<bar>vec_y (b_position b) - blockY\<bar> < 1 / 10 \<and>
     \<bar>vec_z (b_position b) - blockZ\<bar> < 1 / 10"

fun positionFree :: "block list \<Rightarrow> real \<Rightarrow> real \<Rightarrow> real \<Rightarrow> bool" where
  "positionFree [] blockX blockY blockZ = True"
| "positionFree (b # bs) blockX blockY blockZ =
     (if \<not> visible b \<or> isVoid (userData b) then positionFree bs blockX blockY blockZ
      else if occupies b blockX blockY blockZ then False
      else positionFree bs blockX blockY blockZ)"

definition woodMaterial :: nat where
  "woodMaterial = 9127187"

text \<open>The mesh that \<open>placeBlock\<close> creates; it has no \<open>worldLayer\<close> and no \<open>isVoid\<close>.\<close>

definition placedBlock :: "real \<Rightarrow> real \<Rightarrow> real \<Rightarrow> block" where
  "placedBlock bx by bz =
     \<lparr>b_position = \<lparr>vec_x = bx, vec_y = by, vec_z = bz\<rparr>,
      visible = True, material = woodMaterial, receiveShadow = True, castShadow = True,
      userData = \<lparr>minX = bx - 1 / 2, maxX = bx + 1 / 2,
                  minY = by - 1 / 2, maxY = by + 1 / 2,
                  minZ = bz - 1 / 2, maxZ = bz + 1 / 2,
                  isBlock = True, isVoid = False, isPlaced = True, worldLayer = None\<rparr>\<rparr>"

definition placeBlock :: "real \<Rightarrow> real \<Rightarrow> real \<Rightarrow> block list \<times> playerState \<Rightarrow> block list \<times> playerState" where
  "placeBlock bx by bz g =
     (case g of (worldBlocks, ps) \<Rightarrow>
        if wood ps < 1 then (worldBlocks, ps)
        else (worldBlocks @ [placedBlock bx by bz], ps\<lparr>wood := wood ps - 1\<rparr>))"

text \<open>\<open>Math.round\<close>: the nearest integer, a half rounded up.\<close>

definition jsRound :: "real \<Rightarrow> real" where
  "jsRound r = of_int \<lfloor>r + 1 / 2\<rfloor>"

text \<open>
  \<open>tryPlaceBlock\<close>: walks the view ray in steps of 0.5 up to distance 5, snaps each point to
  the grid, passes over cells nearer than 1.5 to the player and occupied cells, and places a
  block on the first cell left. The result pairs the returned boolean with the new state.
\<close>

fun placeMarch :: "vec3 \<Rightarrow> nat list \<Rightarrow> block list \<times> playerState \<Rightarrow> bool \<times> block list \<times> playerState" where
  "placeMarch dir [] g = (False, g)"
| "placeMarch dir (step # steps) g =
     (let playerPos = position (snd g);
          distance = real step * (1 / 2);
          blockX = jsRound (vec_x playerPos + vec_x dir * distance);
          blockY = jsRound (vec_y playerPos + vec_y dir * distance);
          blockZ = jsRound (vec_z playerPos + vec_z dir * distance);
          distanceToPlayer = sqrt ((blockX - vec_x playerPos)\<^sup>2 + (blockY - vec_y playerPos)\<^sup>2 +
                                   (blockZ - vec_z playerPos)\<^sup>2) in
      if distanceToPlayer < 3 / 2 then placeMarch dir steps g
      else if positionFree (fst g) blockX blockY blockZ then
        (True, placeBlock blockX blockY blockZ g)
      else placeMarch dir steps g)"

definition tryPlaceBlock :: "vec3 \<Rightarrow> block list \<times> playerState \<Rightarrow> bool \<times> block list \<times> playerState" where
  "tryPlaceBlock cameraDirection g =
     (if wood (snd g) < 1 then (False, g)
      else placeMarch cameraDirection [1..<Suc 10] g)"

subsection \<open>The player, its mesh and the camera\<close>

text \<open>
  \<open>ps\<close> is \<open>playerState\<close>, \<open>mesh\<close> is \<open>player.position\<close> (the position of the scene
  object, a copy of \<open>playerState.position\<close> made at the end of a tick) and \<open>camera\<close> is
  \<open>camera.position\<close>. The key map \<open>keys\<close> sends a key name to whether it is held; a name
  never pressed is \<open>undefined\<close> in the source, which is falsy.
\<close>

record actor =
  ps :: playerState
  mesh :: vec3
  camera :: vec3

type_synonym keymap = "string \<Rightarrow> bool"

text \<open>\<open>Math.atan2 (y, x)\<close> on the reals (the sign of a zero is not modelled).\<close>

definition atan2 :: "real \<Rightarrow> real \<Rightarrow> real" where
  "atan2 y x =
     (if 0 < x then arctan (y / x)
      else if x < 0 then (if 0 \<le> y then arctan (y / x) + pi else arctan (y / x) - pi)
      else if 0 < y then pi / 2
      else if y < 0 then - (pi / 2)
      else 0)"

definition cameraAngleOf :: "actor \<Rightarrow> real" where
  "cameraAngleOf g =
     atan2 (vec_x (camera g) - vec_x (mesh g)) (vec_z (camera g) - vec_z (mesh g))"

text \<open>
  The horizontal offset of the camera from the player's mesh, the two arguments of that
  \<open>Math.atan2\<close>, and its length. \<open>updatePlayer\<close> and the mouse handler put the camera at
  length 10.
\<close>

definition cameraOffsetX :: "actor \<Rightarrow> real" where
  "cameraOffsetX g = vec_x (camera g) - vec_x (mesh g)"

definition cameraOffsetZ :: "actor \<Rightarrow> real" where
  "cameraOffsetZ g = vec_z (camera g) - vec_z (mesh g)"

definition cameraDistanceXZ :: "actor \<Rightarrow> real" where
  "cameraDistanceXZ g = sqrt ((cameraOffsetX g)\<^sup>2 + (cameraOffsetZ g)\<^sup>2)"

subsection \<open>Directional jump\<close>

definition handleDirectionalJump :: "string \<Rightarrow> actor \<Rightarrow> actor" where
  "handleDirectionalJump key g =
     (if \<not> isOnGround (ps g) then g
      else
        (let jumpStrength = jumpPower (ps g);
             cameraAngle = cameraAngleOf g;
             p = ps g;
             p' =
               (if key = ''ArrowUp'' \<or> key = ''Up'' \<or> key = ''KeyW'' then
                  p\<lparr>velocity := \<lparr>vec_x = - sin cameraAngle * jumpStrength,
                                  vec_y = jumpStrength * (3 / 2),
                                  vec_z = - cos cameraAngle * jumpStrength\<rparr>\<rparr>
                else if key = ''ArrowDown'' \<or> key = ''Down'' \<or> key = ''KeyS'' then
                  p\<lparr>velocity := \<lparr>vec_x = sin cameraAngle * jumpStrength,
                                  vec_y = jumpStrength * (3 / 2),
                                  vec_z = cos cameraAngle * jumpStrength\<rparr>\<rparr>
                else if key = ''ArrowLeft'' \<or> key = ''Left'' \<or> key = ''KeyA'' then
                  p\<lparr>velocity := \<lparr>vec_x = sin (cameraAngle - pi / 2) * jumpStrength,
                                  vec_y = jumpStrength * (3 / 2),
                                  vec_z = cos (cameraAngle - pi / 2) * jumpStrength\<rparr>\<rparr>
                else if key = ''ArrowRight'' \<or> key = ''Right'' \<or> key = ''KeyD'' then
                  p\<lparr>velocity := \<lparr>vec_x = sin (cameraAngle + pi / 2) * jumpStrength,
                                  vec_y = jumpStrength * (3 / 2),
                                  vec_z = cos (cameraAngle + pi / 2) * jumpStrength\<rparr>\<rparr>
                else p)
         in g\<lparr>ps := p'\<lparr>isOnGround := False\<rparr>\<rparr>))"

subsection \<open>The player tick\<close>

definition shiftPressed :: "keymap \<Rightarrow> bool" where
  "shiftPressed keys \<longleftrightarrow> keys ''Shift'' \<or> keys ''ShiftLeft'' \<or> keys ''ShiftRight''"

definition upPressed :: "keymap \<Rightarrow> bool" where
  "upPressed keys \<longleftrightarrow> keys ''ArrowUp'' \<or> keys ''Up'' \<or> keys ''w'' \<or> keys ''W'' \<or> keys ''KeyW''"

definition downPressed :: "keymap \<Rightarrow> bool" where
  "downPressed keys \<longleftrightarrow>
     keys ''ArrowDown'' \<or> keys ''Down'' \<or> keys ''s'' \<or> keys ''S'' \<or> keys ''KeyS''"

definition leftPressed :: "keymap \<Rightarrow> bool" where
  "leftPressed keys \<longleftrightarrow>
     keys ''ArrowLeft'' \<or> keys ''Left'' \<or> keys ''a'' \<or> keys ''A'' \<or> keys ''KeyA''"

definition rightPressed :: "keymap \<Rightarrow> bool" where
  "rightPressed keys \<longleftrightarrow>
     keys ''ArrowRight'' \<or> keys ''Right'' \<or> keys ''d'' \<or> keys ''D'' \<or> keys ''KeyD''"

text \<open>The escape block of \<open>updatePlayer\<close>: a held charge is spent when any of the keys is held.\<close>

definition voidEscape :: "keymap \<Rightarrow> playerState \<Rightarrow> playerState" where
  "voidEscape keys p =
     (if isStuckInVoid p \<and> hasVoidEscapePowerup p then
        (if upPressed keys \<or> downPressed keys \<or> leftPressed keys \<or> rightPressed keys \<or>
            shiftPressed keys
         then p\<lparr>hasVoidEscapePowerup := False, isStuckInVoid := False\<rparr>
         else p)
      else p)"

definition addVelocityXZ :: "real \<Rightarrow> real \<Rightarrow> playerState \<Rightarrow> playerState" where
  "addVelocityXZ ax az p =
     p\<lparr>velocity := (velocity p)\<lparr>vec_x := vec_x (velocity p) + ax,
                                  vec_z := vec_z (velocity p) + az\<rparr>\<rparr>"

text \<open>Input accumulation: nothing while a shift key is held, else one push per held direction.\<close>

definition accumulateInput :: "keymap \<Rightarrow> real \<Rightarrow> playerState \<Rightarrow> playerState" where
  "accumulateInput keys cameraAngle p =
     (if shiftPressed keys then p
      else
        (let p1 = (if upPressed keys
                   then addVelocityXZ (- (sin cameraAngle * moveSpeed p))
                          (- (cos cameraAngle * moveSpeed p)) p
                   else p);
             p2 = (if downPressed keys
                   then addVelocityXZ (sin cameraAngle * moveSpeed p1)
                          (cos cameraAngle * moveSpeed p1) p1
                   else p1);
             p3 = (if leftPressed keys
                   then addVelocityXZ (sin (cameraAngle - pi / 2) * moveSpeed p2)
                          (cos (cameraAngle - pi / 2) * moveSpeed p2) p2
                   else p2);
             p4 = (if rightPressed keys
                   then addVelocityXZ (sin (cameraAngle + pi / 2) * moveSpeed p3)
                          (cos (cameraAngle + pi / 2) * moveSpeed p3) p3
                   else p3)
         in p4))"

definition applyFriction :: "playerState \<Rightarrow> playerState" where
  "applyFriction p =
     p\<lparr>velocity := (velocity p)\<lparr>vec_x := vec_x (velocity p) * (9 / 10),
                                  vec_z := vec_z (velocity p) * (9 / 10)\<rparr>\<rparr>"

definition applyGravity :: "bool \<Rightarrow> playerState \<Rightarrow> playerState" where
  "applyGravity isCurrentlyInBlueSky p =
     (if isCurrentlyInBlueSky \<or> \<not> isOnGround p
      then p\<lparr>velocity := (velocity p)\<lparr>vec_y := vec_y (velocity p) + gravity p\<rparr>\<rparr>
      else p)"

text \<open>
  The local variables \<open>newX\<close>, \<open>newY\<close>, \<open>newZ\<close> of \<open>updatePlayer\<close> together with
  \<open>playerState\<close>, whose \<open>position\<close> stays the position before the tick until the commit.
\<close>

record tick =
  newX :: real
  newY :: real
  newZ :: real
  tps :: playerState

definition proposeMove :: "keymap \<Rightarrow> actor \<Rightarrow> tick" where
  "proposeMove keys g =
     (let p = applyGravity (isInBlueSky (vec_y (position (ps g))))
                (applyFriction (accumulateInput keys (cameraAngleOf g) (ps g)))
      in \<lparr>newX = vec_x (position p) + vec_x (velocity p),
          newY = vec_y (position p) + vec_y (velocity p),
          newZ = vec_z (position p) + vec_z (velocity p),
          tps = p\<rparr>)"

text \<open>The sky-band branch: no block collision, only the landing test on the next layer below.\<close>

definition skyLanding :: "block list \<Rightarrow> real list \<Rightarrow> tick \<Rightarrow> tick" where
  "skyLanding worldBlocks layers t =
     (let t1 = t\<lparr>tps := (tps t)\<lparr>isOnGround := False\<rparr>\<rparr> in
      case getNextWorldLayerBelow layers (newY t1) of
        None \<Rightarrow> t1
      | Some nextLayer \<Rightarrow>
          (let groundHeightOnLayer = getGroundHeightOnLayer worldBlocks (newX t1) (newZ t1) nextLayer in
           if newY t1 < nextLayer + 10 \<and> newY t1 \<le> groundHeightOnLayer + 1 then
             t1\<lparr>newY := groundHeightOnLayer - minY playerBody + 1 / 10,
                tps := (tps t1)\<lparr>velocity := (velocity (tps t1))\<lparr>vec_y := 0\<rparr>,
                                isOnGround := True\<rparr>\<rparr>
           else t1))"

definition revertX :: "tick \<Rightarrow> tick" where
  "revertX t =
     t\<lparr>newX := vec_x (position (tps t)),
       tps := (tps t)\<lparr>velocity := (velocity (tps t))\<lparr>vec_x := 0\<rparr>\<rparr>\<rparr>"

definition revertZ :: "tick \<Rightarrow> tick" where
  "revertZ t =
     t\<lparr>newZ := vec_z (position (tps t)),
       tps := (tps t)\<lparr>velocity := (velocity (tps t))\<lparr>vec_z := 0\<rparr>\<rparr>\<rparr>"

definition revertXZ :: "tick \<Rightarrow> tick" where
  "revertXZ t =
     t\<lparr>newX := vec_x (position (tps t)), newZ := vec_z (position (tps t)),
       tps := (tps t)\<lparr>velocity := (velocity (tps t))\<lparr>vec_x := 0, vec_z := 0\<rparr>\<rparr>\<rparr>"

text \<open>
  The four-way case analysis on a lateral contact, shared by the X and the Z test:
  does the block stop the move?
\<close>

definition blocksLateral :: "real \<Rightarrow> blockData \<Rightarrow> bool" where
  "blocksLateral playerBottom c =
     (let blockTop = maxY c; blockBottom = minY c;
          playerTop = playerBottom + (maxY playerBody - minY playerBody) in
      if blockTop > playerBottom + 1 / 2 \<and> blockBottom < playerTop then True
      else if blockBottom > playerTop then False
      else if blockTop \<le> playerBottom + 1 / 2 \<and> blockBottom \<le> playerBottom then False
      else True)"

definition resolveX :: "block list \<Rightarrow> tick \<Rightarrow> tick" where
  "resolveX worldBlocks t =
     (let pos = position (tps t) in
      case checkCollision worldBlocks (newX t) (vec_y pos) (vec_z pos) of
        None \<Rightarrow> t
      | Some collisionX \<Rightarrow>
          if blocksLateral (vec_y pos + minY playerBody) collisionX then revertX t else t)"

definition resolveZ :: "block list \<Rightarrow> tick \<Rightarrow> tick" where
  "resolveZ worldBlocks t =
     (let pos = position (tps t) in
      case checkCollision worldBlocks (vec_x pos) (vec_y pos) (newZ t) of
        None \<Rightarrow> t
      | Some collisionZ \<Rightarrow>
          if blocksLateral (vec_y pos + minY playerBody) collisionZ then revertZ t else t)"

text \<open>
  The guard against walking onto higher ground, with its tolerance of 0.01. Both heights are
  asked without step-up and at the player's current height.
\<close>

definition antiExploit :: "block list \<Rightarrow> bool \<Rightarrow> tick \<Rightarrow> tick" where
  "antiExploit worldBlocks isCurrentlyInBlueSky t =
     (if \<not> isCurrentlyInBlueSky \<and> \<not> isInBlueSky (newY t) then
        (let pos = position (tps t) in
         case getGroundHeight worldBlocks (newX t) (newZ t) (vec_y pos) False of
           None \<Rightarrow> t
         | Some destinationGroundHeight \<Rightarrow>
             (case getGroundHeight worldBlocks (vec_x pos) (vec_z pos) (vec_y pos) False of
                None \<Rightarrow> t
              | Some currentGroundHeight \<Rightarrow>
                  if isOnGround (tps t) \<and> \<bar>vec_y (velocity (tps t))\<bar> < 1 / 100 then
                    (if destinationGroundHeight > currentGroundHeight + 1 / 100 then revertXZ t
                     else t)
                  else t))
      else t)"

definition resolveY :: "block list \<Rightarrow> tick \<Rightarrow> tick" where
  "resolveY worldBlocks t =
     (case checkCollision worldBlocks (newX t) (newY t) (newZ t) of
        None \<Rightarrow> t
      | Some collisionY \<Rightarrow>
          (let v = velocity (tps t) in
           if vec_y v > 0 then
             t\<lparr>newY := vec_y (position (tps t)), tps := (tps t)\<lparr>velocity := v\<lparr>vec_y := 0\<rparr>\<rparr>\<rparr>
           else if vec_y v < 0 then
             t\<lparr>newY := maxY collisionY - minY playerBody + 1 / 100,
               tps := (tps t)\<lparr>velocity := v\<lparr>vec_y := 0\<rparr>, isOnGround := True\<rparr>\<rparr>
           else if vec_y v = 0 \<and> \<bar>vec_x v\<bar> + \<bar>vec_z v\<bar> > 0 then
             (let playerBottom = newY t + minY playerBody; blockTop = maxY collisionY in
              if blockTop > playerBottom + 1 / 2 then revertXZ t else t)
           else t))"

definition landOn :: "real \<Rightarrow> tick \<Rightarrow> tick" where
  "landOn groundHeight t =
     t\<lparr>newY := groundHeight - minY playerBody + 1 / 10,
       tps := (tps t)\<lparr>velocity := (velocity (tps t))\<lparr>vec_y := 0\<rparr>, isOnGround := True\<rparr>\<rparr>"

text \<open>
  The ground test that closes the tick. A landing writes
  \<open>newY = groundHeight - playerBody.minY + 0.1\<close>, and the test of the next tick at rest is
  \<open>newY + playerBody.minY <= groundHeight + 0.1\<close>: over the reals the two sides are equal and
  the player stays grounded. In the doubles of the source the left-hand side can come out
  above the right-hand side. On the main ground (\<open>groundHeight\<close> 0) the landing writes the
  double nearest to 1.1, which is \<open>landedHeightInDoubles\<close> below and lies above 1.1; the test
  then compares 0.10000000000000009 with 0.1 and fails, \<open>isOnGround\<close> is cleared, and the
  player falls for one tick and lands again. At that height the definition below clears
  \<open>isOnGround\<close> as the source does; what the reals do not reproduce is that the landing writes
  that height, so on the main ground the source has the player airborne in every other tick
  and the model has it grounded in all of them.
\<close>

definition groundCheck :: "block list \<Rightarrow> tick \<Rightarrow> tick" where
  "groundCheck worldBlocks t =
     (case getGroundHeight worldBlocks (newX t) (newZ t) (vec_y (position (tps t))) False of
        None \<Rightarrow> t\<lparr>tps := (tps t)\<lparr>isOnGround := False\<rparr>\<rparr>
      | Some groundHeight \<Rightarrow>
          (let playerBottomAfterGravity = newY t + minY playerBody;
               currentPlayerBottom = vec_y (position (tps t)) + minY playerBody in
           if vec_y (velocity (tps t)) \<le> 0 \<and> playerBottomAfterGravity \<le> groundHeight + 1 / 10 then
             (let heightDifference = groundHeight - currentPlayerBottom in
              if vec_y (velocity (tps t)) < 0 then landOn groundHeight t
              else if \<bar>heightDifference\<bar> < 1 / 10 \<and> isOnGround (tps t) then landOn groundHeight t
              else if heightDifference > 0 then t\<lparr>tps := (tps t)\<lparr>isOnGround := False\<rparr>\<rparr>
              else t)
           else t\<lparr>tps := (tps t)\<lparr>isOnGround := False\<rparr>\<rparr>))"

text \<open>
  The commit: the position is written, the mesh copies it, and the camera is put at distance
  10 and height 8 from the mesh along \<open>cameraAngle\<close>.
\<close>

definition commit :: "real \<Rightarrow> actor \<Rightarrow> tick \<Rightarrow> actor" where
  "commit cameraAngle g t =
     (let pos = \<lparr>vec_x = newX t, vec_y = newY t, vec_z = newZ t\<rparr> in
      \<lparr>ps = (tps t)\<lparr>position := pos\<rparr>,
       mesh = pos,
       camera = \<lparr>vec_x = vec_x pos + sin cameraAngle * 10,
                 vec_y = vec_y pos + 8,
                 vec_z = vec_z pos + cos cameraAngle * 10\<rparr>\<rparr>)"

text \<open>
  In the sky-band branch the camera angle is taken again, after the mesh has moved and
  before the camera has.
\<close>

definition commitSky :: "actor \<Rightarrow> tick \<Rightarrow> actor" where
  "commitSky g t =
     (let pos = \<lparr>vec_x = newX t, vec_y = newY t, vec_z = newZ t\<rparr> in
      commit (cameraAngleOf (g\<lparr>mesh := pos\<rparr>)) g t)"

text \<open>The block-collision branch, from the X test to the ground test.\<close>

definition groundPath :: "block list \<Rightarrow> tick \<Rightarrow> tick" where
  "groundPath worldBlocks t =
     groundCheck worldBlocks
       (resolveY worldBlocks
          (antiExploit worldBlocks (isInBlueSky (vec_y (position (tps t))))
             (resolveZ worldBlocks (resolveX worldBlocks t))))"

text \<open>\<open>updatePlayer\<close> from the camera angle on: the part that runs when the player is free.\<close>

definition movePlayer :: "block list \<Rightarrow> real list \<Rightarrow> keymap \<Rightarrow> actor \<Rightarrow> actor" where
  "movePlayer worldBlocks layers keys g =
     (let t = proposeMove keys g in
      if isInBlueSky (vec_y (position (ps g))) \<or> isInBlueSky (newY t)
      then commitSky g (skyLanding worldBlocks layers t)
      else commit (cameraAngleOf g) g (groundPath worldBlocks t))"

definition updatePlayer :: "block list \<Rightarrow> real list \<Rightarrow> keymap \<Rightarrow> actor \<Rightarrow> actor" where
  "updatePlayer worldBlocks layers keys g =
     (let p = handleVoidTrap worldBlocks (ps g) in
      if isStuckInVoid p \<and> \<not> hasVoidEscapePowerup p then
        g\<lparr>ps := p\<lparr>velocity := (velocity p)\<lparr>vec_x := 0, vec_z := 0, vec_y := 0\<rparr>\<rparr>\<rparr>
      else movePlayer worldBlocks layers keys (g\<lparr>ps := voidEscape keys p\<rparr>))"

text \<open>\<open>animate\<close> calls \<open>updatePlayer\<close> once per frame: \<open>n\<close> frames with the same keys held.\<close>

fun playerTicks :: "nat \<Rightarrow> block list \<Rightarrow> real list \<Rightarrow> keymap \<Rightarrow> actor \<Rightarrow> actor" where
  "playerTicks 0 worldBlocks layers keys g = g"
| "playerTicks (Suc n) worldBlocks layers keys g =
     playerTicks n worldBlocks layers keys (updatePlayer worldBlocks layers keys g)"

subsection \<open>Guardian monsters\<close>

text \<open>
  A coin (its position and its \<open>collected\<close> flag) and a monster: the position of its scene
  object and the fields of its \<open>userData\<close> that target selection and the player's attack
  read or write. \<open>guardedCoin\<close> is the coin object the guardian refers to, as it is in the
  tick at hand; \<open>guardPosition\<close> is the pair (x, z). A monster that is no guardian has none
  of the guardian fields: \<open>aggressiveMode\<close> is then falsy, the two others \<open>None\<close>.
\<close>

record coin =
  c_position :: vec3
  collected :: bool

record monster =
  m_position :: vec3
  m_health :: real
  m_size :: real
  m_isStuckInVoid :: bool
  isGuardian :: bool
  guardedCoin :: "coin option"
  aggressiveMode :: bool
  aggressiveModeEndTime :: real
  guardPosition :: "(real \<times> real) option"

text \<open>What target selection leaves in \<open>targetX\<close>, \<open>targetZ\<close> and \<open>shouldMove\<close>.\<close>

record target =
  targetX :: real
  targetZ :: real
  shouldMove :: bool

definition horizontalDistance :: "real \<Rightarrow> real \<Rightarrow> real \<Rightarrow> real \<Rightarrow> real" where
  "horizontalDistance ax az bx bz = sqrt ((ax - bx)\<^sup>2 + (az - bz)\<^sup>2)"

text \<open>\<open>checkIfMonsterInVoid\<close>; a size of 0 is replaced by 0.8 (\<open>monsterData.size || 0.8\<close>).\<close>

definition checkIfMonsterInVoid :: "block list \<Rightarrow> monster \<Rightarrow> bool" where
  "checkIfMonsterInVoid worldBlocks m =
     (let monsterPos = m_position m;
          monsterSize = (if m_size m = 0 then 8 / 10 else m_size m) in
      voidLoop
        \<lparr>minX = vec_x monsterPos - monsterSize / 2, maxX = vec_x monsterPos + monsterSize / 2,
         minY = vec_y monsterPos - monsterSize / 2, maxY = vec_y monsterPos + monsterSize * (12 / 10),
         minZ = vec_z monsterPos - monsterSize / 2, maxZ = vec_z monsterPos + monsterSize / 2\<rparr>
        worldBlocks)"

text \<open>The first step of a monster's update: the stuck flag follows the void check.\<close>

definition monsterVoidStatus :: "block list \<Rightarrow> monster \<Rightarrow> monster" where
  "monsterVoidStatus worldBlocks m =
     (if checkIfMonsterInVoid worldBlocks m then
        (if \<not> m_isStuckInVoid m then m\<lparr>m_isStuckInVoid := True\<rparr> else m)
      else
        (if m_isStuckInVoid m then m\<lparr>m_isStuckInVoid := False\<rparr> else m))"

text \<open>
  The patrol step around the coin: a point at 0.7 guard radii from it in a random direction,
  taken with probability 0.05. The two numbers \<open>Math.random\<close> returns are parameters.
\<close>

definition patrolTarget :: "real \<Rightarrow> real \<Rightarrow> vec3 \<Rightarrow> target" where
  "patrolTarget rndAngle rndMove coinPos =
     (let angle = rndAngle * pi * 2 in
      \<lparr>targetX = vec_x coinPos + cos angle * 6 * (7 / 10),
       targetZ = vec_z coinPos + sin angle * 6 * (7 / 10),
       shouldMove = (rndMove > 95 / 100)\<rparr>)"

text \<open>
  Target selection of a guardian whose coin is not collected. \<open>now\<close> is \<open>Date.now () / 1000\<close>;
  the guard radius is 6, the alert radius 15, the far threshold 40, the duration 20.
\<close>

definition guardianTarget :: "real \<Rightarrow> real \<Rightarrow> real \<Rightarrow> vec3 \<Rightarrow> coin \<Rightarrow> monster \<Rightarrow> monster \<times> target" where
  "guardianTarget now rndAngle rndMove playerPos c m =
     (let monsterPos = m_position m;
          coinPos = c_position c;
          stay = \<lparr>targetX = vec_x monsterPos, targetZ = vec_z monsterPos, shouldMove = False\<rparr>;
          toPlayer = \<lparr>targetX = vec_x playerPos, targetZ = vec_z playerPos, shouldMove = True\<rparr>;
          toCoin = \<lparr>targetX = vec_x coinPos, targetZ = vec_z coinPos, shouldMove = True\<rparr>;
          playerDistanceFromCoin =
            horizontalDistance (vec_x coinPos) (vec_z coinPos) (vec_x playerPos) (vec_z playerPos);
          justEndedAggressive =
            (aggressiveMode m \<and> aggressiveModeEndTime m > 0 \<and>
             (now \<ge> aggressiveModeEndTime m \<or> playerDistanceFromCoin > 40));
          m1 = (if justEndedAggressive
                then m\<lparr>aggressiveMode := False, aggressiveModeEndTime := 0\<rparr> else m);
          distanceToCoin =
            horizontalDistance (vec_x coinPos) (vec_z coinPos) (vec_x monsterPos) (vec_z monsterPos);
          playerDistanceToCoin = playerDistanceFromCoin in
      if aggressiveMode m1 then (m1, toPlayer)
      else if justEndedAggressive \<or>
              (case guardPosition m1 of
                 None \<Rightarrow> False
               | Some gp \<Rightarrow>
                   horizontalDistance (fst gp) (snd gp) (vec_x monsterPos) (vec_z monsterPos) > 6)
      then
        (case guardPosition m1 of
           Some gp \<Rightarrow> (m1, \<lparr>targetX = fst gp, targetZ = snd gp, shouldMove = True\<rparr>)
         | None \<Rightarrow> (m1, toCoin))
      else if playerDistanceToCoin < 15 then
        (let m2 = (if playerDistanceToCoin < 8 \<and> \<not> aggressiveMode m1
                   then m1\<lparr>aggressiveMode := True, aggressiveModeEndTime := now + 20\<rparr>
                   else m1) in
         if distanceToCoin < 6 * 2 then (m2, toPlayer) else (m2, toCoin))
      else
        (case guardPosition m1 of
           Some gp \<Rightarrow>
             (let distanceToGuardPos =
                    horizontalDistance (fst gp) (snd gp) (vec_x monsterPos) (vec_z monsterPos) in
              if distanceToGuardPos > 1 then
                (m1, \<lparr>targetX = fst gp, targetZ = snd gp, shouldMove = True\<rparr>)
              else if distanceToCoin > 6 then (m1, toCoin)
              else if distanceToCoin < 6 * (1 / 2) then (m1, patrolTarget rndAngle rndMove coinPos)
              else (m1, stay))
         | None \<Rightarrow>
             if distanceToCoin > 6 then (m1, toCoin)
             else if distanceToCoin < 6 * (1 / 2) then (m1, patrolTarget rndAngle rndMove coinPos)
             else (m1, stay)))"

text \<open>
  The head of a monster's update in \<open>updateMonsters\<close>, up to the choice of the target: the
  void check, then, unless the monster is stuck, the guardian logic (for a guardian with a
  coin that is not collected) or the chase of the player. Moving toward the target and the
  monster's own attack come after this and are not modelled.
\<close>

definition monsterThink :: "block list \<Rightarrow> real \<Rightarrow> real \<Rightarrow> real \<Rightarrow> vec3 \<Rightarrow> monster \<Rightarrow> monster \<times> target" where
  "monsterThink worldBlocks now rndAngle rndMove playerPos m =
     (let m0 = monsterVoidStatus worldBlocks m;
          stay = \<lparr>targetX = vec_x (m_position m0), targetZ = vec_z (m_position m0),
                  shouldMove = False\<rparr> in
      if m_isStuckInVoid m0 then (m0, stay)
      else
        (case (if isGuardian m0 then guardedCoin m0 else None) of
           Some c \<Rightarrow>
             if \<not> collected c then guardianTarget now rndAngle rndMove playerPos c m0
             else (m0, \<lparr>targetX = vec_x playerPos, targetZ = vec_z playerPos, shouldMove = True\<rparr>)
         | None \<Rightarrow>
             (m0, \<lparr>targetX = vec_x playerPos, targetZ = vec_z playerPos, shouldMove = True\<rparr>)))"

text \<open>
  The player's attack on one monster, as the loop of \<open>attackMonsters\<close> does it: a monster
  within the attack range loses health, and a guardian among them turns aggressive for 20
  seconds. \<open>attackMonsters\<close> does nothing while the attack cooldown runs.
\<close>

definition attackDistance :: "playerState \<Rightarrow> monster \<Rightarrow> real" where
  "attackDistance p m =
     (let dx = vec_x (m_position m) - vec_x (position p);
          dz = vec_z (m_position m) - vec_z (position p);
          dy = vec_y (m_position m) - vec_y (position p)
      in sqrt (dx * dx + dy * dy + dz * dz))"

definition attackMonster :: "real \<Rightarrow> playerState \<Rightarrow> monster \<Rightarrow> monster" where
  "attackMonster now p m =
     (let distance = attackDistance p m in
      if distance \<le> attackRange p then
        (let m1 = m\<lparr>m_health := m_health m - attackDamage p\<rparr> in
         if isGuardian m1 then m1\<lparr>aggressiveMode := True, aggressiveModeEndTime := now + 20\<rparr>
         else m1)
      else m)"

definition attackMonsters :: "real \<Rightarrow> real \<Rightarrow> playerState \<Rightarrow> monster list \<Rightarrow> monster list" where
  "attackMonsters attackCooldown now p monsters =
     (if attackCooldown > 0 then monsters else map (attackMonster now p) monsters)"

text \<open>
  A guardian as \<open>createCoinWithGuardians\<close> makes it (level 8), two units from its coin at the
  origin of the main layer, standing on its guard position.
\<close>

definition originCoin :: coin where
  "originCoin = \<lparr>c_position = \<lparr>vec_x = 0, vec_y = 1 / 2, vec_z = 0\<rparr>, collected = False\<rparr>"

definition guardian :: monster where
  "guardian =
     \<lparr>m_position = \<lparr>vec_x = 2, vec_y = 1 / 2, vec_z = 0\<rparr>, m_health = 310, m_size = 16 / 10,
      m_isStuckInVoid = False, isGuardian = True, guardedCoin = Some originCoin,
      aggressiveMode = False, aggressiveModeEndTime = 0, guardPosition = Some (2, 0)\<rparr>"

text \<open>
  A guardian whose logic runs in the tick: it guards the coin \<open>c\<close>, the coin is not collected
  and the monster is not inside a void block. \<open>playerFromCoin\<close> is the horizontal distance of
  the player from the coin, as the guardian logic takes it.
\<close>

definition activeGuardian :: "block list \<Rightarrow> monster \<Rightarrow> coin \<Rightarrow> bool" where
  "activeGuardian worldBlocks m c \<longleftrightarrow>
     isGuardian m \<and> guardedCoin m = Some c \<and> \<not> collected c \<and>
     \<not> checkIfMonsterInVoid worldBlocks m"

definition playerFromCoin :: "coin \<Rightarrow> vec3 \<Rightarrow> real" where
  "playerFromCoin c playerPos =
     horizontalDistance (vec_x (c_position c)) (vec_z (c_position c)) (vec_x playerPos) (vec_z playerPos)"

subsection \<open>Concrete worlds and players\<close>

text \<open>
  Two neighbouring ground blocks of the main layer, the first one broken. They serve as the
  concrete input of the examples below.
\<close>

definition trapWorld :: "block list" where
  "trapWorld = [breakBlock (groundBlock 0 0 0 9127187), groundBlock 1 0 0 9127187]"

text \<open>A player at rest with the initial constants of \<open>playerState\<close>.\<close>

definition restingPlayer :: "real \<Rightarrow> real \<Rightarrow> real \<Rightarrow> playerState" where
  "restingPlayer px py pz =
     \<lparr>position = \<lparr>vec_x = px, vec_y = py, vec_z = pz\<rparr>,
      velocity = \<lparr>vec_x = 0, vec_y = 0, vec_z = 0\<rparr>,
      isOnGround = True, moveSpeed = 1 / 10, jumpPower = 3 / 10, gravity = - (2 / 100),
      attackDamage = 18, attackRange = 5, pickaxeBreakRange = 4,
      hasVoidEscapePowerup = False, isStuckInVoid = False, wood = 0\<rparr>"

text \<open>The player with its mesh on it and the camera at the offset the commit gives it for angle 0.\<close>

definition actorOf :: "playerState \<Rightarrow> actor" where
  "actorOf p =
     \<lparr>ps = p, mesh = position p,
      camera = \<lparr>vec_x = vec_x (position p), vec_y = vec_y (position p) + 8,
                vec_z = vec_z (position p) + 10\<rparr>\<rparr>"

text \<open>
  The player with its mesh on it and the camera at a given offset from it: the mouse handler
  turns the camera around the player, and (6, 8, 8) is at horizontal distance 10 like every
  offset it produces.
\<close>

definition cameraAt :: "real \<Rightarrow> real \<Rightarrow> real \<Rightarrow> playerState \<Rightarrow> actor" where
  "cameraAt ox oy oz p =
     \<lparr>ps = p, mesh = position p,
      camera = \<lparr>vec_x = vec_x (position p) + ox, vec_y = vec_y (position p) + oy,
                vec_z = vec_z (position p) + oz\<rparr>\<rparr>"

definition holding :: "string \<Rightarrow> keymap" where
  "holding key = (\<lambda>k. k = key)"

text \<open>The same player inside the broken block of \<open>trapWorld\<close>, holding an escape charge.\<close>

definition chargedPlayer :: playerState where
  "chargedPlayer = (restingPlayer 0 (1 / 2) 0)\<lparr>hasVoidEscapePowerup := True\<rparr>"

text \<open>The two void-trap flags of the player, read together.\<close>

definition trapFlags :: "playerState \<Rightarrow> bool \<times> bool" where
  "trapFlags p = (hasVoidEscapePowerup p, isStuckInVoid p)"

subsection \<open>The destination of a tick and what a phase keeps\<close>

text \<open>
  The horizontal destination that \<open>updatePlayer\<close> proposes: \<open>newX\<close> and \<open>newZ\<close> as they
  are when the guard against walking up is reached, after the X and the Z test.
\<close>

definition proposedDestination :: "block list \<Rightarrow> keymap \<Rightarrow> actor \<Rightarrow> real \<times> real" where
  "proposedDestination worldBlocks keys g =
     (let t = resolveZ worldBlocks (resolveX worldBlocks (proposeMove keys g))
      in (newX t, newZ t))"

text \<open>Writing the two void-trap flags, on a player and on the player of a tick.\<close>

definition setTrapFlags :: "bool \<Rightarrow> bool \<Rightarrow> playerState \<Rightarrow> playerState" where
  "setTrapFlags a b p = p\<lparr>hasVoidEscapePowerup := a, isStuckInVoid := b\<rparr>"

definition liftTrapFlags :: "bool \<Rightarrow> bool \<Rightarrow> tick \<Rightarrow> tick" where
  "liftTrapFlags a b t = t\<lparr>tps := setTrapFlags a b (tps t)\<rparr>"

text \<open>The vertical part of a tick, which the lateral tests do not touch.\<close>

definition vertState :: "tick \<Rightarrow> real \<times> vec3 \<times> bool \<times> real" where
  "vertState t = (newY t, position (tps t), isOnGround (tps t), vec_y (velocity (tps t)))"

text \<open>A tick whose horizontal move has been taken back.\<close>

definition revertedXZ :: "tick \<Rightarrow> bool" where
  "revertedXZ t \<longleftrightarrow>
     newX t = vec_x (position (tps t)) \<and> newZ t = vec_z (position (tps t)) \<and>
     vec_x (velocity (tps t)) = 0 \<and> vec_z (velocity (tps t)) = 0"

text \<open>A platform of \<open>createWorld\<close>: a box of the given size around its centre, on a layer.\<close>

definition platformBlock :: "real \<Rightarrow> real \<Rightarrow> real \<Rightarrow> real \<Rightarrow> real \<Rightarrow> real \<Rightarrow> real \<Rightarrow> block" where
  "platformBlock cx cy cz width height depth layerY =
     \<lparr>b_position = \<lparr>vec_x = cx, vec_y = cy, vec_z = cz\<rparr>,
      visible = True, material = 3066993, receiveShadow = True, castShadow = True,
      userData = \<lparr>minX = cx - width / 2, maxX = cx + width / 2,
                  minY = cy - height / 2, maxY = cy + height / 2,
                  minZ = cz - depth / 2, maxZ = cz + depth / 2,
                  isBlock = True, isVoid = False, isPlaced = False,
                  worldLayer = Some layerY\<rparr>\<rparr>"

text \<open>
  Two platforms of the layer -50 side by side, tops at -46.5 and at -46.5 + \<open>rise\<close>.
\<close>

definition stepWorld :: "real \<Rightarrow> block list" where
  "stepWorld rise =
     [platformBlock 0 (- 47) 0 2 1 2 (- 50), platformBlock 2 (- 47 + rise) 0 2 1 2 (- 50)]"

text \<open>
  The player at (px, py, 0) moving along x at \<open>vx\<close> with no vertical velocity, grounded or
  not, and the camera behind it at angle 0. At height -45.4 it is on the first platform of
  \<open>stepWorld\<close>, 0.1 above its top as a landing leaves it.
\<close>

definition strider :: "real \<Rightarrow> real \<Rightarrow> real \<Rightarrow> bool \<Rightarrow> actor" where
  "strider px py vx grounded =
     actorOf ((restingPlayer px py 0)\<lparr>velocity := \<lparr>vec_x = vx, vec_y = 0, vec_z = 0\<rparr>,
                                       isOnGround := grounded\<rparr>)"

text \<open>
  The value of \<open>groundHeight - playerBody.minY + 0.1\<close> in IEEE doubles for \<open>groundHeight\<close> 0:
  0 + 1 is exact, and 1 + 0.1 is rounded to the double nearest to 1.1.
\<close>

definition landedHeightInDoubles :: real where
  "landedHeightInDoubles = 4953959590107546 / 2 ^ 52"

definition noKeys :: keymap where
  "noKeys = (\<lambda>k. False)"

subsection \<open>Elevated blocks\<close>

text \<open>A block whose top face is above \<open>FALL_THROUGH_HEIGHT\<close>, and one that is not a hole.\<close>

definition elevated :: "block \<Rightarrow> bool" where
  "elevated b \<longleftrightarrow> maxY (userData b) > FALL_THROUGH_HEIGHT"

definition elevatedSolid :: "block \<Rightarrow> bool" where
  "elevatedSolid b \<longleftrightarrow> elevated b \<and> \<not> isVoid (userData b)"

text \<open>
  A ground block of the main layer under the first platform of \<open>createWorld\<close> (centre
  (5, 2, 5), size 3 x 1 x 3, top at 2.5), and a player falling onto it from height 3.5.
\<close>

definition skyWorld :: "block list" where
  "skyWorld = [groundBlock 5 0 5 9127187, platformBlock 5 2 5 3 1 3 0]"

definition faller :: actor where
  "faller = actorOf ((restingPlayer 5 (7 / 2) 5)\<lparr>isOnGround := False\<rparr>)"

subsection \<open>Breaking a block and building on its cell\<close>

text \<open>A block that is the unit cube around the grid cell (bx, by, bz), as \<open>placeBlock\<close> makes it.\<close>

definition unitBoxAt :: "real \<Rightarrow> real \<Rightarrow> real \<Rightarrow> block \<Rightarrow> bool" where
  "unitBoxAt bx by bz b \<longleftrightarrow>
     b_position b = \<lparr>vec_x = bx, vec_y = by, vec_z = bz\<rparr> \<and>
     minX (userData b) = bx - 1 / 2 \<and> maxX (userData b) = bx + 1 / 2 \<and>
     minY (userData b) = by - 1 / 2 \<and> maxY (userData b) = by + 1 / 2 \<and>
     minZ (userData b) = bz - 1 / 2 \<and> maxZ (userData b) = bz + 1 / 2"

text \<open>\<open>breakBlock\<close> on the block at index \<open>i\<close>, then \<open>placeBlock\<close> at the given coordinates.\<close>

definition breakThenPlace :: "nat \<Rightarrow> real \<Rightarrow> real \<Rightarrow> real \<Rightarrow> block list \<times> playerState \<Rightarrow> block list \<times> playerState" where
  "breakThenPlace i bx by bz g = placeBlock bx by bz (breakBlockAt i (fst g), snd g)"

text \<open>
  A ground block of the main layer with a block that the player has placed on it, on the
  grid cell (2, 0, 0), so that its lower half is sunk in the ground and its top is at 0.5; and
  a player six cells away with three pieces of wood.
\<close>

definition cellWorld :: "block list" where
  "cellWorld = [groundBlock 2 0 0 9127187, placedBlock 2 0 0]"

definition builder :: playerState where
  "builder = (restingPlayer (- 4) (11 / 10) 0)\<lparr>wood := 3\<rparr>"

subsection \<open>Guardians in aggressive mode\<close>

text \<open>
  The guardian in aggressive mode until time 120, and the same guardian standing in the
  broken block of \<open>trapWorld\<close>.
\<close>

definition angryGuardian :: monster where
  "angryGuardian = guardian\<lparr>aggressiveMode := True, aggressiveModeEndTime := 120\<rparr>"

definition strandedGuardian :: monster where
  "strandedGuardian = angryGuardian\<lparr>m_position := \<lparr>vec_x = 0, vec_y = 1 / 2, vec_z = 0\<rparr>\<rparr>"

section \<open>Ground height in the sky band\<close>

text \<open>
  C1 (as the code has it). For a reference height in the sky band, above
  \<open>FALL_THROUGH_HEIGHT = 2\<close>, \<open>getGroundHeight\<close> returns \<open>null\<close> for every position, every
  world and either value of \<open>allowStepUp\<close>: it reports no ground and redirects nowhere.
\<close>

theorem getGroundHeight_sky_band_null:
  "currentY > FALL_THROUGH_HEIGHT \<Longrightarrow>
     getGroundHeight worldBlocks px pz currentY allowStepUp = None"
  by (simp add: getGroundHeight_def isInBlueSky_def)

theorem getGroundHeight_sky_band_null_witness:
  "(3::real) > FALL_THROUGH_HEIGHT \<and>
     getGroundHeight [groundBlock 0 0 0 9127187] 0 0 3 False = None"
  using getGroundHeight_sky_band_null [of 3 "[groundBlock 0 0 0 9127187]" 0 0 False]
  by (simp add: FALL_THROUGH_HEIGHT_def)

text \<open>
  C1 (as the specification states it) fails: over the ground block at the origin of the main
  layer, whose top is at height 0, the query at reference height 3 returns \<open>null\<close>, although
  the nearest lower layer is the layer 0 and the ground there is at height 0.
\<close>

theorem getGroundHeight_sky_band_counterexample:
  "getNextWorldLayerBelow worldLayers 3 = Some 0 \<and>
   getGroundHeightOnLayer [groundBlock 0 0 0 9127187] 0 0 0 = 0 \<and>
   getGroundHeight [groundBlock 0 0 0 9127187] 0 0 3 False \<noteq> Some 0 \<and>
   getGroundHeight [groundBlock 0 0 0 9127187] 0 0 3 False = None"
  by (simp add: getNextWorldLayerBelow_def worldLayers_def getGroundHeightOnLayer_def
      layerStep_def skipBlock_def groundBlock_def overBlock_def playerBody_def
      getGroundHeight_def isInBlueSky_def FALL_THROUGH_HEIGHT_def)

section \<open>Void blocks and the queries\<close>

lemma fold_filter_skip:
  "(\<And>b m. \<not> P b \<Longrightarrow> f b m = m) \<Longrightarrow> fold f (filter P xs) m = fold f xs m"
  by (induction xs arbitrary: m) simp_all

lemma checkCollisionLoop_filter:
  "(\<And>b. \<not> P b \<Longrightarrow> skipBlock b \<or> maxY (userData b) > FALL_THROUGH_HEIGHT) \<Longrightarrow>
     checkCollisionLoop pb (filter P bs) = checkCollisionLoop pb bs"
  by (induction bs) auto

lemma checkCollisionLoop_origin:
  "checkCollisionLoop pb bs = Some bd \<Longrightarrow>
     \<exists>b \<in> set bs. userData b = bd \<and> \<not> skipBlock b \<and> maxY bd \<le> FALL_THROUGH_HEIGHT \<and>
        boxesOverlap pb bd"
  by (induction bs) (auto split: if_splits)

lemma raiseTo_cases: "raiseTo m t = Some t \<or> raiseTo m t = m"
  by (auto simp: raiseTo_def split: option.splits)

lemma groundStep_cases:
  "groundStep px pz cy a b m = m \<or>
   (groundStep px pz cy a b m = Some (maxY (userData b)) \<and> \<not> skipBlock b \<and>
      maxY (userData b) \<le> FALL_THROUGH_HEIGHT \<and> overBlock px pz (userData b))"
  using raiseTo_cases [of m "maxY (userData b)"]
  by (auto simp: groundStep_def Let_def)

lemma fold_groundStep_origin:
  "fold (groundStep px pz cy a) bs m = Some h \<Longrightarrow>
     m = Some h \<or> (\<exists>b \<in> set bs. \<not> skipBlock b \<and> maxY (userData b) = h \<and>
        maxY (userData b) \<le> FALL_THROUGH_HEIGHT \<and> overBlock px pz (userData b))"
proof (induction bs arbitrary: m)
  case Nil
  then show ?case by simp
next
  case (Cons b bs)
  from Cons.prems have "fold (groundStep px pz cy a) bs (groundStep px pz cy a b m) = Some h"
    by simp
  from Cons.IH [OF this] groundStep_cases [of px pz cy a b m]
  show ?case by auto
qed

lemma checkCollisionLoop_ignores_void:
  "checkCollisionLoop pb (filter (\<lambda>b. \<not> isVoid (userData b)) bs) = checkCollisionLoop pb bs"
  by (rule checkCollisionLoop_filter) (simp add: skipBlock_def)

lemma fold_groundStep_ignores_void:
  "fold (groundStep px pz cy a) (filter (\<lambda>b. \<not> isVoid (userData b)) bs) m =
     fold (groundStep px pz cy a) bs m"
  by (rule fold_filter_skip) (simp add: groundStep_def skipBlock_def)

lemma checkCollision_ignores_void:
  "checkCollision (filter (\<lambda>b. \<not> isVoid (userData b)) worldBlocks) px py pz =
     checkCollision worldBlocks px py pz"
  by (simp add: checkCollision_def checkCollisionLoop_ignores_void)

lemma getGroundHeight_ignores_void:
  "getGroundHeight (filter (\<lambda>b. \<not> isVoid (userData b)) worldBlocks) px pz cy a =
     getGroundHeight worldBlocks px pz cy a"
  by (simp add: getGroundHeight_def fold_groundStep_ignores_void)

lemma targetStep_cases:
  "targetStep start c ib acc = acc \<or>
   (\<exists>d. targetStep start c ib acc = Some (fst ib, d) \<and> isBlock (userData (snd ib)) \<and>
      \<not> isVoid (userData (snd ib)) \<and> visible (snd ib))"
  by (auto simp: targetStep_def Let_def split: option.splits)

lemma fold_targetStep_origin:
  "fold (targetStep start c) ibs acc = Some (i, d) \<Longrightarrow>
     (\<exists>d'. acc = Some (i, d')) \<or>
     (\<exists>b. (i, b) \<in> set ibs \<and> isBlock (userData b) \<and> \<not> isVoid (userData b) \<and> visible b)"
proof (induction ibs arbitrary: acc)
  case Nil
  then show ?case by auto
next
  case (Cons ib ibs)
  from Cons.prems have "fold (targetStep start c) ibs (targetStep start c ib acc) = Some (i, d)"
    by simp
  from Cons.IH [OF this] targetStep_cases [of start c ib acc]
  show ?case by (cases ib) auto
qed

lemma targetMarch_origin:
  "targetMarch w start dir cd steps = Some (i, d) \<Longrightarrow>
     i < length w \<and> isBlock (userData (w ! i)) \<and> \<not> isVoid (userData (w ! i)) \<and> visible (w ! i)"
proof (induction steps)
  case Nil
  then show ?case by simp
next
  case (Cons step steps)
  show ?case
  proof (cases "real step * (1 / 2) > cd")
    case True
    with Cons.prems show ?thesis by simp
  next
    case False
    let ?c = "\<lparr>vec_x = vec_x start + vec_x dir * (real step * (1 / 2)),
               vec_y = vec_y start + vec_y dir * (real step * (1 / 2)),
               vec_z = vec_z start + vec_z dir * (real step * (1 / 2))\<rparr>"
    show ?thesis
    proof (cases "fold (targetStep start ?c) (enumerate 0 w) None")
      case None
      with False Cons show ?thesis by (simp add: Let_def)
    next
      case (Some found)
      with False Cons.prems have "fold (targetStep start ?c) (enumerate 0 w) None = Some (i, d)"
        by (simp add: Let_def)
      from fold_targetStep_origin [OF this]
      show ?thesis by (auto simp: in_set_enumerate_eq)
    qed
  qed
qed

text \<open>
  C4. No query returns or counts a void block. A block data that \<open>checkCollision\<close> reports
  belongs to a block of the world and is not void, and the answer is the same with every void
  block taken out of the world; a height that \<open>getGroundHeight\<close> returns is the top of a block
  that is not void, and the answer is the same without the void blocks; the block that
  \<open>getTargetBlock\<close> selects (by its index in \<open>worldBlocks\<close>) is not void. This holds for every
  world, position, reference height, player state and view direction.
\<close>

theorem void_blocks_never_returned:
  "(checkCollision worldBlocks px py pz = Some bd \<longrightarrow>
      \<not> isVoid bd \<and> (\<exists>b \<in> set worldBlocks. userData b = bd)) \<and>
   checkCollision (filter (\<lambda>b. \<not> isVoid (userData b)) worldBlocks) px py pz =
     checkCollision worldBlocks px py pz \<and>
   (getGroundHeight worldBlocks px pz currentY allowStepUp = Some h \<longrightarrow>
      (\<exists>b \<in> set worldBlocks. \<not> isVoid (userData b) \<and> maxY (userData b) = h)) \<and>
   getGroundHeight (filter (\<lambda>b. \<not> isVoid (userData b)) worldBlocks) px pz currentY allowStepUp =
     getGroundHeight worldBlocks px pz currentY allowStepUp \<and>
   (getTargetBlock worldBlocks p cameraDirection = Some i \<longrightarrow>
      i < length worldBlocks \<and> \<not> isVoid (userData (worldBlocks ! i)))"
proof (intro conjI impI)
  assume "checkCollision worldBlocks px py pz = Some bd"
  then have "checkCollisionLoop (playerBoxAt px py pz) worldBlocks = Some bd"
    by (simp add: checkCollision_def split: if_splits)
  from checkCollisionLoop_origin [OF this]
  show "\<not> isVoid bd" and "\<exists>b \<in> set worldBlocks. userData b = bd"
    by (auto simp: skipBlock_def)
next
  show "checkCollision (filter (\<lambda>b. \<not> isVoid (userData b)) worldBlocks) px py pz =
     checkCollision worldBlocks px py pz"
    by (rule checkCollision_ignores_void)
next
  assume "getGroundHeight worldBlocks px pz currentY allowStepUp = Some h"
  then have "fold (groundStep px pz currentY allowStepUp) worldBlocks None = Some h"
    by (simp add: getGroundHeight_def split: if_splits)
  from fold_groundStep_origin [OF this]
  show "\<exists>b \<in> set worldBlocks. \<not> isVoid (userData b) \<and> maxY (userData b) = h"
    by (auto simp: skipBlock_def)
next
  show "getGroundHeight (filter (\<lambda>b. \<not> isVoid (userData b)) worldBlocks) px pz currentY allowStepUp =
     getGroundHeight worldBlocks px pz currentY allowStepUp"
    by (rule getGroundHeight_ignores_void)
next
  assume "getTargetBlock worldBlocks p cameraDirection = Some i"
  then obtain d where "targetMarch worldBlocks (position p) cameraDirection (pickaxeBreakRange p)
      [1..<Suc (nat \<lceil>pickaxeBreakRange p / (1 / 2)\<rceil>)] = Some (i, d)"
    by (auto simp: getTargetBlock_def Let_def)
  from targetMarch_origin [OF this]
  show "i < length worldBlocks" and "\<not> isVoid (userData (worldBlocks ! i))" by auto
qed

text \<open>
  In the world of two ground blocks with the first one broken, a player box that overlaps
  both collides with the second, the ground under a footprint over both is the top of the
  second, and a view ray that passes through the first selects the second.
\<close>

theorem void_blocks_never_returned_witness:
  "checkCollision trapWorld (8 / 10) (1 / 2) 0 = Some (userData (groundBlock 1 0 0 9127187)) \<and>
   \<not> isVoid (userData (groundBlock 1 0 0 9127187)) \<and>
   getGroundHeight trapWorld (8 / 10) 0 1 False = Some 0 \<and>
   (\<exists>b \<in> set trapWorld. \<not> isVoid (userData b) \<and> maxY (userData b) = 0) \<and>
   getTargetBlock trapWorld (restingPlayer (- (4 / 10)) (- (1 / 2)) 0)
     \<lparr>vec_x = 1, vec_y = 0, vec_z = 0\<rparr> = Some 1 \<and>
   \<not> isVoid (userData (trapWorld ! 1))"
proof -
  have h1: "checkCollision trapWorld (8 / 10) (1 / 2) 0 = Some (userData (groundBlock 1 0 0 9127187))"
    by (simp add: trapWorld_def checkCollision_def isInBlueSky_def FALL_THROUGH_HEIGHT_def
        skipBlock_def breakBlock_def groundBlock_def boxesOverlap_def playerBoxAt_def
        playerBody_def)
  have h2: "getGroundHeight trapWorld (8 / 10) 0 1 False = Some 0"
    by (simp add: trapWorld_def getGroundHeight_def isInBlueSky_def FALL_THROUGH_HEIGHT_def
        skipBlock_def breakBlock_def groundBlock_def overBlock_def groundStep_def raiseTo_def
        playerBody_def)
  have h3: "getTargetBlock trapWorld (restingPlayer (- (4 / 10)) (- (1 / 2)) 0)
      \<lparr>vec_x = 1, vec_y = 0, vec_z = 0\<rparr> = Some 1"
    by (simp add: trapWorld_def getTargetBlock_def restingPlayer_def upt_rec targetStep_def
        Let_def breakBlock_def groundBlock_def pointInside_def enumerate_eq_zip)
  from void_blocks_never_returned [of trapWorld "8 / 10" "1 / 2" 0
      "userData (groundBlock 1 0 0 9127187)" 1 False 0
      "restingPlayer (- (4 / 10)) (- (1 / 2)) 0" "\<lparr>vec_x = 1, vec_y = 0, vec_z = 0\<rparr>" 1]
    h1 h2 h3
  show ?thesis by simp
qed

section \<open>Breaking a block\<close>

text \<open>
  C8. \<open>breakBlock\<close> takes a Solid or Placed block to the Void state: only the two flags of
  its \<open>userData\<close> change (and its material and shadows), its box, position and visibility
  stay. The block is not removed: \<open>worldBlocks\<close> keeps its length, holds the broken block at
  the same index, and every other block is untouched. On a block that is already Void the
  call is a no-op: the block, and so the whole of \<open>worldBlocks\<close>, is unchanged.
\<close>

theorem breakBlock_to_void:
  "(stateOf b = Some Solid \<or> stateOf b = Some Placed \<longrightarrow>
      stateOf (breakBlock b) = Some Void \<and>
      userData (breakBlock b) = (userData b)\<lparr>isBlock := False, isVoid := True\<rparr> \<and>
      b_position (breakBlock b) = b_position b \<and> visible (breakBlock b) = visible b) \<and>
   (stateOf b = Some Void \<longrightarrow> breakBlock b = b) \<and>
   length (breakBlockAt i worldBlocks) = length worldBlocks \<and>
   (i < length worldBlocks \<longrightarrow> breakBlockAt i worldBlocks ! i = breakBlock (worldBlocks ! i)) \<and>
   (\<forall>j < length worldBlocks. j \<noteq> i \<longrightarrow> breakBlockAt i worldBlocks ! j = worldBlocks ! j) \<and>
   (i < length worldBlocks \<and> stateOf (worldBlocks ! i) = Some Void \<longrightarrow>
      breakBlockAt i worldBlocks = worldBlocks)"
  by (auto simp: stateOf_def breakBlock_def breakBlockAt_def split: if_splits)

text \<open>
  The first block of \<open>trapWorld\<close> is a broken ground block: breaking the ground block makes it
  Void, and breaking it again in \<open>trapWorld\<close> changes nothing.
\<close>

theorem breakBlock_to_void_witness:
  "stateOf (groundBlock 0 0 0 9127187) = Some Solid \<and>
   stateOf (breakBlock (groundBlock 0 0 0 9127187)) = Some Void \<and>
   (0::nat) < length trapWorld \<and> stateOf (trapWorld ! 0) = Some Void \<and>
   breakBlockAt 0 trapWorld = trapWorld \<and>
   (1::nat) < length trapWorld \<and> (1::nat) \<noteq> 0 \<and> breakBlockAt 0 trapWorld ! 1 = trapWorld ! 1"
proof -
  have h1: "stateOf (groundBlock 0 0 0 9127187) = Some Solid"
    by (simp add: stateOf_def groundBlock_def)
  have h2: "(0::nat) < length trapWorld \<and> (1::nat) < length trapWorld"
    by (simp add: trapWorld_def)
  have h3: "trapWorld ! 0 = breakBlock (groundBlock 0 0 0 9127187)"
    by (simp add: trapWorld_def)
  from breakBlock_to_void [of "groundBlock 0 0 0 9127187" 0 trapWorld] h1 h2 h3
  show ?thesis by simp
qed

section \<open>The void trap\<close>

lemma voidLoop_iff:
  "voidLoop pb bs \<longleftrightarrow>
     (\<exists>b \<in> set bs. isVoid (userData b) \<and> visible b \<and> boxesOverlap pb (userData b))"
  by (induction bs) auto

text \<open>
  C3. In a tick in which the player's box overlaps some void block of the world (a block the
  scene shows, as every block of \<open>worldBlocks\<close> is) and the player holds no escape charge,
  \<open>updatePlayer\<close> sets the three velocity components to zero and leaves the position (and
  the mesh and the camera) as they were, whatever keys are held.
\<close>

theorem void_trap_freezes_player:
  assumes "b \<in> set worldBlocks" and "isVoid (userData b)" and "visible b"
    and "boxesOverlap
           (playerBoxAt (vec_x (position (ps g))) (vec_y (position (ps g))) (vec_z (position (ps g))))
           (userData b)"
    and "\<not> hasVoidEscapePowerup (ps g)"
  shows "velocity (ps (updatePlayer worldBlocks layers keys g)) =
           \<lparr>vec_x = 0, vec_y = 0, vec_z = 0\<rparr> \<and>
     position (ps (updatePlayer worldBlocks layers keys g)) = position (ps g) \<and>
     mesh (updatePlayer worldBlocks layers keys g) = mesh g \<and>
     camera (updatePlayer worldBlocks layers keys g) = camera g"
proof -
  from assms(1-4) have "checkIfPlayerInVoid worldBlocks (ps g)"
    unfolding checkIfPlayerInVoid_def voidLoop_iff by blast
  with assms(5) show ?thesis
    by (simp add: updatePlayer_def handleVoidTrap_def Let_def)
qed

text \<open>A moving player inside the broken block of \<open>trapWorld\<close>, with the up arrow held.\<close>

theorem void_trap_freezes_player_witness:
  "breakBlock (groundBlock 0 0 0 9127187) \<in> set trapWorld \<and>
   isVoid (userData (breakBlock (groundBlock 0 0 0 9127187))) \<and>
   visible (breakBlock (groundBlock 0 0 0 9127187)) \<and>
   boxesOverlap (playerBoxAt 0 (1 / 2) 0) (userData (breakBlock (groundBlock 0 0 0 9127187))) \<and>
   \<not> hasVoidEscapePowerup
     (ps (actorOf ((restingPlayer 0 (1 / 2) 0)\<lparr>velocity := \<lparr>vec_x = 1, vec_y = 2, vec_z = 3\<rparr>\<rparr>))) \<and>
   velocity (ps (updatePlayer trapWorld worldLayers (holding ''ArrowUp'')
     (actorOf ((restingPlayer 0 (1 / 2) 0)\<lparr>velocity := \<lparr>vec_x = 1, vec_y = 2, vec_z = 3\<rparr>\<rparr>)))) =
     \<lparr>vec_x = 0, vec_y = 0, vec_z = 0\<rparr> \<and>
   position (ps (updatePlayer trapWorld worldLayers (holding ''ArrowUp'')
     (actorOf ((restingPlayer 0 (1 / 2) 0)\<lparr>velocity := \<lparr>vec_x = 1, vec_y = 2, vec_z = 3\<rparr>\<rparr>)))) =
     \<lparr>vec_x = 0, vec_y = 1 / 2, vec_z = 0\<rparr>"
proof -
  let ?g = "actorOf ((restingPlayer 0 (1 / 2) 0)\<lparr>velocity := \<lparr>vec_x = 1, vec_y = 2, vec_z = 3\<rparr>\<rparr>)"
  let ?b = "breakBlock (groundBlock 0 0 0 9127187)"
  have h1: "?b \<in> set trapWorld"
    by (simp add: trapWorld_def)
  have h2: "isVoid (userData ?b)" and h3: "visible ?b"
    by (simp_all add: breakBlock_def groundBlock_def)
  have h0: "position (ps ?g) = \<lparr>vec_x = 0, vec_y = 1 / 2, vec_z = 0\<rparr>"
    by (simp add: actorOf_def restingPlayer_def)
  have h4: "boxesOverlap (playerBoxAt 0 (1 / 2) 0) (userData ?b)"
    by (simp add: breakBlock_def groundBlock_def boxesOverlap_def playerBoxAt_def playerBody_def)
  have h4': "boxesOverlap
      (playerBoxAt (vec_x (position (ps ?g))) (vec_y (position (ps ?g))) (vec_z (position (ps ?g))))
      (userData ?b)"
    using h4 by (simp add: h0)
  have h5: "\<not> hasVoidEscapePowerup (ps ?g)"
    by (simp add: actorOf_def restingPlayer_def)
  from void_trap_freezes_player [OF h1 h2 h3 h4' h5, of worldLayers "holding ''ArrowUp''"]
    h1 h2 h3 h4 h5 h0
  show ?thesis by simp
qed

section \<open>Directional jump\<close>

lemma jump_magnitude: "sqrt ((sin t * j)\<^sup>2 + (cos t * j)\<^sup>2) = \<bar>j\<bar>"
proof -
  have "(sin t * j)\<^sup>2 + (cos t * j)\<^sup>2 = ((sin t)\<^sup>2 + (cos t)\<^sup>2) * j\<^sup>2"
    by (simp only: power_mult_distrib distrib_right)
  also have "\<dots> = j\<^sup>2" by simp
  finally show ?thesis by simp
qed

text \<open>
  The angle that \<open>Math.atan2\<close> returns has the sine and cosine of the direction of its two
  arguments: a point (x, y) other than the origin is at \<open>atan2 y x\<close> from the x axis.
\<close>

lemma hypotenuse_pos: "0 < x \<Longrightarrow> sqrt (y\<^sup>2 + x\<^sup>2) = x * sqrt (1 + (y / x)\<^sup>2)" for x y :: real
proof -
  assume x: "0 < x"
  have "y\<^sup>2 + x\<^sup>2 = x\<^sup>2 * (1 + (y / x)\<^sup>2)"
    using x by (simp add: field_simps power2_eq_square)
  then have "sqrt (y\<^sup>2 + x\<^sup>2) = sqrt (x\<^sup>2) * sqrt (1 + (y / x)\<^sup>2)"
    by (simp only: real_sqrt_mult)
  with x show ?thesis by simp
qed

lemma hypotenuse_neg: "x < 0 \<Longrightarrow> sqrt (y\<^sup>2 + x\<^sup>2) = - x * sqrt (1 + (y / x)\<^sup>2)" for x y :: real
proof -
  assume x: "x < 0"
  have "y\<^sup>2 + x\<^sup>2 = x\<^sup>2 * (1 + (y / x)\<^sup>2)"
    using x by (simp add: field_simps power2_eq_square)
  then have "sqrt (y\<^sup>2 + x\<^sup>2) = sqrt (x\<^sup>2) * sqrt (1 + (y / x)\<^sup>2)"
    by (simp only: real_sqrt_mult)
  with x show ?thesis by simp
qed

lemma sin_atan2: "x \<noteq> 0 \<or> y \<noteq> 0 \<Longrightarrow> sin (atan2 y x) = y / sqrt (y\<^sup>2 + x\<^sup>2)"
proof -
  assume nz: "x \<noteq> 0 \<or> y \<noteq> 0"
  consider "0 < x" | "x < 0" | "x = 0" by linarith
  then show ?thesis
  proof cases
    case 1
    then show ?thesis by (simp add: atan2_def sin_arctan hypotenuse_pos)
  next
    case 2
    then show ?thesis by (simp add: atan2_def sin_arctan hypotenuse_neg)
  next
    case 3
    with nz show ?thesis by (auto simp: atan2_def)
  qed
qed

lemma cos_atan2: "x \<noteq> 0 \<or> y \<noteq> 0 \<Longrightarrow> cos (atan2 y x) = x / sqrt (y\<^sup>2 + x\<^sup>2)"
proof -
  assume nz: "x \<noteq> 0 \<or> y \<noteq> 0"
  consider "0 < x" | "x < 0" | "x = 0" by linarith
  then show ?thesis
  proof cases
    case 1
    then show ?thesis by (simp add: atan2_def cos_arctan hypotenuse_pos)
  next
    case 2
    then show ?thesis by (simp add: atan2_def cos_arctan hypotenuse_neg)
  next
    case 3
    with nz show ?thesis by (auto simp: atan2_def)
  qed
qed

lemma cameraDistanceXZ_pos_iff:
  "0 < cameraDistanceXZ g \<longleftrightarrow> cameraOffsetZ g \<noteq> 0 \<or> cameraOffsetX g \<noteq> 0"
proof -
  have "0 < (cameraOffsetX g)\<^sup>2 + (cameraOffsetZ g)\<^sup>2 \<longleftrightarrow>
      cameraOffsetZ g \<noteq> 0 \<or> cameraOffsetX g \<noteq> 0"
    by (metis add.commute sum_power2_gt_zero_iff)
  then show ?thesis by (simp add: cameraDistanceXZ_def)
qed

lemma sin_cameraAngleOf:
  "0 < cameraDistanceXZ g \<Longrightarrow> sin (cameraAngleOf g) = cameraOffsetX g / cameraDistanceXZ g"
  using sin_atan2 [of "cameraOffsetZ g" "cameraOffsetX g"]
  by (simp add: cameraDistanceXZ_pos_iff)
    (simp add: cameraAngleOf_def cameraDistanceXZ_def cameraOffsetX_def cameraOffsetZ_def)

lemma cos_cameraAngleOf:
  "0 < cameraDistanceXZ g \<Longrightarrow> cos (cameraAngleOf g) = cameraOffsetZ g / cameraDistanceXZ g"
  using cos_atan2 [of "cameraOffsetZ g" "cameraOffsetX g"]
  by (simp add: cameraDistanceXZ_pos_iff)
    (simp add: cameraAngleOf_def cameraDistanceXZ_def cameraOffsetX_def cameraOffsetZ_def)

lemma cameraAngleOf_overhead: "cameraDistanceXZ g = 0 \<Longrightarrow> cameraAngleOf g = 0"
proof -
  assume "cameraDistanceXZ g = 0"
  then have "(cameraOffsetX g)\<^sup>2 + (cameraOffsetZ g)\<^sup>2 = 0"
    by (simp add: cameraDistanceXZ_def)
  then have "cameraOffsetX g = 0 \<and> cameraOffsetZ g = 0"
    by (simp add: sum_power2_eq_zero_iff)
  then show ?thesis
    by (simp add: cameraAngleOf_def atan2_def cameraOffsetX_def cameraOffsetZ_def)
qed

lemma quarter_turns:
  "sin (a - pi / 2) = - cos a" "cos (a - pi / 2) = sin a"
  "sin (a + pi / 2) = cos a" "cos (a + pi / 2) = - sin a"
  by (simp_all add: sin_diff cos_diff sin_add cos_add)

text \<open>
  C6. \<open>handleDirectionalJump\<close> leaves an airborne player as it is. For a grounded player and
  a key of one of the four directions it sets the horizontal velocity to the jump power along
  a direction fixed by where the camera is relative to the player's mesh: with the camera at
  horizontal offset (\<open>cameraOffsetX\<close>, \<open>cameraOffsetZ\<close>) of length \<open>cameraDistanceXZ\<close> from
  the mesh, forward is the unit vector from the camera to the mesh, backward the one from the
  mesh to the camera, and left and right are forward turned by a quarter turn either way;
  with the camera straight above the mesh forward is along -z. The magnitude of the horizontal
  velocity is the jump power; the vertical velocity is 1.5 times the jump power,
  \<open>isOnGround\<close> is cleared and the position is kept. These are equalities of real numbers:
  the source works in doubles, where the products and \<open>Math.sin\<close>, \<open>Math.cos\<close> and
  \<open>Math.atan2\<close> are rounded.
\<close>

theorem directional_jump_grounded_only:
  "(\<not> isOnGround (ps g) \<longrightarrow> handleDirectionalJump key g = g) \<and>
   (isOnGround (ps g) \<and> key \<in> {''ArrowUp'', ''Up'', ''KeyW''} \<longrightarrow>
      vec_x (velocity (ps (handleDirectionalJump key g))) = - sin (cameraAngleOf g) * jumpPower (ps g) \<and>
      vec_z (velocity (ps (handleDirectionalJump key g))) = - cos (cameraAngleOf g) * jumpPower (ps g)) \<and>
   (isOnGround (ps g) \<and> key \<in> {''ArrowDown'', ''Down'', ''KeyS''} \<longrightarrow>
      vec_x (velocity (ps (handleDirectionalJump key g))) = sin (cameraAngleOf g) * jumpPower (ps g) \<and>
      vec_z (velocity (ps (handleDirectionalJump key g))) = cos (cameraAngleOf g) * jumpPower (ps g)) \<and>
   (isOnGround (ps g) \<and> key \<in> {''ArrowLeft'', ''Left'', ''KeyA''} \<longrightarrow>
      vec_x (velocity (ps (handleDirectionalJump key g))) =
        sin (cameraAngleOf g - pi / 2) * jumpPower (ps g) \<and>
      vec_z (velocity (ps (handleDirectionalJump key g))) =
        cos (cameraAngleOf g - pi / 2) * jumpPower (ps g)) \<and>
   (isOnGround (ps g) \<and> key \<in> {''ArrowRight'', ''Right'', ''KeyD''} \<longrightarrow>
      vec_x (velocity (ps (handleDirectionalJump key g))) =
        sin (cameraAngleOf g + pi / 2) * jumpPower (ps g) \<and>
      vec_z (velocity (ps (handleDirectionalJump key g))) =
        cos (cameraAngleOf g + pi / 2) * jumpPower (ps g)) \<and>
   (isOnGround (ps g) \<and> 0 < cameraDistanceXZ g \<and> key \<in> {''ArrowUp'', ''Up'', ''KeyW''} \<longrightarrow>
      vec_x (velocity (ps (handleDirectionalJump key g))) =
        - (cameraOffsetX g / cameraDistanceXZ g) * jumpPower (ps g) \<and>
      vec_z (velocity (ps (handleDirectionalJump key g))) =
        - (cameraOffsetZ g / cameraDistanceXZ g) * jumpPower (ps g)) \<and>
   (isOnGround (ps g) \<and> 0 < cameraDistanceXZ g \<and> key \<in> {''ArrowDown'', ''Down'', ''KeyS''} \<longrightarrow>
      vec_x (velocity (ps (handleDirectionalJump key g))) =
        cameraOffsetX g / cameraDistanceXZ g * jumpPower (ps g) \<and>
      vec_z (velocity (ps (handleDirectionalJump key g))) =
        cameraOffsetZ g / cameraDistanceXZ g * jumpPower (ps g)) \<and>
   (isOnGround (ps g) \<and> 0 < cameraDistanceXZ g \<and> key \<in> {''ArrowLeft'', ''Left'', ''KeyA''} \<longrightarrow>
      vec_x (velocity (ps (handleDirectionalJump key g))) =
        - (cameraOffsetZ g / cameraDistanceXZ g) * jumpPower (ps g) \<and>
      vec_z (velocity (ps (handleDirectionalJump key g))) =
        cameraOffsetX g / cameraDistanceXZ g * jumpPower (ps g)) \<and>
   (isOnGround (ps g) \<and> 0 < cameraDistanceXZ g \<and> key \<in> {''ArrowRight'', ''Right'', ''KeyD''} \<longrightarrow>
      vec_x (velocity (ps (handleDirectionalJump key g))) =
        cameraOffsetZ g / cameraDistanceXZ g * jumpPower (ps g) \<and>
      vec_z (velocity (ps (handleDirectionalJump key g))) =
        - (cameraOffsetX g / cameraDistanceXZ g) * jumpPower (ps g)) \<and>
   (isOnGround (ps g) \<and> cameraDistanceXZ g = 0 \<and> key \<in> {''ArrowUp'', ''Up'', ''KeyW''} \<longrightarrow>
      vec_x (velocity (ps (handleDirectionalJump key g))) = 0 \<and>
      vec_z (velocity (ps (handleDirectionalJump key g))) = - jumpPower (ps g)) \<and>
   (isOnGround (ps g) \<and> cameraDistanceXZ g = 0 \<and> key \<in> {''ArrowDown'', ''Down'', ''KeyS''} \<longrightarrow>
      vec_x (velocity (ps (handleDirectionalJump key g))) = 0 \<and>
      vec_z (velocity (ps (handleDirectionalJump key g))) = jumpPower (ps g)) \<and>
   (isOnGround (ps g) \<and> cameraDistanceXZ g = 0 \<and> key \<in> {''ArrowLeft'', ''Left'', ''KeyA''} \<longrightarrow>
      vec_x (velocity (ps (handleDirectionalJump key g))) = - jumpPower (ps g) \<and>
      vec_z (velocity (ps (handleDirectionalJump key g))) = 0) \<and>
   (isOnGround (ps g) \<and> cameraDistanceXZ g = 0 \<and> key \<in> {''ArrowRight'', ''Right'', ''KeyD''} \<longrightarrow>
      vec_x (velocity (ps (handleDirectionalJump key g))) = jumpPower (ps g) \<and>
      vec_z (velocity (ps (handleDirectionalJump key g))) = 0) \<and>
   (isOnGround (ps g) \<and>
    key \<in> {''ArrowUp'', ''Up'', ''KeyW'', ''ArrowDown'', ''Down'', ''KeyS'',
           ''ArrowLeft'', ''Left'', ''KeyA'', ''ArrowRight'', ''Right'', ''KeyD''} \<longrightarrow>
      sqrt ((vec_x (velocity (ps (handleDirectionalJump key g))))\<^sup>2 +
            (vec_z (velocity (ps (handleDirectionalJump key g))))\<^sup>2) = \<bar>jumpPower (ps g)\<bar> \<and>
      (0 \<le> jumpPower (ps g) \<longrightarrow>
         sqrt ((vec_x (velocity (ps (handleDirectionalJump key g))))\<^sup>2 +
               (vec_z (velocity (ps (handleDirectionalJump key g))))\<^sup>2) = jumpPower (ps g)) \<and>
      vec_y (velocity (ps (handleDirectionalJump key g))) = (3 / 2) * jumpPower (ps g) \<and>
      \<not> isOnGround (ps (handleDirectionalJump key g)) \<and>
      position (ps (handleDirectionalJump key g)) = position (ps g))"
proof -
  have air: "\<not> isOnGround (ps g) \<Longrightarrow> handleDirectionalJump key g = g"
    by (simp add: handleDirectionalJump_def)
  have up: "vec_x (velocity (ps (handleDirectionalJump key g))) = - sin (cameraAngleOf g) * jumpPower (ps g)"
      "vec_z (velocity (ps (handleDirectionalJump key g))) = - cos (cameraAngleOf g) * jumpPower (ps g)"
    if "isOnGround (ps g) \<and> key \<in> {''ArrowUp'', ''Up'', ''KeyW''}"
    using that by (auto simp: handleDirectionalJump_def Let_def)
  have down: "vec_x (velocity (ps (handleDirectionalJump key g))) = sin (cameraAngleOf g) * jumpPower (ps g)"
      "vec_z (velocity (ps (handleDirectionalJump key g))) = cos (cameraAngleOf g) * jumpPower (ps g)"
    if "isOnGround (ps g) \<and> key \<in> {''ArrowDown'', ''Down'', ''KeyS''}"
    using that by (auto simp: handleDirectionalJump_def Let_def)
  have left: "vec_x (velocity (ps (handleDirectionalJump key g))) =
        sin (cameraAngleOf g - pi / 2) * jumpPower (ps g)"
      "vec_z (velocity (ps (handleDirectionalJump key g))) =
        cos (cameraAngleOf g - pi / 2) * jumpPower (ps g)"
    if "isOnGround (ps g) \<and> key \<in> {''ArrowLeft'', ''Left'', ''KeyA''}"
    using that by (auto simp: handleDirectionalJump_def Let_def)
  have right: "vec_x (velocity (ps (handleDirectionalJump key g))) =
        sin (cameraAngleOf g + pi / 2) * jumpPower (ps g)"
      "vec_z (velocity (ps (handleDirectionalJump key g))) =
        cos (cameraAngleOf g + pi / 2) * jumpPower (ps g)"
    if "isOnGround (ps g) \<and> key \<in> {''ArrowRight'', ''Right'', ''KeyD''}"
    using that by (auto simp: handleDirectionalJump_def Let_def)
  have up': "vec_x (velocity (ps (handleDirectionalJump key g))) =
        - (cameraOffsetX g / cameraDistanceXZ g) * jumpPower (ps g)"
      "vec_z (velocity (ps (handleDirectionalJump key g))) =
        - (cameraOffsetZ g / cameraDistanceXZ g) * jumpPower (ps g)"
    if "isOnGround (ps g) \<and> 0 < cameraDistanceXZ g \<and> key \<in> {''ArrowUp'', ''Up'', ''KeyW''}"
    using that up by (simp_all add: sin_cameraAngleOf cos_cameraAngleOf)
  have down': "vec_x (velocity (ps (handleDirectionalJump key g))) =
        cameraOffsetX g / cameraDistanceXZ g * jumpPower (ps g)"
      "vec_z (velocity (ps (handleDirectionalJump key g))) =
        cameraOffsetZ g / cameraDistanceXZ g * jumpPower (ps g)"
    if "isOnGround (ps g) \<and> 0 < cameraDistanceXZ g \<and> key \<in> {''ArrowDown'', ''Down'', ''KeyS''}"
    using that down by (simp_all add: sin_cameraAngleOf cos_cameraAngleOf)
  have left': "vec_x (velocity (ps (handleDirectionalJump key g))) =
        - (cameraOffsetZ g / cameraDistanceXZ g) * jumpPower (ps g)"
      "vec_z (velocity (ps (handleDirectionalJump key g))) =
        cameraOffsetX g / cameraDistanceXZ g * jumpPower (ps g)"
    if "isOnGround (ps g) \<and> 0 < cameraDistanceXZ g \<and> key \<in> {''ArrowLeft'', ''Left'', ''KeyA''}"
    using that left by (simp_all add: quarter_turns sin_cameraAngleOf cos_cameraAngleOf)
  have right': "vec_x (velocity (ps (handleDirectionalJump key g))) =
        cameraOffsetZ g / cameraDistanceXZ g * jumpPower (ps g)"
      "vec_z (velocity (ps (handleDirectionalJump key g))) =
        - (cameraOffsetX g / cameraDistanceXZ g) * jumpPower (ps g)"
    if "isOnGround (ps g) \<and> 0 < cameraDistanceXZ g \<and> key \<in> {''ArrowRight'', ''Right'', ''KeyD''}"
    using that right by (simp_all add: quarter_turns sin_cameraAngleOf cos_cameraAngleOf)
  have over: "vec_x (velocity (ps (handleDirectionalJump key g))) = 0"
      "vec_z (velocity (ps (handleDirectionalJump key g))) = - jumpPower (ps g)"
    if "isOnGround (ps g) \<and> cameraDistanceXZ g = 0 \<and> key \<in> {''ArrowUp'', ''Up'', ''KeyW''}"
    using that up by (simp_all add: cameraAngleOf_overhead)
  have over_down: "vec_x (velocity (ps (handleDirectionalJump key g))) = 0"
      "vec_z (velocity (ps (handleDirectionalJump key g))) = jumpPower (ps g)"
    if "isOnGround (ps g) \<and> cameraDistanceXZ g = 0 \<and> key \<in> {''ArrowDown'', ''Down'', ''KeyS''}"
    using that down by (simp_all add: cameraAngleOf_overhead)
  have over_left: "vec_x (velocity (ps (handleDirectionalJump key g))) = - jumpPower (ps g)"
      "vec_z (velocity (ps (handleDirectionalJump key g))) = 0"
    if "isOnGround (ps g) \<and> cameraDistanceXZ g = 0 \<and> key \<in> {''ArrowLeft'', ''Left'', ''KeyA''}"
    using that left by (simp_all add: quarter_turns cameraAngleOf_overhead)
  have over_right: "vec_x (velocity (ps (handleDirectionalJump key g))) = jumpPower (ps g)"
      "vec_z (velocity (ps (handleDirectionalJump key g))) = 0"
    if "isOnGround (ps g) \<and> cameraDistanceXZ g = 0 \<and> key \<in> {''ArrowRight'', ''Right'', ''KeyD''}"
    using that right by (simp_all add: quarter_turns cameraAngleOf_overhead)
  have m1: "sqrt ((- sin t * j)\<^sup>2 + (- cos t * j)\<^sup>2) = \<bar>j\<bar>" for t j :: real
    using jump_magnitude [of t j] by simp
  have mag: "sqrt ((vec_x (velocity (ps (handleDirectionalJump key g))))\<^sup>2 +
            (vec_z (velocity (ps (handleDirectionalJump key g))))\<^sup>2) = \<bar>jumpPower (ps g)\<bar>"
    if "isOnGround (ps g) \<and>
      key \<in> {''ArrowUp'', ''Up'', ''KeyW'', ''ArrowDown'', ''Down'', ''KeyS'',
           ''ArrowLeft'', ''Left'', ''KeyA'', ''ArrowRight'', ''Right'', ''KeyD''}"
    using that unfolding handleDirectionalJump_def Let_def
    by (auto simp: jump_magnitude m1)
  have rest: "vec_y (velocity (ps (handleDirectionalJump key g))) = (3 / 2) * jumpPower (ps g)"
      "\<not> isOnGround (ps (handleDirectionalJump key g))"
      "position (ps (handleDirectionalJump key g)) = position (ps g)"
    if "isOnGround (ps g) \<and>
      key \<in> {''ArrowUp'', ''Up'', ''KeyW'', ''ArrowDown'', ''Down'', ''KeyS'',
           ''ArrowLeft'', ''Left'', ''KeyA'', ''ArrowRight'', ''Right'', ''KeyD''}"
    using that by (auto simp: handleDirectionalJump_def Let_def)
  show ?thesis
    apply (intro conjI impI)
    subgoal by (rule air)
    subgoal by (rule up)
    subgoal by (rule up)
    subgoal by (rule down)
    subgoal by (rule down)
    subgoal by (rule left)
    subgoal by (rule left)
    subgoal by (rule right)
    subgoal by (rule right)
    subgoal by (rule up')
    subgoal by (rule up')
    subgoal by (rule down')
    subgoal by (rule down')
    subgoal by (rule left')
    subgoal by (rule left')
    subgoal by (rule right')
    subgoal by (rule right')
    subgoal by (rule over)
    subgoal by (rule over)
    subgoal by (rule over_down)
    subgoal by (rule over_down)
    subgoal by (rule over_left)
    subgoal by (rule over_left)
    subgoal by (rule over_right)
    subgoal by (rule over_right)
    subgoal by (rule mag)
    subgoal using mag by simp
    subgoal by (rule rest)
    subgoal by (rule rest)
    subgoal by (rule rest)
    done
qed

text \<open>
  The resting player at (0, 1, 0) with jump power 0.3 and three cameras: behind it at angle 0,
  at the offset (6, 8, 8), where forward is (-0.6, -0.8), and straight above it; the four jumps
  from each, and the same player in the air.
\<close>

theorem directional_jump_grounded_only_witness:
  "\<not> isOnGround (ps (actorOf ((restingPlayer 0 1 0)\<lparr>isOnGround := False\<rparr>))) \<and>
   handleDirectionalJump ''ArrowUp'' (actorOf ((restingPlayer 0 1 0)\<lparr>isOnGround := False\<rparr>)) =
     actorOf ((restingPlayer 0 1 0)\<lparr>isOnGround := False\<rparr>) \<and>
   isOnGround (ps (actorOf (restingPlayer 0 1 0))) \<and>
   0 \<le> jumpPower (ps (actorOf (restingPlayer 0 1 0))) \<and>
   vec_x (velocity (ps (handleDirectionalJump ''ArrowUp'' (actorOf (restingPlayer 0 1 0))))) = 0 \<and>
   vec_z (velocity (ps (handleDirectionalJump ''ArrowUp'' (actorOf (restingPlayer 0 1 0))))) = - (3 / 10) \<and>
   vec_y (velocity (ps (handleDirectionalJump ''ArrowUp'' (actorOf (restingPlayer 0 1 0))))) = 9 / 20 \<and>
   sqrt ((vec_x (velocity (ps (handleDirectionalJump ''ArrowUp'' (actorOf (restingPlayer 0 1 0))))))\<^sup>2 +
         (vec_z (velocity (ps (handleDirectionalJump ''ArrowUp'' (actorOf (restingPlayer 0 1 0))))))\<^sup>2) =
     3 / 10 \<and>
   \<not> isOnGround (ps (handleDirectionalJump ''ArrowUp'' (actorOf (restingPlayer 0 1 0)))) \<and>
   vec_z (velocity (ps (handleDirectionalJump ''ArrowDown'' (actorOf (restingPlayer 0 1 0))))) = 3 / 10 \<and>
   vec_x (velocity (ps (handleDirectionalJump ''ArrowLeft'' (actorOf (restingPlayer 0 1 0))))) = - (3 / 10) \<and>
   vec_x (velocity (ps (handleDirectionalJump ''ArrowRight'' (actorOf (restingPlayer 0 1 0))))) = 3 / 10 \<and>
   isOnGround (ps (cameraAt 6 8 8 (restingPlayer 0 1 0))) \<and>
   cameraOffsetX (cameraAt 6 8 8 (restingPlayer 0 1 0)) = 6 \<and> cameraOffsetZ (cameraAt 6 8 8 (restingPlayer 0 1 0)) = 8 \<and> cameraDistanceXZ (cameraAt 6 8 8 (restingPlayer 0 1 0)) = 10 \<and>
   0 < cameraDistanceXZ (cameraAt 6 8 8 (restingPlayer 0 1 0)) \<and>
   vec_x (velocity (ps (handleDirectionalJump ''ArrowUp'' (cameraAt 6 8 8 (restingPlayer 0 1 0))))) = - (9 / 50) \<and>
   vec_z (velocity (ps (handleDirectionalJump ''ArrowUp'' (cameraAt 6 8 8 (restingPlayer 0 1 0))))) = - (6 / 25) \<and>
   vec_x (velocity (ps (handleDirectionalJump ''ArrowDown'' (cameraAt 6 8 8 (restingPlayer 0 1 0))))) = 9 / 50 \<and>
   vec_z (velocity (ps (handleDirectionalJump ''ArrowDown'' (cameraAt 6 8 8 (restingPlayer 0 1 0))))) = 6 / 25 \<and>
   vec_x (velocity (ps (handleDirectionalJump ''ArrowLeft'' (cameraAt 6 8 8 (restingPlayer 0 1 0))))) = - (6 / 25) \<and>
   vec_z (velocity (ps (handleDirectionalJump ''ArrowLeft'' (cameraAt 6 8 8 (restingPlayer 0 1 0))))) = 9 / 50 \<and>
   vec_x (velocity (ps (handleDirectionalJump ''ArrowRight'' (cameraAt 6 8 8 (restingPlayer 0 1 0))))) = 6 / 25 \<and>
   vec_z (velocity (ps (handleDirectionalJump ''ArrowRight'' (cameraAt 6 8 8 (restingPlayer 0 1 0))))) = - (9 / 50) \<and>
   isOnGround (ps (cameraAt 0 8 0 (restingPlayer 0 1 0))) \<and> cameraDistanceXZ (cameraAt 0 8 0 (restingPlayer 0 1 0)) = 0 \<and>
   vec_x (velocity (ps (handleDirectionalJump ''ArrowUp'' (cameraAt 0 8 0 (restingPlayer 0 1 0))))) = 0 \<and>
   vec_z (velocity (ps (handleDirectionalJump ''ArrowUp'' (cameraAt 0 8 0 (restingPlayer 0 1 0))))) = - (3 / 10) \<and>
   vec_z (velocity (ps (handleDirectionalJump ''ArrowDown'' (cameraAt 0 8 0 (restingPlayer 0 1 0))))) = 3 / 10 \<and>
   vec_x (velocity (ps (handleDirectionalJump ''ArrowLeft'' (cameraAt 0 8 0 (restingPlayer 0 1 0))))) = - (3 / 10) \<and>
   vec_x (velocity (ps (handleDirectionalJump ''ArrowRight'' (cameraAt 0 8 0 (restingPlayer 0 1 0))))) = 3 / 10"
proof -
  let ?g = "actorOf (restingPlayer 0 1 0)"
  let ?air = "actorOf ((restingPlayer 0 1 0)\<lparr>isOnGround := False\<rparr>)"
  let ?s = "cameraAt 6 8 8 (restingPlayer 0 1 0)"
  let ?t = "cameraAt 0 8 0 (restingPlayer 0 1 0)"
  have air: "\<not> isOnGround (ps ?air)"
    by (simp add: actorOf_def restingPlayer_def)
  have gr: "isOnGround (ps ?g)" and jp: "jumpPower (ps ?g) = 3 / 10"
    by (simp_all add: actorOf_def restingPlayer_def)
  have cam: "cameraAngleOf ?g = 0"
    by (simp add: cameraAngleOf_def actorOf_def restingPlayer_def atan2_def)
  from directional_jump_grounded_only [of ?air "''ArrowUp''"]
    directional_jump_grounded_only [of ?g "''ArrowUp''"]
    directional_jump_grounded_only [of ?g "''ArrowDown''"]
    directional_jump_grounded_only [of ?g "''ArrowLeft''"]
    directional_jump_grounded_only [of ?g "''ArrowRight''"]
    air gr jp cam
  have behind: "\<not> isOnGround (ps ?air) \<and>
   handleDirectionalJump ''ArrowUp'' ?air = ?air \<and>
   isOnGround (ps ?g) \<and>
   0 \<le> jumpPower (ps ?g) \<and>
   vec_x (velocity (ps (handleDirectionalJump ''ArrowUp'' ?g))) = 0 \<and>
   vec_z (velocity (ps (handleDirectionalJump ''ArrowUp'' ?g))) = - (3 / 10) \<and>
   vec_y (velocity (ps (handleDirectionalJump ''ArrowUp'' ?g))) = 9 / 20 \<and>
   sqrt ((vec_x (velocity (ps (handleDirectionalJump ''ArrowUp'' ?g))))\<^sup>2 +
         (vec_z (velocity (ps (handleDirectionalJump ''ArrowUp'' ?g))))\<^sup>2) = 3 / 10 \<and>
   \<not> isOnGround (ps (handleDirectionalJump ''ArrowUp'' ?g)) \<and>
   vec_z (velocity (ps (handleDirectionalJump ''ArrowDown'' ?g))) = 3 / 10 \<and>
   vec_x (velocity (ps (handleDirectionalJump ''ArrowLeft'' ?g))) = - (3 / 10) \<and>
   vec_x (velocity (ps (handleDirectionalJump ''ArrowRight'' ?g))) = 3 / 10"
    by simp
  have sgr: "isOnGround (ps ?s)" and sjp: "jumpPower (ps ?s) = 3 / 10"
    and sx: "cameraOffsetX ?s = 6" and sz: "cameraOffsetZ ?s = 8"
    by (simp_all add: cameraAt_def restingPlayer_def cameraOffsetX_def cameraOffsetZ_def)
  have "sqrt ((10 :: real)\<^sup>2) = 10"
    by simp
  then have sd: "cameraDistanceXZ ?s = 10"
    by (simp add: cameraDistanceXZ_def sx sz)
  then have spos: "0 < cameraDistanceXZ ?s"
    by simp
  from directional_jump_grounded_only [of ?s "''ArrowUp''"]
    directional_jump_grounded_only [of ?s "''ArrowDown''"]
    directional_jump_grounded_only [of ?s "''ArrowLeft''"]
    directional_jump_grounded_only [of ?s "''ArrowRight''"]
    sgr spos
  have side: "vec_x (velocity (ps (handleDirectionalJump ''ArrowUp'' ?s))) =
        - (cameraOffsetX ?s / cameraDistanceXZ ?s) * jumpPower (ps ?s) \<and>
      vec_z (velocity (ps (handleDirectionalJump ''ArrowUp'' ?s))) =
        - (cameraOffsetZ ?s / cameraDistanceXZ ?s) * jumpPower (ps ?s) \<and>
      vec_x (velocity (ps (handleDirectionalJump ''ArrowDown'' ?s))) =
        cameraOffsetX ?s / cameraDistanceXZ ?s * jumpPower (ps ?s) \<and>
      vec_z (velocity (ps (handleDirectionalJump ''ArrowDown'' ?s))) =
        cameraOffsetZ ?s / cameraDistanceXZ ?s * jumpPower (ps ?s) \<and>
      vec_x (velocity (ps (handleDirectionalJump ''ArrowLeft'' ?s))) =
        - (cameraOffsetZ ?s / cameraDistanceXZ ?s) * jumpPower (ps ?s) \<and>
      vec_z (velocity (ps (handleDirectionalJump ''ArrowLeft'' ?s))) =
        cameraOffsetX ?s / cameraDistanceXZ ?s * jumpPower (ps ?s) \<and>
      vec_x (velocity (ps (handleDirectionalJump ''ArrowRight'' ?s))) =
        cameraOffsetZ ?s / cameraDistanceXZ ?s * jumpPower (ps ?s) \<and>
      vec_z (velocity (ps (handleDirectionalJump ''ArrowRight'' ?s))) =
        - (cameraOffsetX ?s / cameraDistanceXZ ?s) * jumpPower (ps ?s)"
    by simp
  have side': "vec_x (velocity (ps (handleDirectionalJump ''ArrowUp'' ?s))) = - (9 / 50) \<and>
      vec_z (velocity (ps (handleDirectionalJump ''ArrowUp'' ?s))) = - (6 / 25) \<and>
      vec_x (velocity (ps (handleDirectionalJump ''ArrowDown'' ?s))) = 9 / 50 \<and>
      vec_z (velocity (ps (handleDirectionalJump ''ArrowDown'' ?s))) = 6 / 25 \<and>
      vec_x (velocity (ps (handleDirectionalJump ''ArrowLeft'' ?s))) = - (6 / 25) \<and>
      vec_z (velocity (ps (handleDirectionalJump ''ArrowLeft'' ?s))) = 9 / 50 \<and>
      vec_x (velocity (ps (handleDirectionalJump ''ArrowRight'' ?s))) = 6 / 25 \<and>
      vec_z (velocity (ps (handleDirectionalJump ''ArrowRight'' ?s))) = - (9 / 50)"
    using side by (simp only: sx sz sd sjp) simp
  have tgr: "isOnGround (ps ?t)" and tjp: "jumpPower (ps ?t) = 3 / 10"
    and td: "cameraDistanceXZ ?t = 0"
    by (simp_all add: cameraAt_def restingPlayer_def cameraDistanceXZ_def cameraOffsetX_def
        cameraOffsetZ_def)
  from directional_jump_grounded_only [of ?t "''ArrowUp''"]
    directional_jump_grounded_only [of ?t "''ArrowDown''"]
    directional_jump_grounded_only [of ?t "''ArrowLeft''"]
    directional_jump_grounded_only [of ?t "''ArrowRight''"]
    tgr td tjp
  have top: "vec_x (velocity (ps (handleDirectionalJump ''ArrowUp'' ?t))) = 0 \<and>
      vec_z (velocity (ps (handleDirectionalJump ''ArrowUp'' ?t))) = - (3 / 10) \<and>
      vec_z (velocity (ps (handleDirectionalJump ''ArrowDown'' ?t))) = 3 / 10 \<and>
      vec_x (velocity (ps (handleDirectionalJump ''ArrowLeft'' ?t))) = - (3 / 10) \<and>
      vec_x (velocity (ps (handleDirectionalJump ''ArrowRight'' ?t))) = 3 / 10"
    by simp
  from behind sgr sx sz sd spos side' tgr td top show ?thesis
    by blast
qed

section \<open>Escaping the void trap\<close>

lemma trapFlags_accumulateInput [simp]: "trapFlags (accumulateInput keys a p) = trapFlags p"
  by (simp add: trapFlags_def accumulateInput_def addVelocityXZ_def Let_def)

lemma trapFlags_applyFriction [simp]: "trapFlags (applyFriction p) = trapFlags p"
  by (simp add: trapFlags_def applyFriction_def)

lemma trapFlags_applyGravity [simp]: "trapFlags (applyGravity s p) = trapFlags p"
  by (simp add: trapFlags_def applyGravity_def)

lemma trapFlags_proposeMove [simp]: "trapFlags (tps (proposeMove keys g)) = trapFlags (ps g)"
  by (simp add: proposeMove_def Let_def)

lemma trapFlags_skyLanding [simp]: "trapFlags (tps (skyLanding w l t)) = trapFlags (tps t)"
  by (simp add: trapFlags_def skyLanding_def Let_def split: option.splits)

lemma trapFlags_revert [simp]:
  "trapFlags (tps (revertX t)) = trapFlags (tps t)"
  "trapFlags (tps (revertZ t)) = trapFlags (tps t)"
  "trapFlags (tps (revertXZ t)) = trapFlags (tps t)"
  by (simp_all add: trapFlags_def revertX_def revertZ_def revertXZ_def)

lemma trapFlags_resolveX [simp]: "trapFlags (tps (resolveX w t)) = trapFlags (tps t)"
  by (simp add: resolveX_def Let_def split: option.splits)

lemma trapFlags_resolveZ [simp]: "trapFlags (tps (resolveZ w t)) = trapFlags (tps t)"
  by (simp add: resolveZ_def Let_def split: option.splits)

lemma trapFlags_antiExploit [simp]: "trapFlags (tps (antiExploit w s t)) = trapFlags (tps t)"
  by (simp add: antiExploit_def Let_def split: option.splits)

lemma trapFlags_resolveY [simp]: "trapFlags (tps (resolveY w t)) = trapFlags (tps t)"
  by (simp add: resolveY_def Let_def trapFlags_def revertXZ_def split: option.splits)

lemma trapFlags_groundCheck [simp]: "trapFlags (tps (groundCheck w t)) = trapFlags (tps t)"
  by (simp add: groundCheck_def Let_def trapFlags_def landOn_def split: option.splits)

lemma trapFlags_groundPath [simp]: "trapFlags (tps (groundPath w t)) = trapFlags (tps t)"
  by (simp add: groundPath_def)

lemma trapFlags_commit [simp]: "trapFlags (ps (commit a g t)) = trapFlags (tps t)"
  by (simp add: commit_def trapFlags_def Let_def)

lemma trapFlags_movePlayer: "trapFlags (ps (movePlayer w l keys g)) = trapFlags (ps g)"
  by (simp add: movePlayer_def commitSky_def Let_def)

lemma fold_layerStep_ignores_void:
  "fold (layerStep px pz layerY) (filter (\<lambda>b. \<not> isVoid (userData b)) bs) m =
     fold (layerStep px pz layerY) bs m"
  by (rule fold_filter_skip) (simp add: layerStep_def skipBlock_def)

lemma getGroundHeightOnLayer_ignores_void:
  "getGroundHeightOnLayer (filter (\<lambda>b. \<not> isVoid (userData b)) w) px pz layerY =
     getGroundHeightOnLayer w px pz layerY"
  by (simp add: getGroundHeightOnLayer_def fold_layerStep_ignores_void)

lemma resolveX_ignores_void:
  "resolveX (filter (\<lambda>b. \<not> isVoid (userData b)) w) t = resolveX w t"
  by (simp only: resolveX_def checkCollision_ignores_void)

lemma resolveZ_ignores_void:
  "resolveZ (filter (\<lambda>b. \<not> isVoid (userData b)) w) t = resolveZ w t"
  by (simp only: resolveZ_def checkCollision_ignores_void)

lemma antiExploit_ignores_void:
  "antiExploit (filter (\<lambda>b. \<not> isVoid (userData b)) w) s t = antiExploit w s t"
  by (simp only: antiExploit_def getGroundHeight_ignores_void)

lemma resolveY_ignores_void:
  "resolveY (filter (\<lambda>b. \<not> isVoid (userData b)) w) t = resolveY w t"
  by (simp only: resolveY_def checkCollision_ignores_void)

lemma groundCheck_ignores_void:
  "groundCheck (filter (\<lambda>b. \<not> isVoid (userData b)) w) t = groundCheck w t"
  by (simp only: groundCheck_def getGroundHeight_ignores_void)

lemma groundPath_ignores_void:
  "groundPath (filter (\<lambda>b. \<not> isVoid (userData b)) w) t = groundPath w t"
  by (simp only: groundPath_def resolveX_ignores_void resolveZ_ignores_void
      antiExploit_ignores_void resolveY_ignores_void groundCheck_ignores_void)

lemma skyLanding_ignores_void:
  "skyLanding (filter (\<lambda>b. \<not> isVoid (userData b)) w) l t = skyLanding w l t"
  by (simp only: skyLanding_def getGroundHeightOnLayer_ignores_void)

lemma movePlayer_ignores_void:
  "movePlayer (filter (\<lambda>b. \<not> isVoid (userData b)) w) l keys g = movePlayer w l keys g"
  by (simp only: movePlayer_def groundPath_ignores_void skyLanding_ignores_void)

lemma voidLoop_no_void: "\<not> voidLoop pb (filter (\<lambda>b. \<not> isVoid (userData b)) bs)"
  by (induction bs) auto

text \<open>
  C7. In a tick in which the player is inside a void block and holds an escape charge, with
  a direction key or a shift key held, \<open>updatePlayer\<close> spends the charge and clears the trap
  flag (both are false in the state it returns), and the rest of the tick is the movement
  pipeline \<open>movePlayer\<close> (input, friction, gravity, collision, commit) run on the freed
  player. The tick as a whole is the tick that a free player without a charge gets in the
  same world with the void blocks taken out.
\<close>

theorem void_escape_resumes_motion:
  assumes "checkIfPlayerInVoid worldBlocks (ps g)"
    and "hasVoidEscapePowerup (ps g)"
    and "upPressed keys \<or> downPressed keys \<or> leftPressed keys \<or> rightPressed keys \<or>
         shiftPressed keys"
  shows "\<not> hasVoidEscapePowerup (ps (updatePlayer worldBlocks layers keys g)) \<and>
     \<not> isStuckInVoid (ps (updatePlayer worldBlocks layers keys g)) \<and>
     updatePlayer worldBlocks layers keys g =
       movePlayer worldBlocks layers keys
         (g\<lparr>ps := (ps g)\<lparr>hasVoidEscapePowerup := False, isStuckInVoid := False\<rparr>\<rparr>) \<and>
     updatePlayer worldBlocks layers keys g =
       updatePlayer (filter (\<lambda>b. \<not> isVoid (userData b)) worldBlocks) layers keys
         (g\<lparr>ps := (ps g)\<lparr>hasVoidEscapePowerup := False, isStuckInVoid := False\<rparr>\<rparr>)"
proof -
  let ?free = "g\<lparr>ps := (ps g)\<lparr>hasVoidEscapePowerup := False, isStuckInVoid := False\<rparr>\<rparr>"
  let ?nv = "filter (\<lambda>b. \<not> isVoid (userData b)) worldBlocks"
  have stuck: "isStuckInVoid (handleVoidTrap worldBlocks (ps g))"
    and charge: "hasVoidEscapePowerup (handleVoidTrap worldBlocks (ps g))"
    using assms(1,2) by (simp_all add: handleVoidTrap_def)
  have esc: "voidEscape keys (handleVoidTrap worldBlocks (ps g)) = ps ?free"
    using assms by (simp add: voidEscape_def handleVoidTrap_def)
  have run: "updatePlayer worldBlocks layers keys g = movePlayer worldBlocks layers keys ?free"
    using stuck charge esc by (simp add: updatePlayer_def Let_def)
  have "trapFlags (ps (movePlayer worldBlocks layers keys ?free)) = trapFlags (ps ?free)"
    by (rule trapFlags_movePlayer)
  then have flags: "\<not> hasVoidEscapePowerup (ps (movePlayer worldBlocks layers keys ?free)) \<and>
      \<not> isStuckInVoid (ps (movePlayer worldBlocks layers keys ?free))"
    by (simp add: trapFlags_def)
  have "\<not> checkIfPlayerInVoid ?nv (ps ?free)"
    by (simp add: checkIfPlayerInVoid_def voidLoop_no_void)
  then have "updatePlayer ?nv layers keys ?free = movePlayer ?nv layers keys ?free"
    by (simp add: updatePlayer_def handleVoidTrap_def voidEscape_def Let_def)
  then have "updatePlayer ?nv layers keys ?free = movePlayer worldBlocks layers keys ?free"
    by (simp add: movePlayer_ignores_void)
  with run flags show ?thesis by simp
qed

text \<open>
  The charged player inside the broken block of \<open>trapWorld\<close> with the up arrow held: after
  the tick the charge is spent, the flag is clear and the player has moved by the pushed and
  damped velocity, 0.09 along z.
\<close>

theorem void_escape_resumes_motion_witness:
  "checkIfPlayerInVoid trapWorld (ps (actorOf chargedPlayer)) \<and>
   hasVoidEscapePowerup (ps (actorOf chargedPlayer)) \<and>
   upPressed (holding ''ArrowUp'') \<and>
   \<not> hasVoidEscapePowerup (ps (updatePlayer trapWorld worldLayers (holding ''ArrowUp'')
       (actorOf chargedPlayer))) \<and>
   \<not> isStuckInVoid (ps (updatePlayer trapWorld worldLayers (holding ''ArrowUp'')
       (actorOf chargedPlayer))) \<and>
   position (ps (updatePlayer trapWorld worldLayers (holding ''ArrowUp'') (actorOf chargedPlayer))) =
     \<lparr>vec_x = 0, vec_y = 1 / 2, vec_z = - (9 / 100)\<rparr>"
proof -
  let ?g = "actorOf chargedPlayer"
  let ?free = "?g\<lparr>ps := (ps ?g)\<lparr>hasVoidEscapePowerup := False, isStuckInVoid := False\<rparr>\<rparr>"
  let ?p = "(restingPlayer 0 (1 / 2) 0)\<lparr>velocity := \<lparr>vec_x = 0, vec_y = 0, vec_z = - (9 / 100)\<rparr>\<rparr>"
  have h1: "checkIfPlayerInVoid trapWorld (ps ?g)"
    by (simp add: checkIfPlayerInVoid_def trapWorld_def actorOf_def restingPlayer_def
        chargedPlayer_def breakBlock_def groundBlock_def boxesOverlap_def playerBoxAt_def
        playerBody_def)
  have h2: "hasVoidEscapePowerup (ps ?g)"
    by (simp add: actorOf_def chargedPlayer_def)
  have h3: "upPressed (holding ''ArrowUp'')"
    by (simp add: upPressed_def holding_def)
  have sky: "\<not> isInBlueSky (vec_y (position (ps ?free)))"
    by (simp add: actorOf_def chargedPlayer_def restingPlayer_def isInBlueSky_def
        FALL_THROUGH_HEIGHT_def)
  have proposed: "proposeMove (holding ''ArrowUp'') ?free =
      \<lparr>newX = 0, newY = 1 / 2, newZ = - (9 / 100), tps = ?p\<rparr>"
    by (simp add: proposeMove_def actorOf_def chargedPlayer_def restingPlayer_def
        cameraAngleOf_def atan2_def accumulateInput_def shiftPressed_def upPressed_def
        downPressed_def leftPressed_def rightPressed_def holding_def addVelocityXZ_def
        applyFriction_def applyGravity_def isInBlueSky_def FALL_THROUGH_HEIGHT_def)
  have path: "groundPath trapWorld \<lparr>newX = 0, newY = 1 / 2, newZ = - (9 / 100), tps = ?p\<rparr> =
      \<lparr>newX = 0, newY = 1 / 2, newZ = - (9 / 100), tps = ?p\<lparr>isOnGround := False\<rparr>\<rparr>"
    by (simp add: groundPath_def resolveX_def resolveZ_def antiExploit_def resolveY_def
        groundCheck_def checkCollision_def getGroundHeight_def groundStep_def trapWorld_def
        breakBlock_def groundBlock_def skipBlock_def boxesOverlap_def overBlock_def
        playerBoxAt_def playerBody_def restingPlayer_def isInBlueSky_def FALL_THROUGH_HEIGHT_def)
  have moved: "position (ps (movePlayer trapWorld worldLayers (holding ''ArrowUp'') ?free)) =
      \<lparr>vec_x = 0, vec_y = 1 / 2, vec_z = - (9 / 100)\<rparr>"
    using sky by (simp add: movePlayer_def proposed path commit_def Let_def isInBlueSky_def
        FALL_THROUGH_HEIGHT_def)
  note tick = void_escape_resumes_motion [OF h1 h2 disjI1 [OF h3], of worldLayers]
  from tick have f1: "\<not> hasVoidEscapePowerup (ps (updatePlayer trapWorld worldLayers
      (holding ''ArrowUp'') ?g))"
    and f2: "\<not> isStuckInVoid (ps (updatePlayer trapWorld worldLayers (holding ''ArrowUp'') ?g))"
    and run: "updatePlayer trapWorld worldLayers (holding ''ArrowUp'') ?g =
      movePlayer trapWorld worldLayers (holding ''ArrowUp'') ?free"
    by blast+
  from moved have f3: "position (ps (updatePlayer trapWorld worldLayers (holding ''ArrowUp'') ?g)) =
      \<lparr>vec_x = 0, vec_y = 1 / 2, vec_z = - (9 / 100)\<rparr>"
    by (simp only: run)
  from h1 h2 h3 f1 f2 f3 show ?thesis by blast
qed

section \<open>Walking onto higher ground\<close>

lemma handleVoidTrap_flags:
  "voidEscape keys (handleVoidTrap w p) =
     setTrapFlags (hasVoidEscapePowerup (voidEscape keys (handleVoidTrap w p)))
       (isStuckInVoid (voidEscape keys (handleVoidTrap w p))) p"
  by (simp add: voidEscape_def handleVoidTrap_def setTrapFlags_def)

lemma setTrapFlags_fields [simp]:
  "position (setTrapFlags a b p) = position p"
  "velocity (setTrapFlags a b p) = velocity p"
  "isOnGround (setTrapFlags a b p) = isOnGround p"
  "moveSpeed (setTrapFlags a b p) = moveSpeed p"
  "gravity (setTrapFlags a b p) = gravity p"
  by (simp_all add: setTrapFlags_def)

lemma accumulateInput_setTrapFlags:
  "accumulateInput keys ang (setTrapFlags a b p) = setTrapFlags a b (accumulateInput keys ang p)"
  by (simp add: accumulateInput_def addVelocityXZ_def setTrapFlags_def Let_def)

lemma applyFriction_setTrapFlags:
  "applyFriction (setTrapFlags a b p) = setTrapFlags a b (applyFriction p)"
  by (simp add: applyFriction_def setTrapFlags_def)

lemma applyGravity_setTrapFlags:
  "applyGravity s (setTrapFlags a b p) = setTrapFlags a b (applyGravity s p)"
  by (simp add: applyGravity_def setTrapFlags_def)

lemma proposeMove_setTrapFlags:
  "proposeMove keys (g\<lparr>ps := setTrapFlags a b (ps g)\<rparr>) = liftTrapFlags a b (proposeMove keys g)"
  by (simp add: proposeMove_def liftTrapFlags_def cameraAngleOf_def Let_def
      accumulateInput_setTrapFlags applyFriction_setTrapFlags applyGravity_setTrapFlags)

lemma liftTrapFlags_fields [simp]:
  "newX (liftTrapFlags a b t) = newX t"
  "newY (liftTrapFlags a b t) = newY t"
  "newZ (liftTrapFlags a b t) = newZ t"
  "tps (liftTrapFlags a b t) = setTrapFlags a b (tps t)"
  by (simp_all add: liftTrapFlags_def)

lemma revertX_liftTrapFlags: "revertX (liftTrapFlags a b t) = liftTrapFlags a b (revertX t)"
  by (simp add: revertX_def liftTrapFlags_def setTrapFlags_def)

lemma revertZ_liftTrapFlags: "revertZ (liftTrapFlags a b t) = liftTrapFlags a b (revertZ t)"
  by (simp add: revertZ_def liftTrapFlags_def setTrapFlags_def)

lemma resolveX_liftTrapFlags:
  "resolveX w (liftTrapFlags a b t) = liftTrapFlags a b (resolveX w t)"
  by (simp add: resolveX_def revertX_liftTrapFlags Let_def split: option.splits)

lemma resolveZ_liftTrapFlags:
  "resolveZ w (liftTrapFlags a b t) = liftTrapFlags a b (resolveZ w t)"
  by (simp add: resolveZ_def revertZ_liftTrapFlags Let_def split: option.splits)

lemma proposedDestination_setTrapFlags:
  "proposedDestination w keys (g\<lparr>ps := setTrapFlags a b (ps g)\<rparr>) = proposedDestination w keys g"
  by (simp add: proposedDestination_def proposeMove_setTrapFlags resolveX_liftTrapFlags
      resolveZ_liftTrapFlags Let_def)

lemma vertState_revert [simp]:
  "vertState (revertX t) = vertState t"
  "vertState (revertZ t) = vertState t"
  "vertState (revertXZ t) = vertState t"
  by (simp_all add: vertState_def revertX_def revertZ_def revertXZ_def)

lemma vertState_resolveX [simp]: "vertState (resolveX w t) = vertState t"
  by (simp add: resolveX_def Let_def split: option.splits)

lemma vertState_resolveZ [simp]: "vertState (resolveZ w t) = vertState t"
  by (simp add: resolveZ_def Let_def split: option.splits)

lemma vertState_proposeMove:
  "isOnGround (ps g) \<Longrightarrow> \<not> isInBlueSky (vec_y (position (ps g))) \<Longrightarrow>
     vertState (proposeMove keys g) =
       (vec_y (position (ps g)) + vec_y (velocity (ps g)), position (ps g), True,
        vec_y (velocity (ps g)))"
  by (simp add: vertState_def proposeMove_def accumulateInput_def addVelocityXZ_def
      applyFriction_def applyGravity_def Let_def)

lemma revertedXZ_revertXZ: "revertedXZ (revertXZ t)"
  by (simp add: revertedXZ_def revertXZ_def)

lemma position_revertXZ [simp]: "position (tps (revertXZ t)) = position (tps t)"
  by (simp add: revertXZ_def)

lemma resolveY_keeps_reverted:
  "revertedXZ t \<Longrightarrow> revertedXZ (resolveY w t) \<and> position (tps (resolveY w t)) = position (tps t)"
  by (simp add: resolveY_def revertedXZ_def revertXZ_def Let_def split: option.splits)

lemma groundCheck_keeps_reverted:
  "revertedXZ t \<Longrightarrow>
     revertedXZ (groundCheck w t) \<and> position (tps (groundCheck w t)) = position (tps t)"
  by (simp add: groundCheck_def revertedXZ_def landOn_def Let_def split: option.splits)

lemma commit_reverted:
  "revertedXZ t \<Longrightarrow>
     vec_x (position (ps (commit a g t))) = vec_x (position (tps t)) \<and>
     vec_z (position (ps (commit a g t))) = vec_z (position (tps t)) \<and>
     vec_x (velocity (ps (commit a g t))) = 0 \<and>
     vec_z (velocity (ps (commit a g t))) = 0"
  by (simp add: commit_def revertedXZ_def Let_def)


text \<open>
  The guard of \<open>updatePlayer\<close> against walking onto a platform asks \<open>getGroundHeight\<close>
  without step-up and at the player's current height. Such a query counts only a block whose
  top is at or below the player's feet, so the height it reports is never above the feet, at
  the destination no more than at the current position.
\<close>

lemma fold_groundStep_not_above_feet:
  "(case m of None \<Rightarrow> True | Some h \<Rightarrow> h \<le> cy + minY playerBody) \<Longrightarrow>
     fold (groundStep px pz cy False) bs m = Some d \<Longrightarrow> d \<le> cy + minY playerBody"
proof (induction bs arbitrary: m)
  case Nil
  then show ?case by simp
next
  case (Cons b bs)
  have "case groundStep px pz cy False b m of None \<Rightarrow> True
      | Some h \<Rightarrow> h \<le> cy + minY playerBody"
    using Cons.prems(1)
    by (auto simp: groundStep_def raiseTo_def Let_def split: option.splits)
  with Cons show ?case by simp
qed

lemma getGroundHeight_not_above_feet:
  "getGroundHeight worldBlocks px pz cy False = Some d \<Longrightarrow> d \<le> cy + minY playerBody"
  using fold_groundStep_not_above_feet [where m = None and bs = worldBlocks]
  by (simp add: getGroundHeight_def split: if_splits)

text \<open>
  When the query does report a destination more than 0.01 above the current ground, the guard
  takes the horizontal move back: the tick commits the old x and z and leaves the horizontal
  velocity zero. By the lemma above such a destination is at or below the player's feet,
  which a landing leaves 0.1 above its ground; a surface above the feet is not seen.
\<close>

lemma guard_reverts_reported_rise:
  assumes grounded: "isOnGround (ps g)"
    and still: "\<bar>vec_y (velocity (ps g))\<bar> < 1 / 100"
    and low: "\<not> isInBlueSky (vec_y (position (ps g)))"
    and low': "\<not> isInBlueSky (vec_y (position (ps g)) + vec_y (velocity (ps g)))"
    and dest: "proposedDestination worldBlocks keys g = (destX, destZ)"
    and dgh: "getGroundHeight worldBlocks destX destZ (vec_y (position (ps g))) False =
                Some destinationGroundHeight"
    and cgh: "getGroundHeight worldBlocks (vec_x (position (ps g))) (vec_z (position (ps g)))
                (vec_y (position (ps g))) False = Some currentGroundHeight"
    and higher: "destinationGroundHeight > currentGroundHeight + 1 / 100"
  shows "vec_x (position (ps (updatePlayer worldBlocks layers keys g))) = vec_x (position (ps g)) \<and>
     vec_z (position (ps (updatePlayer worldBlocks layers keys g))) = vec_z (position (ps g)) \<and>
     vec_x (velocity (ps (updatePlayer worldBlocks layers keys g))) = 0 \<and>
     vec_z (velocity (ps (updatePlayer worldBlocks layers keys g))) = 0"
proof -
  let ?p = "handleVoidTrap worldBlocks (ps g)"
  show ?thesis
  proof (cases "isStuckInVoid ?p \<and> \<not> hasVoidEscapePowerup ?p")
    case True
    have "position ?p = position (ps g)"
      by (simp add: handleVoidTrap_def)
    with True show ?thesis
      by (simp add: updatePlayer_def Let_def)
  next
    case False
    obtain a b where ab: "voidEscape keys ?p = setTrapFlags a b (ps g)"
      using handleVoidTrap_flags [of keys worldBlocks "ps g"] by blast
    let ?g' = "g\<lparr>ps := setTrapFlags a b (ps g)\<rparr>"
    let ?t0 = "proposeMove keys ?g'"
    let ?t2 = "resolveZ worldBlocks (resolveX worldBlocks ?t0)"
    let ?t3 = "revertXZ ?t2"
    let ?t5 = "groundCheck worldBlocks (resolveY worldBlocks ?t3)"
    have run: "updatePlayer worldBlocks layers keys g = movePlayer worldBlocks layers keys ?g'"
      using False ab by (auto simp: updatePlayer_def Let_def)
    have v0: "vertState ?t0 =
        (vec_y (position (ps g)) + vec_y (velocity (ps g)), position (ps g), True,
         vec_y (velocity (ps g)))"
      using vertState_proposeMove [of ?g' keys] grounded low by simp
    then have v2: "vertState ?t2 =
        (vec_y (position (ps g)) + vec_y (velocity (ps g)), position (ps g), True,
         vec_y (velocity (ps g)))"
      by simp
    have d2: "newX ?t2 = destX \<and> newZ ?t2 = destZ"
      using dest proposedDestination_setTrapFlags [where w = worldBlocks and keys = keys and g = g and a = a and b = b]
      by (simp add: proposedDestination_def Let_def)
    have anti: "antiExploit worldBlocks False ?t2 = ?t3"
      using v2 d2 dgh cgh higher still low'
      by (simp add: antiExploit_def vertState_def Let_def)
    have pos0: "position (tps ?t0) = position (ps g)"
      using v0 by (simp add: vertState_def)
    have path: "groundPath worldBlocks ?t0 = ?t5"
      using anti low by (simp add: groundPath_def pos0)
    have newY0: "newY ?t0 = vec_y (position (ps g)) + vec_y (velocity (ps g))"
      using v0 by (simp add: vertState_def)
    have move: "movePlayer worldBlocks layers keys ?g' = commit (cameraAngleOf ?g') ?g' ?t5"
      using low low' by (simp add: movePlayer_def Let_def newY0 path)
    have pos2: "position (tps ?t2) = position (ps g)"
      using v2 by (simp add: vertState_def)
    have r3: "revertedXZ ?t3"
      by (rule revertedXZ_revertXZ)
    from resolveY_keeps_reverted [OF r3, of worldBlocks]
    have r4: "revertedXZ (resolveY worldBlocks ?t3)"
      and pos4: "position (tps (resolveY worldBlocks ?t3)) = position (ps g)"
      by (simp_all add: pos2)
    from groundCheck_keeps_reverted [OF r4, of worldBlocks]
    have r5: "revertedXZ ?t5" and pos5: "position (tps ?t5) = position (ps g)"
      by (simp_all add: pos4)
    from commit_reverted [OF r5, of "cameraAngleOf ?g'" ?g'] pos5 run move
    show ?thesis by simp
  qed
qed

text \<open>
  The ground test at rest: a grounded player with no vertical speed stays grounded exactly
  when it is at most 1.1 above the ground under it, the height that a landing writes. At the
  height that the doubles of the source write on the main ground the tick clears
  \<open>isOnGround\<close>; at 1.1 it keeps it.
\<close>

lemma groundCheck_rest_boundary:
  assumes gh: "getGroundHeight worldBlocks (newX t) (newZ t) (vec_y (position (tps t))) False =
      Some groundHeight"
    and still: "vec_y (velocity (tps t)) = 0"
    and grounded: "isOnGround (tps t)"
    and same: "newY t = vec_y (position (tps t))"
  shows "isOnGround (tps (groundCheck worldBlocks t)) \<longleftrightarrow>
     vec_y (position (tps t)) \<le> groundHeight + 1 + 1 / 10"
proof -
  from getGroundHeight_not_above_feet [OF gh]
  have "groundHeight \<le> vec_y (position (tps t)) - 1"
    by (simp add: playerBody_def)
  then show ?thesis
    using gh still grounded same
    by (auto simp: groundCheck_def landOn_def playerBody_def Let_def)
qed

lemma main_ground_rest:
  "isOnGround (ps (updatePlayer [groundBlock 0 0 0 9127187] worldLayers noKeys
      (actorOf (restingPlayer 0 (11 / 10) 0)))) \<and>
   11 / 10 < landedHeightInDoubles \<and>
   \<not> isOnGround (ps (updatePlayer [groundBlock 0 0 0 9127187] worldLayers noKeys
      (actorOf (restingPlayer 0 landedHeightInDoubles 0))))"
  by (simp add: updatePlayer_def handleVoidTrap_def checkIfPlayerInVoid_def voidEscape_def
      movePlayer_def groundPath_def antiExploit_def resolveY_def groundCheck_def landOn_def
      commit_def Let_def groundBlock_def landedHeightInDoubles_def
      actorOf_def restingPlayer_def noKeys_def
      proposeMove_def cameraAngleOf_def atan2_def accumulateInput_def shiftPressed_def
      upPressed_def downPressed_def leftPressed_def rightPressed_def addVelocityXZ_def
      applyFriction_def applyGravity_def isInBlueSky_def FALL_THROUGH_HEIGHT_def resolveX_def
      resolveZ_def checkCollision_def skipBlock_def boxesOverlap_def playerBoxAt_def playerBody_def
      getGroundHeight_def groundStep_def overBlock_def raiseTo_def)

text \<open>
  The walk on \<open>stepWorld (3 / 10)\<close> with the right arrow held, tick by tick: each tick adds
  0.1 to the velocity along x and damps it by 0.9.
\<close>

lemmas walk_eval = updatePlayer_def handleVoidTrap_def checkIfPlayerInVoid_def voidEscape_def
  movePlayer_def groundPath_def antiExploit_def resolveY_def groundCheck_def landOn_def
  commit_def Let_def blocksLateral_def holding_def strider_def
  stepWorld_def platformBlock_def actorOf_def restingPlayer_def
  proposeMove_def cameraAngleOf_def atan2_def accumulateInput_def shiftPressed_def
  upPressed_def downPressed_def leftPressed_def rightPressed_def addVelocityXZ_def
  applyFriction_def applyGravity_def isInBlueSky_def FALL_THROUGH_HEIGHT_def resolveX_def
  resolveZ_def checkCollision_def skipBlock_def boxesOverlap_def playerBoxAt_def playerBody_def
  getGroundHeight_def groundStep_def overBlock_def raiseTo_def revertX_def revertZ_def revertXZ_def

lemma walk_tick_1: "updatePlayer (stepWorld (3 / 10)) worldLayers (holding ''ArrowRight'')
    (strider (3 / 10) (- (454 / 10)) 0 True) = strider (39 / 100) (- (454 / 10)) (9 / 100) True"
  by (simp add: walk_eval)

lemma walk_tick_2: "updatePlayer (stepWorld (3 / 10)) worldLayers (holding ''ArrowRight'')
    (strider (39 / 100) (- (454 / 10)) (9 / 100) True) =
      strider (561 / 1000) (- (454 / 10)) (171 / 1000) True"
  by (simp add: walk_eval)

lemma walk_tick_3: "updatePlayer (stepWorld (3 / 10)) worldLayers (holding ''ArrowRight'')
    (strider (561 / 1000) (- (454 / 10)) (171 / 1000) True) =
      strider (8049 / 10000) (- (454 / 10)) (2439 / 10000) True"
  by (simp add: walk_eval)

lemma walk_tick_4: "updatePlayer (stepWorld (3 / 10)) worldLayers (holding ''ArrowRight'')
    (strider (8049 / 10000) (- (454 / 10)) (2439 / 10000) True) =
      strider (111441 / 100000) (- (454 / 10)) (30951 / 100000) True"
  by (simp add: walk_eval)

lemma walk_tick_5: "updatePlayer (stepWorld (3 / 10)) worldLayers (holding ''ArrowRight'')
    (strider (111441 / 100000) (- (454 / 10)) (30951 / 100000) True) =
      strider (1482969 / 1000000) (- (454 / 10)) (368559 / 1000000) False"
  by (simp add: walk_eval)

lemma walk_tick_6: "updatePlayer (stepWorld (3 / 10)) worldLayers (holding ''ArrowRight'')
    (strider (1482969 / 1000000) (- (454 / 10)) (368559 / 1000000) False) =
      strider (19046721 / 10000000) (- (4519 / 100)) (4217031 / 10000000) False"
  by (simp add: walk_eval)

lemma walk_tick_7: "updatePlayer (stepWorld (3 / 10)) worldLayers (holding ''ArrowRight'')
    (strider (19046721 / 10000000) (- (4519 / 100)) (4217031 / 10000000) False) =
      strider (237420489 / 100000000) (- (451 / 10)) (46953279 / 100000000) True"
  by (simp add: walk_eval)

lemma playerTicks_unfold:
  "playerTicks 1 w l k g = updatePlayer w l k g"
  "playerTicks 2 w l k g = updatePlayer w l k (playerTicks 1 w l k g)"
  "playerTicks 3 w l k g = updatePlayer w l k (playerTicks 2 w l k g)"
  "playerTicks 4 w l k g = updatePlayer w l k (playerTicks 3 w l k g)"
  "playerTicks 5 w l k g = updatePlayer w l k (playerTicks 4 w l k g)"
  "playerTicks 6 w l k g = updatePlayer w l k (playerTicks 5 w l k g)"
  "playerTicks 7 w l k g = updatePlayer w l k (playerTicks 6 w l k g)"
  by (simp_all add: eval_nat_numeral)

text \<open>
  C2. The specification has a grounded player with no vertical speed, outside the sky band,
  never walk onto ground higher than its own, not even within the step height 0.5, and the
  comments on the guard in \<open>updatePlayer\<close> say the same: a platform must be jumped onto. The
  code does not achieve this. On \<open>stepWorld (3 / 10)\<close>, two platforms with their tops at -46.5
  and at -46.2, a player at rest on the first one at (0.3, -45.4, 0) holds the right arrow,
  with no shift key and so with no jump. In the third tick it is grounded with no vertical
  speed, and at its destination x = 0.8049 its footprint is over the second platform, whose
  top is 0.3 above the ground it stands on and is what the query with step-up reports as the
  ground there; the query of the guard reports -46.5 at both places, and the move is
  committed. Two ticks later the footprint has left the first platform and \<open>isOnGround\<close> is
  cleared; gravity then gives the player, which is inside the second platform, a downward
  velocity, and the vertical collision test puts it on the top of that platform. After seven
  ticks it stands grounded at height -45.1 with the top of the second platform as its ground.
\<close>

theorem grounded_player_walks_onto_higher_platform:
  "isOnGround (ps (strider (3 / 10) (- (454 / 10)) 0 True)) \<and>
   velocity (ps (strider (3 / 10) (- (454 / 10)) 0 True)) = \<lparr>vec_x = 0, vec_y = 0, vec_z = 0\<rparr> \<and>
   \<not> shiftPressed (holding ''ArrowRight'') \<and>
   getGroundHeight (stepWorld (3 / 10)) (3 / 10) 0 (- (454 / 10)) False = Some (- (465 / 10)) \<and>
   playerTicks 1 (stepWorld (3 / 10)) worldLayers (holding ''ArrowRight'')
       (strider (3 / 10) (- (454 / 10)) 0 True) =
     strider (39 / 100) (- (454 / 10)) (9 / 100) True \<and>
   playerTicks 2 (stepWorld (3 / 10)) worldLayers (holding ''ArrowRight'')
       (strider (3 / 10) (- (454 / 10)) 0 True) =
     strider (561 / 1000) (- (454 / 10)) (171 / 1000) True \<and>
   proposedDestination (stepWorld (3 / 10)) (holding ''ArrowRight'')
       (strider (561 / 1000) (- (454 / 10)) (171 / 1000) True) = (8049 / 10000, 0) \<and>
   overBlock (8049 / 10000) 0 (userData (stepWorld (3 / 10) ! 1)) \<and>
   maxY (userData (stepWorld (3 / 10) ! 1)) = - (462 / 10) \<and>
   getGroundHeight (stepWorld (3 / 10)) (8049 / 10000) 0 (- (454 / 10)) True = Some (- (462 / 10)) \<and>
   getGroundHeight (stepWorld (3 / 10)) (8049 / 10000) 0 (- (454 / 10)) False = Some (- (465 / 10)) \<and>
   getGroundHeight (stepWorld (3 / 10)) (561 / 1000) 0 (- (454 / 10)) False = Some (- (465 / 10)) \<and>
   playerTicks 3 (stepWorld (3 / 10)) worldLayers (holding ''ArrowRight'')
       (strider (3 / 10) (- (454 / 10)) 0 True) =
     strider (8049 / 10000) (- (454 / 10)) (2439 / 10000) True \<and>
   playerTicks 4 (stepWorld (3 / 10)) worldLayers (holding ''ArrowRight'')
       (strider (3 / 10) (- (454 / 10)) 0 True) =
     strider (111441 / 100000) (- (454 / 10)) (30951 / 100000) True \<and>
   playerTicks 5 (stepWorld (3 / 10)) worldLayers (holding ''ArrowRight'')
       (strider (3 / 10) (- (454 / 10)) 0 True) =
     strider (1482969 / 1000000) (- (454 / 10)) (368559 / 1000000) False \<and>
   playerTicks 6 (stepWorld (3 / 10)) worldLayers (holding ''ArrowRight'')
       (strider (3 / 10) (- (454 / 10)) 0 True) =
     strider (19046721 / 10000000) (- (4519 / 100)) (4217031 / 10000000) False \<and>
   playerTicks 7 (stepWorld (3 / 10)) worldLayers (holding ''ArrowRight'')
       (strider (3 / 10) (- (454 / 10)) 0 True) =
     strider (237420489 / 100000000) (- (451 / 10)) (46953279 / 100000000) True \<and>
   isOnGround (ps (strider (237420489 / 100000000) (- (451 / 10)) (46953279 / 100000000) True)) \<and>
   position (ps (strider (237420489 / 100000000) (- (451 / 10)) (46953279 / 100000000) True)) =
     \<lparr>vec_x = 237420489 / 100000000, vec_y = - (451 / 10), vec_z = 0\<rparr> \<and>
   getGroundHeight (stepWorld (3 / 10)) (237420489 / 100000000) 0 (- (451 / 10)) False =
     Some (- (462 / 10))"
proof -
  let ?w = "stepWorld (3 / 10)"
  let ?k = "holding ''ArrowRight''"
  let ?g = "strider (3 / 10) (- (454 / 10)) 0 True"
  have start: "isOnGround (ps ?g) \<and>
      velocity (ps ?g) = \<lparr>vec_x = 0, vec_y = 0, vec_z = 0\<rparr> \<and> \<not> shiftPressed ?k"
    by (simp add: strider_def actorOf_def restingPlayer_def shiftPressed_def holding_def)
  have g0: "getGroundHeight ?w (3 / 10) 0 (- (454 / 10)) False = Some (- (465 / 10))"
    by (simp add: walk_eval)
  have t1: "playerTicks 1 ?w worldLayers ?k ?g = strider (39 / 100) (- (454 / 10)) (9 / 100) True"
    by (simp only: playerTicks_unfold walk_tick_1)
  have t2: "playerTicks 2 ?w worldLayers ?k ?g =
      strider (561 / 1000) (- (454 / 10)) (171 / 1000) True"
    by (simp only: playerTicks_unfold(2) t1 walk_tick_2)
  have dest: "proposedDestination ?w ?k (strider (561 / 1000) (- (454 / 10)) (171 / 1000) True) =
      (8049 / 10000, 0)"
    by (simp add: proposedDestination_def walk_eval)
  have over: "overBlock (8049 / 10000) 0 (userData (?w ! 1)) \<and>
      maxY (userData (?w ! 1)) = - (462 / 10)"
    by (simp add: stepWorld_def platformBlock_def overBlock_def playerBody_def)
  have seen: "getGroundHeight ?w (8049 / 10000) 0 (- (454 / 10)) True = Some (- (462 / 10))"
    by (simp add: walk_eval)
  have blind: "getGroundHeight ?w (8049 / 10000) 0 (- (454 / 10)) False = Some (- (465 / 10))"
    by (simp add: walk_eval)
  have cur: "getGroundHeight ?w (561 / 1000) 0 (- (454 / 10)) False = Some (- (465 / 10))"
    by (simp add: walk_eval)
  have t3: "playerTicks 3 ?w worldLayers ?k ?g =
      strider (8049 / 10000) (- (454 / 10)) (2439 / 10000) True"
    by (simp only: playerTicks_unfold(3) t2 walk_tick_3)
  have t4: "playerTicks 4 ?w worldLayers ?k ?g =
      strider (111441 / 100000) (- (454 / 10)) (30951 / 100000) True"
    by (simp only: playerTicks_unfold(4) t3 walk_tick_4)
  have t5: "playerTicks 5 ?w worldLayers ?k ?g =
      strider (1482969 / 1000000) (- (454 / 10)) (368559 / 1000000) False"
    by (simp only: playerTicks_unfold(5) t4 walk_tick_5)
  have t6: "playerTicks 6 ?w worldLayers ?k ?g =
      strider (19046721 / 10000000) (- (4519 / 100)) (4217031 / 10000000) False"
    by (simp only: playerTicks_unfold(6) t5 walk_tick_6)
  have t7: "playerTicks 7 ?w worldLayers ?k ?g =
      strider (237420489 / 100000000) (- (451 / 10)) (46953279 / 100000000) True"
    by (simp only: playerTicks_unfold(7) t6 walk_tick_7)
  have final: "isOnGround (ps (strider (237420489 / 100000000) (- (451 / 10))
        (46953279 / 100000000) True)) \<and>
      position (ps (strider (237420489 / 100000000) (- (451 / 10)) (46953279 / 100000000) True)) =
        \<lparr>vec_x = 237420489 / 100000000, vec_y = - (451 / 10), vec_z = 0\<rparr>"
    by (simp add: strider_def actorOf_def restingPlayer_def)
  have g7: "getGroundHeight ?w (237420489 / 100000000) 0 (- (451 / 10)) False =
      Some (- (462 / 10))"
    by (simp add: walk_eval)
  from start g0 t1 t2 dest over seen blind cur t3 t4 t5 t6 t7 final g7 show ?thesis
    by blast
qed

section \<open>Blocks above the sky threshold\<close>

lemma checkCollision_filter:
  assumes "\<And>b. \<not> P b \<Longrightarrow> skipBlock b \<or> maxY (userData b) > FALL_THROUGH_HEIGHT"
  shows "checkCollision (filter P w) px py pz = checkCollision w px py pz"
  by (simp add: checkCollision_def checkCollisionLoop_filter [of P, OF assms])

lemma getGroundHeight_filter:
  assumes "\<And>b. \<not> P b \<Longrightarrow> skipBlock b \<or> maxY (userData b) > FALL_THROUGH_HEIGHT"
  shows "getGroundHeight (filter P w) px pz cy a = getGroundHeight w px pz cy a"
proof -
  have "fold (groundStep px pz cy a) (filter P w) None = fold (groundStep px pz cy a) w None"
    by (rule fold_filter_skip) (use assms in \<open>auto simp: groundStep_def\<close>)
  then show ?thesis by (simp add: getGroundHeight_def)
qed

lemma groundPath_filter:
  assumes "\<And>b. \<not> P b \<Longrightarrow> skipBlock b \<or> maxY (userData b) > FALL_THROUGH_HEIGHT"
  shows "groundPath (filter P w) t = groundPath w t"
proof -
  have cc: "checkCollision (filter P w) px py pz = checkCollision w px py pz" for px py pz
    by (rule checkCollision_filter) (use assms in blast)
  have gh: "getGroundHeight (filter P w) px pz cy a = getGroundHeight w px pz cy a" for px pz cy a
    by (rule getGroundHeight_filter) (use assms in blast)
  have "resolveX (filter P w) t' = resolveX w t'" for t'
    by (simp only: resolveX_def Let_def cc)
  moreover have "resolveZ (filter P w) t' = resolveZ w t'" for t'
    by (simp only: resolveZ_def Let_def cc)
  moreover have "antiExploit (filter P w) s t' = antiExploit w s t'" for s t'
    by (simp only: antiExploit_def Let_def gh)
  moreover have "resolveY (filter P w) t' = resolveY w t'" for t'
    by (simp only: resolveY_def Let_def cc)
  moreover have "groundCheck (filter P w) t' = groundCheck w t'" for t'
    by (simp only: groundCheck_def Let_def gh)
  ultimately show ?thesis
    by (simp only: groundPath_def)
qed

lemma voidLoop_filter:
  "(\<And>b. \<not> P b \<Longrightarrow> \<not> isVoid (userData b)) \<Longrightarrow> voidLoop pb (filter P bs) = voidLoop pb bs"
  by (induction bs) auto

lemma newY_proposeMove_setTrapFlags:
  "newY (proposeMove keys (g\<lparr>ps := setTrapFlags a b (ps g)\<rparr>)) = newY (proposeMove keys g)"
  by (simp add: proposeMove_setTrapFlags)

lemma updatePlayer_ground_filter:
  assumes P: "\<And>b. \<not> P b \<Longrightarrow> maxY (userData b) > FALL_THROUGH_HEIGHT \<and> \<not> isVoid (userData b)"
    and low: "\<not> isInBlueSky (vec_y (position (ps g)))"
    and low': "\<not> isInBlueSky (newY (proposeMove keys g))"
  shows "updatePlayer (filter P w) layers keys g = updatePlayer w layers keys g"
proof -
  have hv: "handleVoidTrap (filter P w) (ps g) = handleVoidTrap w (ps g)"
    using P by (simp add: handleVoidTrap_def checkIfPlayerInVoid_def voidLoop_filter)
  obtain a b where ab: "voidEscape keys (handleVoidTrap w (ps g)) = setTrapFlags a b (ps g)"
    using handleVoidTrap_flags [of keys w "ps g"] by blast
  let ?g' = "g\<lparr>ps := setTrapFlags a b (ps g)\<rparr>"
  have gp: "groundPath (filter P w) t = groundPath w t" for t
    by (rule groundPath_filter) (use P in blast)
  have "movePlayer (filter P w) layers keys ?g' = movePlayer w layers keys ?g'"
    using low low' by (simp add: movePlayer_def Let_def newY_proposeMove_setTrapFlags gp)
  then show ?thesis
    by (simp add: updatePlayer_def Let_def hv ab)
qed

lemma fold_layerStep_ge: "m \<le> fold (layerStep px pz layerY) bs m"
proof (induction bs arbitrary: m)
  case Nil
  then show ?case by simp
next
  case (Cons b bs)
  have "m \<le> layerStep px pz layerY b m"
    by (simp add: layerStep_def)
  also have "\<dots> \<le> fold (layerStep px pz layerY) bs (layerStep px pz layerY b m)"
    by (rule Cons.IH)
  finally show ?case by simp
qed

lemma fold_layerStep_covers:
  "b \<in> set bs \<Longrightarrow> \<not> skipBlock b \<Longrightarrow>
   worldLayer (userData b) = Some layerY \<or> worldLayer (userData b) = None \<Longrightarrow>
   overBlock px pz (userData b) \<Longrightarrow>
     maxY (userData b) \<le> fold (layerStep px pz layerY) bs m"
proof (induction bs arbitrary: m)
  case Nil
  then show ?case by simp
next
  case (Cons c bs)
  show ?case
  proof (cases "b = c")
    case True
    with Cons.prems have "maxY (userData b) \<le> layerStep px pz layerY c m"
      by (auto simp: layerStep_def)
    also have "\<dots> \<le> fold (layerStep px pz layerY) bs (layerStep px pz layerY c m)"
      by (rule fold_layerStep_ge)
    finally show ?thesis by simp
  next
    case False
    with Cons.prems have "b \<in> set bs" by simp
    from Cons.IH [OF this Cons.prems(2-4)] show ?thesis by simp
  qed
qed

lemma skyPath_landing:
  assumes "isInBlueSky (vec_y (position (ps g))) \<or> isInBlueSky (newY (proposeMove keys g))"
    and "getNextWorldLayerBelow layers (newY (proposeMove keys g)) = Some nextLayer"
    and "newY (proposeMove keys g) < nextLayer + 10"
    and "newY (proposeMove keys g) \<le>
           getGroundHeightOnLayer w (newX (proposeMove keys g)) (newZ (proposeMove keys g)) nextLayer + 1"
  shows "vec_y (position (ps (movePlayer w layers keys g))) =
           getGroundHeightOnLayer w (newX (proposeMove keys g)) (newZ (proposeMove keys g)) nextLayer
             + 1 + 1 / 10 \<and>
         isOnGround (ps (movePlayer w layers keys g)) \<and>
         vec_y (velocity (ps (movePlayer w layers keys g))) = 0"
  using assms
  by (auto simp: movePlayer_def commitSky_def commit_def skyLanding_def Let_def playerBody_def)


text \<open>
  C10. A block whose top is above \<open>FALL_THROUGH_HEIGHT = 2\<close> takes no part in
  \<open>checkCollision\<close> nor in \<open>getGroundHeight\<close>, at any position and reference height: both
  give the same answer with all such blocks removed, and what they return has its top at or
  below the threshold. Hence a whole tick outside the sky band is the same with the elevated
  blocks (those that are not holes) removed. \<open>getGroundHeightOnLayer\<close> has no such filter:
  every block of the layer (or of no layer) under the footprint bounds its result from below,
  however high its top; and it is the height on which the sky-band branch of the tick lands
  the player.
\<close>

theorem elevated_blocks_only_via_sky_path:
  "checkCollision (filter (\<lambda>b. \<not> elevated b) worldBlocks) px py pz =
     checkCollision worldBlocks px py pz \<and>
   getGroundHeight (filter (\<lambda>b. \<not> elevated b) worldBlocks) px pz currentY allowStepUp =
     getGroundHeight worldBlocks px pz currentY allowStepUp \<and>
   (checkCollision worldBlocks px py pz = Some bd \<longrightarrow> maxY bd \<le> FALL_THROUGH_HEIGHT) \<and>
   (getGroundHeight worldBlocks px pz currentY allowStepUp = Some h \<longrightarrow> h \<le> FALL_THROUGH_HEIGHT) \<and>
   (\<not> isInBlueSky (vec_y (position (ps g))) \<and> \<not> isInBlueSky (newY (proposeMove keys g)) \<longrightarrow>
      updatePlayer (filter (\<lambda>b. \<not> elevatedSolid b) worldBlocks) layers keys g =
        updatePlayer worldBlocks layers keys g) \<and>
   (b \<in> set worldBlocks \<and> \<not> skipBlock b \<and>
    (worldLayer (userData b) = Some layerY \<or> worldLayer (userData b) = None) \<and>
    overBlock px pz (userData b) \<longrightarrow>
      maxY (userData b) \<le> getGroundHeightOnLayer worldBlocks px pz layerY) \<and>
   ((isInBlueSky (vec_y (position (ps g))) \<or> isInBlueSky (newY (proposeMove keys g))) \<and>
    getNextWorldLayerBelow layers (newY (proposeMove keys g)) = Some nextLayer \<and>
    newY (proposeMove keys g) < nextLayer + 10 \<and>
    newY (proposeMove keys g) \<le>
      getGroundHeightOnLayer worldBlocks (newX (proposeMove keys g)) (newZ (proposeMove keys g))
        nextLayer + 1 \<longrightarrow>
      vec_y (position (ps (movePlayer worldBlocks layers keys g))) =
        getGroundHeightOnLayer worldBlocks (newX (proposeMove keys g)) (newZ (proposeMove keys g))
          nextLayer + 1 + 1 / 10 \<and>
      isOnGround (ps (movePlayer worldBlocks layers keys g)))"
proof (intro conjI impI)
  show "checkCollision (filter (\<lambda>b. \<not> elevated b) worldBlocks) px py pz =
     checkCollision worldBlocks px py pz"
    by (rule checkCollision_filter) (simp add: elevated_def)
  show "getGroundHeight (filter (\<lambda>b. \<not> elevated b) worldBlocks) px pz currentY allowStepUp =
     getGroundHeight worldBlocks px pz currentY allowStepUp"
    by (rule getGroundHeight_filter) (simp add: elevated_def)
next
  assume "checkCollision worldBlocks px py pz = Some bd"
  then have "checkCollisionLoop (playerBoxAt px py pz) worldBlocks = Some bd"
    by (simp add: checkCollision_def split: if_splits)
  from checkCollisionLoop_origin [OF this] show "maxY bd \<le> FALL_THROUGH_HEIGHT"
    by blast
next
  assume "getGroundHeight worldBlocks px pz currentY allowStepUp = Some h"
  then have "fold (groundStep px pz currentY allowStepUp) worldBlocks None = Some h"
    by (simp add: getGroundHeight_def split: if_splits)
  from fold_groundStep_origin [OF this] show "h \<le> FALL_THROUGH_HEIGHT"
    by auto
next
  assume "\<not> isInBlueSky (vec_y (position (ps g))) \<and> \<not> isInBlueSky (newY (proposeMove keys g))"
  then show "updatePlayer (filter (\<lambda>b. \<not> elevatedSolid b) worldBlocks) layers keys g =
        updatePlayer worldBlocks layers keys g"
    by (intro updatePlayer_ground_filter) (simp_all add: elevatedSolid_def elevated_def)
next
  assume "b \<in> set worldBlocks \<and> \<not> skipBlock b \<and>
    (worldLayer (userData b) = Some layerY \<or> worldLayer (userData b) = None) \<and>
    overBlock px pz (userData b)"
  then show "maxY (userData b) \<le> getGroundHeightOnLayer worldBlocks px pz layerY"
    unfolding getGroundHeightOnLayer_def by (intro fold_layerStep_covers) simp_all
next
  assume a: "(isInBlueSky (vec_y (position (ps g))) \<or> isInBlueSky (newY (proposeMove keys g))) \<and>
    getNextWorldLayerBelow layers (newY (proposeMove keys g)) = Some nextLayer \<and>
    newY (proposeMove keys g) < nextLayer + 10 \<and>
    newY (proposeMove keys g) \<le>
      getGroundHeightOnLayer worldBlocks (newX (proposeMove keys g)) (newZ (proposeMove keys g))
        nextLayer + 1"
  from a skyPath_landing [of g keys layers nextLayer worldBlocks]
  show "vec_y (position (ps (movePlayer worldBlocks layers keys g))) =
        getGroundHeightOnLayer worldBlocks (newX (proposeMove keys g)) (newZ (proposeMove keys g))
          nextLayer + 1 + 1 / 10"
    and "isOnGround (ps (movePlayer worldBlocks layers keys g))"
    by blast+
qed

lemmas sky_eval = skyWorld_def platformBlock_def groundBlock_def actorOf_def restingPlayer_def
  noKeys_def proposeMove_def cameraAngleOf_def atan2_def accumulateInput_def shiftPressed_def
  upPressed_def downPressed_def leftPressed_def rightPressed_def addVelocityXZ_def
  applyFriction_def applyGravity_def isInBlueSky_def FALL_THROUGH_HEIGHT_def
  checkCollision_def skipBlock_def boxesOverlap_def playerBoxAt_def playerBody_def
  getGroundHeight_def groundStep_def overBlock_def raiseTo_def getGroundHeightOnLayer_def
  layerStep_def getNextWorldLayerBelow_def worldLayers_def

text \<open>
  Under the first platform of the main layer: a player box that overlaps the platform from
  below the sky band collides with nothing, a lower one collides with the ground block, the
  tick of a player resting on the ground is the same without the platform, and the player
  falling from 3.5 lands on the platform's top 2.5 (at height 3.6).
\<close>

theorem elevated_blocks_only_via_sky_path_witness:
  "elevated (platformBlock 5 2 5 3 1 3 0) \<and>
   boxesOverlap (playerBoxAt 5 (6 / 5) 5) (userData (platformBlock 5 2 5 3 1 3 0)) \<and>
   \<not> isInBlueSky (6 / 5) \<and>
   checkCollision skyWorld 5 (6 / 5) 5 = None \<and>
   checkCollision skyWorld 5 (1 / 2) 5 = Some (userData (groundBlock 5 0 5 9127187)) \<and>
   maxY (userData (groundBlock 5 0 5 9127187)) \<le> FALL_THROUGH_HEIGHT \<and>
   getGroundHeight skyWorld 5 5 (11 / 10) False = Some 0 \<and>
   0 \<le> FALL_THROUGH_HEIGHT \<and>
   \<not> isInBlueSky (vec_y (position (ps (actorOf (restingPlayer 5 (11 / 10) 5))))) \<and>
   \<not> isInBlueSky (newY (proposeMove noKeys (actorOf (restingPlayer 5 (11 / 10) 5)))) \<and>
   updatePlayer (filter (\<lambda>b. \<not> elevatedSolid b) skyWorld) worldLayers noKeys
       (actorOf (restingPlayer 5 (11 / 10) 5)) =
     updatePlayer skyWorld worldLayers noKeys (actorOf (restingPlayer 5 (11 / 10) 5)) \<and>
   platformBlock 5 2 5 3 1 3 0 \<in> set skyWorld \<and>
   \<not> skipBlock (platformBlock 5 2 5 3 1 3 0) \<and>
   worldLayer (userData (platformBlock 5 2 5 3 1 3 0)) = Some 0 \<and>
   overBlock 5 5 (userData (platformBlock 5 2 5 3 1 3 0)) \<and>
   maxY (userData (platformBlock 5 2 5 3 1 3 0)) \<le> getGroundHeightOnLayer skyWorld 5 5 0 \<and>
   isInBlueSky (vec_y (position (ps faller))) \<and>
   getNextWorldLayerBelow worldLayers (newY (proposeMove noKeys faller)) = Some 0 \<and>
   vec_y (position (ps (movePlayer skyWorld worldLayers noKeys faller))) = 36 / 10 \<and>
   isOnGround (ps (movePlayer skyWorld worldLayers noKeys faller))"
proof -
  let ?plat = "platformBlock 5 2 5 3 1 3 0"
  let ?g = "actorOf (restingPlayer 5 (11 / 10) 5)"
  have e1: "elevated ?plat" and e2: "boxesOverlap (playerBoxAt 5 (6 / 5) 5) (userData ?plat)"
    and e3: "\<not> isInBlueSky (6 / 5)" and e4: "checkCollision skyWorld 5 (6 / 5) 5 = None"
    by (simp_all add: elevated_def sky_eval)
  have h1: "checkCollision skyWorld 5 (1 / 2) 5 = Some (userData (groundBlock 5 0 5 9127187))"
    by (simp add: sky_eval)
  have h2: "getGroundHeight skyWorld 5 5 (11 / 10) False = Some 0"
    by (simp add: sky_eval)
  have h3: "\<not> isInBlueSky (vec_y (position (ps ?g))) \<and>
      \<not> isInBlueSky (newY (proposeMove noKeys ?g))"
    by (simp add: sky_eval)
  have h4: "?plat \<in> set skyWorld \<and> \<not> skipBlock ?plat \<and>
      (worldLayer (userData ?plat) = Some 0 \<or> worldLayer (userData ?plat) = None) \<and>
      overBlock 5 5 (userData ?plat)"
    by (simp add: sky_eval)
  have h4': "worldLayer (userData ?plat) = Some 0"
    by (simp add: platformBlock_def)
  have fall: "proposeMove noKeys faller = \<lparr>newX = 5, newY = 348 / 100, newZ = 5,
      tps = (restingPlayer 5 (7 / 2) 5)\<lparr>isOnGround := False,
        velocity := \<lparr>vec_x = 0, vec_y = - (2 / 100), vec_z = 0\<rparr>\<rparr>\<rparr>"
    by (simp add: faller_def sky_eval)
  have top: "getGroundHeightOnLayer skyWorld 5 5 0 = 5 / 2"
    by (simp add: sky_eval)
  have h5: "isInBlueSky (vec_y (position (ps faller)))"
    by (simp add: faller_def sky_eval)
  have h6: "getNextWorldLayerBelow worldLayers (newY (proposeMove noKeys faller)) = Some 0"
    by (simp add: fall) (simp add: sky_eval)
  have h7: "newY (proposeMove noKeys faller) < 0 + 10 \<and>
      newY (proposeMove noKeys faller) \<le>
        getGroundHeightOnLayer skyWorld (newX (proposeMove noKeys faller))
          (newZ (proposeMove noKeys faller)) 0 + 1"
    by (simp add: fall top)
  note low = elevated_blocks_only_via_sky_path [where worldBlocks = skyWorld and px = 5
      and py = "1 / 2" and pz = 5 and currentY = "11 / 10" and allowStepUp = False
      and bd = "userData (groundBlock 5 0 5 9127187)" and h = 0 and g = ?g and keys = noKeys
      and layers = worldLayers and b = ?plat and layerY = 0 and nextLayer = 0]
  note sky = elevated_blocks_only_via_sky_path [where worldBlocks = skyWorld and px = 5
      and py = "1 / 2" and pz = 5 and currentY = "11 / 10" and allowStepUp = False
      and bd = "userData (groundBlock 5 0 5 9127187)" and h = 0 and g = faller and keys = noKeys
      and layers = worldLayers and b = ?plat and layerY = 0 and nextLayer = 0]
  from low h1 have r1: "maxY (userData (groundBlock 5 0 5 9127187)) \<le> FALL_THROUGH_HEIGHT"
    by blast
  from low h2 have r2: "0 \<le> FALL_THROUGH_HEIGHT"
    by blast
  from low h3 have r3: "updatePlayer (filter (\<lambda>b. \<not> elevatedSolid b) skyWorld) worldLayers noKeys ?g =
      updatePlayer skyWorld worldLayers noKeys ?g"
    by blast
  from low h4 have r4: "maxY (userData ?plat) \<le> getGroundHeightOnLayer skyWorld 5 5 0"
    by blast
  from sky h5 h6 h7 have "vec_y (position (ps (movePlayer skyWorld worldLayers noKeys faller))) =
      getGroundHeightOnLayer skyWorld (newX (proposeMove noKeys faller))
        (newZ (proposeMove noKeys faller)) 0 + 1 + 1 / 10"
    and r6: "isOnGround (ps (movePlayer skyWorld worldLayers noKeys faller))"
    by blast+
  then have r5: "vec_y (position (ps (movePlayer skyWorld worldLayers noKeys faller))) = 36 / 10"
    by (simp add: fall top)
  from e1 e2 e3 e4 h1 h2 h3 h4 h4' h5 h6 r1 r2 r3 r4 r5 r6 show ?thesis
    by blast
qed

section \<open>Breaking a block and placing one on its cell\<close>

lemma positionFree_iff:
  "positionFree bs x y z \<longleftrightarrow>
     (\<forall>b \<in> set bs. visible b \<and> \<not> isVoid (userData b) \<longrightarrow> \<not> occupies b x y z)"
  by (induction bs) auto

lemma checkCollisionLoop_Some_iff:
  "checkCollisionLoop pb bs \<noteq> None \<longleftrightarrow>
     (\<exists>b \<in> set bs. \<not> skipBlock b \<and> maxY (userData b) \<le> FALL_THROUGH_HEIGHT \<and>
        boxesOverlap pb (userData b))"
  by (induction bs) auto

lemma raiseTo_commute: "raiseTo (raiseTo m s) t = raiseTo (raiseTo m t) s"
  by (auto simp: raiseTo_def split: option.splits)

lemma groundStep_commute:
  "groundStep px pz cy a b (groundStep px pz cy a c m) =
     groundStep px pz cy a c (groundStep px pz cy a b m)"
  by (simp add: groundStep_def Let_def raiseTo_commute)

lemma fold_groundStep_commute:
  "groundStep px pz cy a b (fold (groundStep px pz cy a) ys m) =
     fold (groundStep px pz cy a) ys (groundStep px pz cy a b m)"
  by (induction ys arbitrary: m) (simp_all add: groundStep_commute)

lemma groundStep_same_box:
  "\<not> skipBlock b \<Longrightarrow> \<not> skipBlock c \<Longrightarrow>
   box.truncate (userData b) = box.truncate (userData c) \<Longrightarrow>
     groundStep px pz cy a b m = groundStep px pz cy a c m"
  by (simp add: groundStep_def overBlock_def box.truncate_def Let_def)


lemma placedBlock_facts:
  "stateOf (placedBlock bx by bz) = Some Placed"
  "visible (placedBlock bx by bz)"
  "\<not> skipBlock (placedBlock bx by bz)"
  "unitBoxAt bx by bz (placedBlock bx by bz)"
  by (simp_all add: placedBlock_def stateOf_def skipBlock_def unitBoxAt_def)

lemma unitBoxAt_same_box:
  "unitBoxAt bx by bz b \<Longrightarrow> unitBoxAt bx by bz c \<Longrightarrow>
     box.truncate (userData b) = box.truncate (userData c)"
  by (simp add: unitBoxAt_def box.truncate_def)

lemma unitBoxAt_overlap:
  "unitBoxAt bx by bz b \<Longrightarrow> unitBoxAt bx by bz c \<Longrightarrow>
     boxesOverlap pb (userData b) = boxesOverlap pb (userData c)"
  by (simp add: unitBoxAt_def boxesOverlap_def)

lemma breakBlock_facts:
  "isBlock (userData b) \<Longrightarrow> skipBlock (breakBlock b)"
  "isBlock (userData b) \<Longrightarrow> isVoid (userData (breakBlock b))"
  "visible (breakBlock b) = visible b"
  "boxesOverlap pb (userData (breakBlock b)) = boxesOverlap pb (userData b)"
  by (simp_all add: breakBlock_def skipBlock_def boxesOverlap_def)

lemma raiseTo_ge:
  "\<exists>h'. raiseTo m t = Some h' \<and> t \<le> h' \<and> (\<forall>h. m = Some h \<longrightarrow> h \<le> h')"
  by (cases m) (auto simp: raiseTo_def)

lemma groundStep_mono:
  "m = Some h \<Longrightarrow> \<exists>h'. groundStep px pz cy a b m = Some h' \<and> h \<le> h'"
  using raiseTo_ge [of m "maxY (userData b)"]
  by (auto simp: groundStep_def Let_def)

lemma fold_groundStep_mono:
  "m = Some h \<Longrightarrow> \<exists>h'. fold (groundStep px pz cy a) bs m = Some h' \<and> h \<le> h'"
proof (induction bs arbitrary: m h)
  case Nil
  then show ?case by simp
next
  case (Cons b bs)
  from groundStep_mono [OF Cons.prems, of px pz cy a b]
  obtain h1 where h1: "groundStep px pz cy a b m = Some h1" and le1: "h \<le> h1"
    by blast
  from Cons.IH [OF h1] obtain h2 where "fold (groundStep px pz cy a) bs (Some h1) = Some h2"
    and "h1 \<le> h2"
    using h1 by auto
  with h1 le1 show ?case by auto
qed

lemma groundStep_counts:
  "\<not> skipBlock b \<Longrightarrow> maxY (userData b) \<le> FALL_THROUGH_HEIGHT \<Longrightarrow>
   overBlock px pz (userData b) \<Longrightarrow> maxY (userData b) \<le> cy + minY playerBody \<Longrightarrow>
     \<exists>h'. groundStep px pz cy a b m = Some h' \<and> maxY (userData b) \<le> h'"
  using raiseTo_ge [of m "maxY (userData b)"]
  by (auto simp: groundStep_def Let_def)

lemma fold_groundStep_covers:
  "b \<in> set bs \<Longrightarrow> \<not> skipBlock b \<Longrightarrow> maxY (userData b) \<le> FALL_THROUGH_HEIGHT \<Longrightarrow>
   overBlock px pz (userData b) \<Longrightarrow> maxY (userData b) \<le> cy + minY playerBody \<Longrightarrow>
     \<exists>h'. fold (groundStep px pz cy a) bs m = Some h' \<and> maxY (userData b) \<le> h'"
proof (induction bs arbitrary: m)
  case Nil
  then show ?case by simp
next
  case (Cons c bs)
  show ?case
  proof (cases "b = c")
    case True
    from groundStep_counts [OF Cons.prems(2-5), of a m]
    obtain h1 where h1: "groundStep px pz cy a b m = Some h1" and le1: "maxY (userData b) \<le> h1"
      by blast
    from fold_groundStep_mono [OF h1, of px pz cy a bs]
    obtain h2 where "fold (groundStep px pz cy a) bs (groundStep px pz cy a b m) = Some h2"
      and "h1 \<le> h2"
      using h1 by auto
    with True le1 show ?thesis by auto
  next
    case False
    with Cons.prems have "b \<in> set bs" by simp
    from Cons.IH [OF this Cons.prems(2-5)] show ?thesis by simp
  qed
qed

lemma unitBoxAt_overBlock:
  "unitBoxAt bx by bz b \<Longrightarrow> unitBoxAt bx by bz c \<Longrightarrow>
     overBlock px pz (userData b) = overBlock px pz (userData c)"
  by (simp add: unitBoxAt_def overBlock_def)

text \<open>
  C5 (as the code has it). Let the block at index \<open>i\<close> be Solid or Placed, shown, and the
  unit cube around the cell (bx, by, bz), and let the player hold at least one piece of wood.
  After \<open>breakBlock\<close> on it the occupancy test of \<open>tryPlaceBlock\<close>, which the cell failed
  before, passes for the cell as soon as no other shown, non-void block sits on it; and
  \<open>placeBlock\<close> at the same coordinates appends a block and takes one piece of wood. The new
  block is Placed, with the position and the box of the original: its \<open>userData\<close> is the
  original's with \<open>isPlaced\<close> set and no \<open>worldLayer\<close>. \<open>checkCollision\<close> reports a contact
  for exactly the player boxes it did in the never-broken world, and \<open>getGroundHeight\<close>
  returns the same heights; when the top of the cell is not above the sky threshold, the cell
  collides with every player box below the sky band that overlaps it, and a player over it with
  its feet at or above the top gets a ground height at or above that top. The broken block
  however stays at its index as a Void block, so \<open>checkIfPlayerInVoid\<close> holds for every player
  whose box overlaps the cell.
\<close>

theorem break_then_place_same_cell:
  assumes i: "i < length worldBlocks" and b: "worldBlocks ! i = b"
    and solid: "stateOf b = Some Solid \<or> stateOf b = Some Placed"
    and vis: "visible b"
    and unit: "unitBoxAt bx by bz b"
    and wd: "wood p \<ge> 1"
  shows "breakThenPlace i bx by bz (worldBlocks, p) =
       (worldBlocks[i := breakBlock b] @ [placedBlock bx by bz], p\<lparr>wood := wood p - 1\<rparr>) \<and>
     \<not> positionFree worldBlocks bx by bz \<and>
     (positionFree (breakBlockAt i worldBlocks) bx by bz \<longleftrightarrow>
        (\<forall>j < length worldBlocks. j \<noteq> i \<and> visible (worldBlocks ! j) \<and>
            \<not> isVoid (userData (worldBlocks ! j)) \<longrightarrow> \<not> occupies (worldBlocks ! j) bx by bz)) \<and>
     stateOf (placedBlock bx by bz) = Some Placed \<and>
     userData (placedBlock bx by bz) = (userData b)\<lparr>isPlaced := True, worldLayer := None\<rparr> \<and>
     b_position (placedBlock bx by bz) = b_position b \<and>
     visible (placedBlock bx by bz) = visible b \<and>
     (checkCollision (fst (breakThenPlace i bx by bz (worldBlocks, p))) px py pz = None \<longleftrightarrow>
        checkCollision worldBlocks px py pz = None) \<and>
     getGroundHeight (fst (breakThenPlace i bx by bz (worldBlocks, p))) px pz currentY allowStepUp =
       getGroundHeight worldBlocks px pz currentY allowStepUp \<and>
     stateOf (fst (breakThenPlace i bx by bz (worldBlocks, p)) ! i) = Some Void \<and>
     (maxY (userData b) \<le> FALL_THROUGH_HEIGHT \<and> \<not> isInBlueSky py \<and>
      boxesOverlap (playerBoxAt px py pz) (userData b) \<longrightarrow>
        checkCollision (fst (breakThenPlace i bx by bz (worldBlocks, p))) px py pz \<noteq> None) \<and>
     (maxY (userData b) \<le> FALL_THROUGH_HEIGHT \<and> \<not> isInBlueSky currentY \<and>
      overBlock px pz (userData b) \<and> maxY (userData b) \<le> currentY + minY playerBody \<longrightarrow>
        (\<exists>h. getGroundHeight (fst (breakThenPlace i bx by bz (worldBlocks, p))) px pz currentY
                allowStepUp = Some h \<and> maxY (userData b) \<le> h)) \<and>
     (boxesOverlap
        (playerBoxAt (vec_x (position q)) (vec_y (position q)) (vec_z (position q))) (userData b) \<longrightarrow>
        checkIfPlayerInVoid (fst (breakThenPlace i bx by bz (worldBlocks, p))) q)"
proof -
  let ?bb = "breakBlock b"
  let ?pl = "placedBlock bx by bz"
  let ?xs = "take i worldBlocks"
  let ?ys = "drop (Suc i) worldBlocks"
  let ?new = "worldBlocks[i := ?bb] @ [?pl]"
  have isb: "isBlock (userData b)" and nv: "\<not> isVoid (userData b)"
    using solid by (auto simp: stateOf_def split: if_splits)
  have nskip: "\<not> skipBlock b"
    using isb nv vis by (simp add: skipBlock_def)
  have old: "worldBlocks = ?xs @ b # ?ys"
    using id_take_nth_drop [OF i] b by simp
  have upd: "worldBlocks[i := ?bb] = ?xs @ ?bb # ?ys"
    using upd_conv_take_nth_drop [OF i] by simp
  have c1: "breakThenPlace i bx by bz (worldBlocks, p) = (?new, p\<lparr>wood := wood p - 1\<rparr>)"
    using i b wd by (simp add: breakThenPlace_def placeBlock_def breakBlockAt_def)
  have occ: "occupies b bx by bz"
    using unit by (simp add: occupies_def unitBoxAt_def)
  have c2: "\<not> positionFree worldBlocks bx by bz"
    unfolding positionFree_iff using i b vis nv occ nth_mem by blast
  have c3: "positionFree (breakBlockAt i worldBlocks) bx by bz \<longleftrightarrow>
      (\<forall>j < length worldBlocks. j \<noteq> i \<and> visible (worldBlocks ! j) \<and>
          \<not> isVoid (userData (worldBlocks ! j)) \<longrightarrow> \<not> occupies (worldBlocks ! j) bx by bz)"
  proof -
    have "positionFree (breakBlockAt i worldBlocks) bx by bz \<longleftrightarrow>
        (\<forall>j < length worldBlocks. visible (worldBlocks[i := ?bb] ! j) \<and>
           \<not> isVoid (userData (worldBlocks[i := ?bb] ! j)) \<longrightarrow>
           \<not> occupies (worldBlocks[i := ?bb] ! j) bx by bz)"
      using i b by (simp add: breakBlockAt_def positionFree_iff all_set_conv_all_nth)
    also have "\<dots> \<longleftrightarrow> (\<forall>j < length worldBlocks. j \<noteq> i \<and> visible (worldBlocks ! j) \<and>
          \<not> isVoid (userData (worldBlocks ! j)) \<longrightarrow> \<not> occupies (worldBlocks ! j) bx by bz)"
      using breakBlock_facts(2) [OF isb] i by (auto simp: nth_list_update)
    finally show ?thesis .
  qed
  have c5: "userData ?pl = (userData b)\<lparr>isPlaced := True, worldLayer := None\<rparr>"
    using unit isb nv by (simp add: placedBlock_def unitBoxAt_def)
  have c6: "b_position ?pl = b_position b"
    using unit by (simp add: placedBlock_def unitBoxAt_def)
  have c8: "checkCollision ?new px py pz = None \<longleftrightarrow> checkCollision worldBlocks px py pz = None"
  proof (cases "isInBlueSky py")
    case True
    then show ?thesis by (simp add: checkCollision_def)
  next
    case False
    let ?pb = "playerBoxAt px py pz"
    have ov: "boxesOverlap ?pb (userData ?pl) = boxesOverlap ?pb (userData b)"
      by (rule unitBoxAt_overlap [OF placedBlock_facts(4) unit])
    have top: "maxY (userData ?pl) = maxY (userData b)"
      using unit by (simp add: placedBlock_def unitBoxAt_def)
    have "checkCollisionLoop ?pb ?new \<noteq> None \<longleftrightarrow> checkCollisionLoop ?pb (?xs @ b # ?ys) \<noteq> None"
      unfolding checkCollisionLoop_Some_iff upd
      using breakBlock_facts(1) [OF isb] placedBlock_facts(3) [of bx "by" bz] nskip ov top
      by auto
    then have "checkCollisionLoop ?pb ?new \<noteq> None \<longleftrightarrow> checkCollisionLoop ?pb worldBlocks \<noteq> None"
      by (simp only: old [symmetric])
    then have "checkCollisionLoop ?pb ?new = None \<longleftrightarrow> checkCollisionLoop ?pb worldBlocks = None"
      by blast
    with False show ?thesis
      by (simp only: checkCollision_def if_False)
  qed
  have c9: "getGroundHeight ?new px pz currentY allowStepUp =
      getGroundHeight worldBlocks px pz currentY allowStepUp"
  proof (cases "isInBlueSky currentY")
    case True
    then show ?thesis by (simp add: getGroundHeight_def)
  next
    case False
    let ?f = "groundStep px pz currentY allowStepUp"
    have skipbb: "?f ?bb m = m" for m
      using breakBlock_facts(1) [OF isb] by (simp add: groundStep_def)
    have same: "?f ?pl m = ?f b m" for m
      by (rule groundStep_same_box [OF placedBlock_facts(3) nskip
            unitBoxAt_same_box [OF placedBlock_facts(4) unit]])
    have "fold ?f ?new None = ?f ?pl (fold ?f ?ys (fold ?f ?xs None))"
      by (simp add: upd skipbb)
    also have "\<dots> = fold ?f ?ys (?f b (fold ?f ?xs None))"
      by (simp add: same fold_groundStep_commute)
    also have "\<dots> = fold ?f (?xs @ b # ?ys) None"
      by simp
    finally have "fold ?f ?new None = fold ?f worldBlocks None"
      using old by simp
    with False show ?thesis by (simp add: getGroundHeight_def)
  qed
  have c10: "stateOf (?new ! i) = Some Void"
    using i isb by (simp add: nth_append stateOf_def breakBlock_def)
  have c11: "checkIfPlayerInVoid ?new q"
    if "boxesOverlap (playerBoxAt (vec_x (position q)) (vec_y (position q)) (vec_z (position q)))
          (userData b)"
  proof -
    have "?bb \<in> set ?new"
      using i by (simp add: upd)
    with that vis breakBlock_facts(2) [OF isb] show ?thesis
      unfolding checkIfPlayerInVoid_def voidLoop_iff
      by (auto simp: breakBlock_facts(3,4) simp del: set_append)
  qed
  have plin: "?pl \<in> set ?new"
    by simp
  have pltop: "maxY (userData ?pl) = maxY (userData b)"
    using unit by (simp add: placedBlock_def unitBoxAt_def)
  have c12: "checkCollision ?new px py pz \<noteq> None"
    if "maxY (userData b) \<le> FALL_THROUGH_HEIGHT \<and> \<not> isInBlueSky py \<and>
        boxesOverlap (playerBoxAt px py pz) (userData b)"
  proof -
    have "boxesOverlap (playerBoxAt px py pz) (userData ?pl)"
      using that unitBoxAt_overlap [OF placedBlock_facts(4) unit] by blast
    with that plin placedBlock_facts(3) [of bx "by" bz] pltop
    have "checkCollisionLoop (playerBoxAt px py pz) ?new \<noteq> None"
      unfolding checkCollisionLoop_Some_iff by metis
    with that show ?thesis
      by (simp add: checkCollision_def)
  qed
  have c13: "\<exists>h. getGroundHeight ?new px pz currentY allowStepUp = Some h \<and> maxY (userData b) \<le> h"
    if "maxY (userData b) \<le> FALL_THROUGH_HEIGHT \<and> \<not> isInBlueSky currentY \<and>
        overBlock px pz (userData b) \<and> maxY (userData b) \<le> currentY + minY playerBody"
  proof -
    have "overBlock px pz (userData ?pl)"
      using that unitBoxAt_overBlock [OF placedBlock_facts(4) unit] by blast
    with that pltop
    have "\<exists>h'. fold (groundStep px pz currentY allowStepUp) ?new None = Some h' \<and>
        maxY (userData ?pl) \<le> h'"
      by (intro fold_groundStep_covers [OF plin placedBlock_facts(3)]) simp_all
    with that pltop show ?thesis
      by (simp add: getGroundHeight_def)
  qed
  from c1 have new: "fst (breakThenPlace i bx by bz (worldBlocks, p)) = ?new"
    by simp
  show ?thesis
    unfolding new
    using c1 c2 c3 c5 c6 c8 c9 c10 c11 c12 c13 placedBlock_facts(1,2) [of bx "by" bz] vis
    by blast
qed

text \<open>
  The placed block of \<open>cellWorld\<close> broken and built again by the builder, seen by a player
  who stands on the ground and has walked into the cell (a block this low does not stop a
  lateral move), and by a player standing on top of it.
\<close>

lemmas cell_eval = cellWorld_def builder_def placedBlock_def groundBlock_def restingPlayer_def
  breakBlock_def breakBlockAt_def breakThenPlace_def placeBlock_def stateOf_def unitBoxAt_def
  occupies_def checkIfPlayerInVoid_def boxesOverlap_def overBlock_def playerBoxAt_def
  playerBody_def isInBlueSky_def FALL_THROUGH_HEIGHT_def

theorem break_then_place_same_cell_witness:
  "(1::nat) < length cellWorld \<and> cellWorld ! 1 = placedBlock 2 0 0 \<and>
   stateOf (placedBlock 2 0 0) = Some Placed \<and> visible (placedBlock 2 0 0) \<and>
   unitBoxAt 2 0 0 (placedBlock 2 0 0) \<and> wood builder \<ge> 1 \<and>
   breakThenPlace 1 2 0 0 (cellWorld, builder) =
     ([groundBlock 2 0 0 9127187, breakBlock (placedBlock 2 0 0), placedBlock 2 0 0],
      builder\<lparr>wood := 2\<rparr>) \<and>
   \<not> positionFree cellWorld 2 0 0 \<and>
   positionFree (breakBlockAt 1 cellWorld) 2 0 0 \<and>
   maxY (userData (placedBlock 2 0 0)) \<le> FALL_THROUGH_HEIGHT \<and>
   \<not> isInBlueSky (11 / 10) \<and>
   boxesOverlap (playerBoxAt 2 (11 / 10) 0) (userData (placedBlock 2 0 0)) \<and>
   checkCollision (fst (breakThenPlace 1 2 0 0 (cellWorld, builder))) 2 (11 / 10) 0 \<noteq> None \<and>
   \<not> isInBlueSky (16 / 10) \<and> overBlock 2 0 (userData (placedBlock 2 0 0)) \<and>
   maxY (userData (placedBlock 2 0 0)) \<le> 16 / 10 + minY playerBody \<and>
   getGroundHeight (fst (breakThenPlace 1 2 0 0 (cellWorld, builder))) 2 0 (16 / 10) False =
     getGroundHeight cellWorld 2 0 (16 / 10) False \<and>
   getGroundHeight cellWorld 2 0 (16 / 10) False = Some (1 / 2) \<and>
   stateOf (fst (breakThenPlace 1 2 0 0 (cellWorld, builder)) ! 1) = Some Void \<and>
   checkIfPlayerInVoid (fst (breakThenPlace 1 2 0 0 (cellWorld, builder)))
     (restingPlayer 2 (11 / 10) 0)"
proof -
  let ?b = "placedBlock 2 0 0"
  let ?q = "restingPlayer 2 (11 / 10) 0"
  have h1: "(1::nat) < length cellWorld" and h2: "cellWorld ! 1 = ?b"
    by (simp_all add: cellWorld_def)
  have h3: "stateOf ?b = Some Solid \<or> stateOf ?b = Some Placed" and h3': "stateOf ?b = Some Placed"
    and h4: "visible ?b" and h5: "unitBoxAt 2 0 0 ?b"
    by (simp_all add: cell_eval)
  have h6: "wood builder \<ge> 1"
    by (simp add: builder_def)
  have h7: "boxesOverlap (playerBoxAt 2 (11 / 10) 0) (userData ?b)"
    and k1: "maxY (userData ?b) \<le> FALL_THROUGH_HEIGHT" and k2: "\<not> isInBlueSky (11 / 10)"
    and k3: "\<not> isInBlueSky (16 / 10)" and k4: "overBlock 2 0 (userData ?b)"
    and k5: "maxY (userData ?b) \<le> 16 / 10 + minY playerBody"
    by (simp_all add: cell_eval)
  have h7': "boxesOverlap
      (playerBoxAt (vec_x (position ?q)) (vec_y (position ?q)) (vec_z (position ?q))) (userData ?b)"
    using h7 by (simp add: restingPlayer_def)
  have h8: "\<forall>j < length cellWorld. j \<noteq> 1 \<and> visible (cellWorld ! j) \<and>
      \<not> isVoid (userData (cellWorld ! j)) \<longrightarrow> \<not> occupies (cellWorld ! j) 2 0 0"
    by (simp add: cell_eval less_Suc_eq)
  have h9: "breakThenPlace 1 2 0 0 (cellWorld, builder) =
      ([groundBlock 2 0 0 9127187, breakBlock ?b, ?b], builder\<lparr>wood := 2\<rparr>)"
    by (simp add: cellWorld_def builder_def breakThenPlace_def breakBlockAt_def placeBlock_def
        restingPlayer_def)
  have g0: "getGroundHeight cellWorld 2 0 (16 / 10) False = Some (1 / 2)"
    by (simp add: getGroundHeight_def groundStep_def skipBlock_def raiseTo_def cell_eval)
  note walked = break_then_place_same_cell [OF h1 h2 h3 h4 h5 h6, where px = 2 and py = "11 / 10"
      and pz = 0 and currentY = "16 / 10" and allowStepUp = False and q = ?q]
  from walked have r1: "\<not> positionFree cellWorld 2 0 0"
    and r2: "positionFree (breakBlockAt 1 cellWorld) 2 0 0 \<longleftrightarrow>
      (\<forall>j < length cellWorld. j \<noteq> 1 \<and> visible (cellWorld ! j) \<and>
          \<not> isVoid (userData (cellWorld ! j)) \<longrightarrow> \<not> occupies (cellWorld ! j) 2 0 0)"
    and r3: "maxY (userData ?b) \<le> FALL_THROUGH_HEIGHT \<and> \<not> isInBlueSky (11 / 10) \<and>
        boxesOverlap (playerBoxAt 2 (11 / 10) 0) (userData ?b) \<longrightarrow>
      checkCollision (fst (breakThenPlace 1 2 0 0 (cellWorld, builder))) 2 (11 / 10) 0 \<noteq> None"
    and r4: "getGroundHeight (fst (breakThenPlace 1 2 0 0 (cellWorld, builder))) 2 0 (16 / 10) False =
      getGroundHeight cellWorld 2 0 (16 / 10) False"
    and r5: "stateOf (fst (breakThenPlace 1 2 0 0 (cellWorld, builder)) ! 1) = Some Void"
    and r6: "boxesOverlap
        (playerBoxAt (vec_x (position ?q)) (vec_y (position ?q)) (vec_z (position ?q)))
        (userData ?b) \<longrightarrow>
      checkIfPlayerInVoid (fst (breakThenPlace 1 2 0 0 (cellWorld, builder))) ?q"
    by blast+
  from r2 h8 have r2': "positionFree (breakBlockAt 1 cellWorld) 2 0 0"
    by blast
  from r3 k1 k2 h7
  have r3': "checkCollision (fst (breakThenPlace 1 2 0 0 (cellWorld, builder))) 2 (11 / 10) 0 \<noteq> None"
    by blast
  from r6 h7' have r6': "checkIfPlayerInVoid (fst (breakThenPlace 1 2 0 0 (cellWorld, builder))) ?q"
    by blast
  from h1 h2 h3' h4 h5 h6 h7 h9 k1 k2 k3 k4 k5 g0 r1 r2' r3' r4 r5 r6' show ?thesis
    by blast
qed

text \<open>
  C5 (as the specification states it) fails on void-trap detection. A player who stands on
  the ground and has walked into the half-sunk placed block of \<open>cellWorld\<close> overlaps its cell.
  In the never-broken world that player is in no void; after the block has been broken and a
  block placed on the same cell, the player is.
\<close>

theorem break_then_place_counterexample:
  "stateOf (cellWorld ! 1) = Some Placed \<and> unitBoxAt 2 0 0 (cellWorld ! 1) \<and>
   breakThenPlace 1 2 0 0 (cellWorld, builder) =
     ([groundBlock 2 0 0 9127187, breakBlock (placedBlock 2 0 0), placedBlock 2 0 0],
      builder\<lparr>wood := 2\<rparr>) \<and>
   boxesOverlap (playerBoxAt 2 (11 / 10) 0) (userData (cellWorld ! 1)) \<and>
   \<not> checkIfPlayerInVoid cellWorld (restingPlayer 2 (11 / 10) 0) \<and>
   checkIfPlayerInVoid (fst (breakThenPlace 1 2 0 0 (cellWorld, builder)))
     (restingPlayer 2 (11 / 10) 0)"
  by (simp add: cell_eval)

section \<open>Guardian aggro\<close>

lemma horizontalDistance_triangle:
  "horizontalDistance ax az cx cz \<le> horizontalDistance ax az bx bz + horizontalDistance bx bz cx cz"
  using real_sqrt_sum_squares_triangle_ineq [of "ax - bx" "bx - cx" "az - bz" "bz - cz"]
  by (simp add: horizontalDistance_def)

lemma horizontalDistance_commute:
  "horizontalDistance ax az bx bz = horizontalDistance bx bz ax az"
  by (simp add: horizontalDistance_def power2_commute)

lemma monsterVoidStatus_fields [simp]:
  "m_position (monsterVoidStatus w m) = m_position m"
  "isGuardian (monsterVoidStatus w m) = isGuardian m"
  "guardedCoin (monsterVoidStatus w m) = guardedCoin m"
  "aggressiveMode (monsterVoidStatus w m) = aggressiveMode m"
  "aggressiveModeEndTime (monsterVoidStatus w m) = aggressiveModeEndTime m"
  "guardPosition (monsterVoidStatus w m) = guardPosition m"
  "m_isStuckInVoid (monsterVoidStatus w m) = checkIfMonsterInVoid w m"
  by (simp_all add: monsterVoidStatus_def)

lemma monsterThink_active:
  "activeGuardian w m c \<Longrightarrow>
     monsterThink w now ra rm pp m = guardianTarget now ra rm pp c (monsterVoidStatus w m)"
  by (simp add: monsterThink_def activeGuardian_def Let_def)

lemma monsterThink_inactive:
  "\<not> (\<exists>c. activeGuardian w m c) \<Longrightarrow> fst (monsterThink w now ra rm pp m) = monsterVoidStatus w m"
  by (auto simp: monsterThink_def activeGuardian_def Let_def split: option.splits)

lemma guardianTarget_expire:
  assumes "aggressiveMode m" and "aggressiveModeEndTime m > 0"
    and "now \<ge> aggressiveModeEndTime m \<or> playerFromCoin c pp > 40"
  shows "fst (guardianTarget now ra rm pp c m) = m\<lparr>aggressiveMode := False, aggressiveModeEndTime := 0\<rparr>"
    and "snd (guardianTarget now ra rm pp c m) =
      (case guardPosition m of
         Some gp \<Rightarrow> \<lparr>targetX = fst gp, targetZ = snd gp, shouldMove = True\<rparr>
       | None \<Rightarrow> \<lparr>targetX = vec_x (c_position c), targetZ = vec_z (c_position c), shouldMove = True\<rparr>)"
  using assms
  by (auto simp: guardianTarget_def playerFromCoin_def Let_def split: option.splits)

lemma guardianTarget_keep:
  assumes "aggressiveMode m" and "now < aggressiveModeEndTime m" and "playerFromCoin c pp \<le> 40"
  shows "guardianTarget now ra rm pp c m =
     (m, \<lparr>targetX = vec_x pp, targetZ = vec_z pp, shouldMove = True\<rparr>)"
  using assms
  by (simp add: guardianTarget_def playerFromCoin_def Let_def)

lemma guardianTarget_enter:
  assumes "\<not> aggressiveMode m" and "aggressiveMode (fst (guardianTarget now ra rm pp c m))"
  shows "playerFromCoin c pp < 8 \<and>
     (\<forall>gp. guardPosition m = Some gp \<longrightarrow>
        horizontalDistance (fst gp) (snd gp) (vec_x (m_position m)) (vec_z (m_position m)) \<le> 6) \<and>
     aggressiveModeEndTime (fst (guardianTarget now ra rm pp c m)) = now + 20"
  using assms
  by (auto simp: guardianTarget_def playerFromCoin_def Let_def split: option.splits if_splits)


text \<open>
  C9 (as the code has it). A monster's update turns aggressive mode on only for a guardian
  whose logic runs (coin not collected, monster not in a void block) when the player is
  within 8 of the coin and the monster is within the guard radius 6 of its guard position,
  hence within 9.5 of the coin when the guard position is within 3.5 of it, as
  \<open>createCoinWithGuardians\<close> puts it; the player's attack turns it on for a guardian in attack
  range, and only then. Either way the end time is 20 later. For a guardian whose logic runs,
  aggressive mode is cleared in the first update at which the end time has been reached or the
  player is more than 40 from the coin, and in that update the monster targets its guard
  position (the coin if it has none); in every update before that it stays aggressive and
  targets the player. A guardian that stands in a void block, or whose coin is collected,
  keeps its aggressive mode and its end time as they are.
\<close>

theorem guardian_aggro_bounded:
  "(\<not> aggressiveMode m \<and>
    aggressiveMode (fst (monsterThink worldBlocks now rndAngle rndMove playerPos m)) \<longrightarrow>
      (\<exists>c. activeGuardian worldBlocks m c \<and> playerFromCoin c playerPos < 8 \<and>
         (\<forall>gp. guardPosition m = Some gp \<longrightarrow>
            horizontalDistance (fst gp) (snd gp) (vec_x (m_position m)) (vec_z (m_position m)) \<le> 6 \<and>
            (horizontalDistance (vec_x (c_position c)) (vec_z (c_position c)) (fst gp) (snd gp)
               \<le> 7 / 2 \<longrightarrow>
             horizontalDistance (vec_x (c_position c)) (vec_z (c_position c))
               (vec_x (m_position m)) (vec_z (m_position m)) \<le> 19 / 2))) \<and>
      aggressiveModeEndTime (fst (monsterThink worldBlocks now rndAngle rndMove playerPos m)) =
        now + 20) \<and>
   (aggressiveMode (attackMonster now p m) \<longleftrightarrow>
      aggressiveMode m \<or> (isGuardian m \<and> attackDistance p m \<le> attackRange p)) \<and>
   (isGuardian m \<and> attackDistance p m \<le> attackRange p \<longrightarrow>
      aggressiveModeEndTime (attackMonster now p m) = now + 20) \<and>
   (activeGuardian worldBlocks m c \<and> aggressiveMode m \<and> aggressiveModeEndTime m > 0 \<and>
    (now \<ge> aggressiveModeEndTime m \<or> playerFromCoin c playerPos > 40) \<longrightarrow>
      \<not> aggressiveMode (fst (monsterThink worldBlocks now rndAngle rndMove playerPos m)) \<and>
      aggressiveModeEndTime (fst (monsterThink worldBlocks now rndAngle rndMove playerPos m)) = 0 \<and>
      shouldMove (snd (monsterThink worldBlocks now rndAngle rndMove playerPos m)) \<and>
      (\<forall>gp. guardPosition m = Some gp \<longrightarrow>
         targetX (snd (monsterThink worldBlocks now rndAngle rndMove playerPos m)) = fst gp \<and>
         targetZ (snd (monsterThink worldBlocks now rndAngle rndMove playerPos m)) = snd gp) \<and>
      (guardPosition m = None \<longrightarrow>
         targetX (snd (monsterThink worldBlocks now rndAngle rndMove playerPos m)) =
           vec_x (c_position c) \<and>
         targetZ (snd (monsterThink worldBlocks now rndAngle rndMove playerPos m)) =
           vec_z (c_position c))) \<and>
   (activeGuardian worldBlocks m c \<and> aggressiveMode m \<and> now < aggressiveModeEndTime m \<and>
    playerFromCoin c playerPos \<le> 40 \<longrightarrow>
      aggressiveMode (fst (monsterThink worldBlocks now rndAngle rndMove playerPos m)) \<and>
      aggressiveModeEndTime (fst (monsterThink worldBlocks now rndAngle rndMove playerPos m)) =
        aggressiveModeEndTime m \<and>
      snd (monsterThink worldBlocks now rndAngle rndMove playerPos m) =
        \<lparr>targetX = vec_x playerPos, targetZ = vec_z playerPos, shouldMove = True\<rparr>) \<and>
   (checkIfMonsterInVoid worldBlocks m \<or> (guardedCoin m = Some c \<and> collected c) \<longrightarrow>
      aggressiveMode (fst (monsterThink worldBlocks now rndAngle rndMove playerPos m)) =
        aggressiveMode m \<and>
      aggressiveModeEndTime (fst (monsterThink worldBlocks now rndAngle rndMove playerPos m)) =
        aggressiveModeEndTime m)"
proof (intro conjI impI)
  let ?r = "monsterThink worldBlocks now rndAngle rndMove playerPos m"
  let ?m0 = "monsterVoidStatus worldBlocks m"
  {
    assume "checkIfMonsterInVoid worldBlocks m \<or> (guardedCoin m = Some c \<and> collected c)"
    then have "\<not> (\<exists>c'. activeGuardian worldBlocks m c')"
      by (auto simp: activeGuardian_def)
    from monsterThink_inactive [OF this, of now rndAngle rndMove playerPos]
    show "aggressiveMode (fst ?r) = aggressiveMode m"
      and "aggressiveModeEndTime (fst ?r) = aggressiveModeEndTime m"
      by simp_all
  }
  {
    assume a: "\<not> aggressiveMode m \<and> aggressiveMode (fst ?r)"
    have ex: "\<exists>c. activeGuardian worldBlocks m c"
    proof (rule ccontr)
      assume "\<not> (\<exists>c. activeGuardian worldBlocks m c)"
      from monsterThink_inactive [OF this, of now rndAngle rndMove playerPos] a
      show False by simp
    qed
    then obtain c where c: "activeGuardian worldBlocks m c" ..
    have r: "?r = guardianTarget now rndAngle rndMove playerPos c ?m0"
      by (rule monsterThink_active [OF c])
    from a have "\<not> aggressiveMode ?m0"
      and "aggressiveMode (fst (guardianTarget now rndAngle rndMove playerPos c ?m0))"
      by (simp_all add: r)
    from guardianTarget_enter [OF this]
    have near: "playerFromCoin c playerPos < 8"
      and anchor: "\<forall>gp. guardPosition m = Some gp \<longrightarrow>
        horizontalDistance (fst gp) (snd gp) (vec_x (m_position m)) (vec_z (m_position m)) \<le> 6"
      and until: "aggressiveModeEndTime (fst ?r) = now + 20"
      by (simp_all add: r)
    have "\<forall>gp. guardPosition m = Some gp \<longrightarrow>
        horizontalDistance (fst gp) (snd gp) (vec_x (m_position m)) (vec_z (m_position m)) \<le> 6 \<and>
        (horizontalDistance (vec_x (c_position c)) (vec_z (c_position c)) (fst gp) (snd gp)
           \<le> 7 / 2 \<longrightarrow>
         horizontalDistance (vec_x (c_position c)) (vec_z (c_position c))
           (vec_x (m_position m)) (vec_z (m_position m)) \<le> 19 / 2)"
    proof (intro allI impI conjI)
      fix gp
      assume gp: "guardPosition m = Some gp"
      with anchor show d1: "horizontalDistance (fst gp) (snd gp) (vec_x (m_position m))
          (vec_z (m_position m)) \<le> 6"
        by blast
      assume d2: "horizontalDistance (vec_x (c_position c)) (vec_z (c_position c)) (fst gp) (snd gp)
          \<le> 7 / 2"
      from horizontalDistance_triangle [of "vec_x (c_position c)" "vec_z (c_position c)"
          "vec_x (m_position m)" "vec_z (m_position m)" "fst gp" "snd gp"] d1 d2
      show "horizontalDistance (vec_x (c_position c)) (vec_z (c_position c))
          (vec_x (m_position m)) (vec_z (m_position m)) \<le> 19 / 2"
        by linarith
    qed
    with c near until
    show "\<exists>c. activeGuardian worldBlocks m c \<and> playerFromCoin c playerPos < 8 \<and>
         (\<forall>gp. guardPosition m = Some gp \<longrightarrow>
            horizontalDistance (fst gp) (snd gp) (vec_x (m_position m)) (vec_z (m_position m)) \<le> 6 \<and>
            (horizontalDistance (vec_x (c_position c)) (vec_z (c_position c)) (fst gp) (snd gp)
               \<le> 7 / 2 \<longrightarrow>
             horizontalDistance (vec_x (c_position c)) (vec_z (c_position c))
               (vec_x (m_position m)) (vec_z (m_position m)) \<le> 19 / 2))"
      and "aggressiveModeEndTime (fst ?r) = now + 20"
      by blast+
  }
  show "aggressiveMode (attackMonster now p m) \<longleftrightarrow>
      aggressiveMode m \<or> (isGuardian m \<and> attackDistance p m \<le> attackRange p)"
    by (simp add: attackMonster_def attackDistance_def Let_def)
  {
    assume "isGuardian m \<and> attackDistance p m \<le> attackRange p"
    then show "aggressiveModeEndTime (attackMonster now p m) = now + 20"
      by (simp add: attackMonster_def attackDistance_def Let_def)
  }
  {
    assume a: "activeGuardian worldBlocks m c \<and> aggressiveMode m \<and> aggressiveModeEndTime m > 0 \<and>
      (now \<ge> aggressiveModeEndTime m \<or> playerFromCoin c playerPos > 40)"
    then have r: "?r = guardianTarget now rndAngle rndMove playerPos c ?m0"
      using monsterThink_active by blast
    from a have h: "aggressiveMode ?m0" "aggressiveModeEndTime ?m0 > 0"
      "now \<ge> aggressiveModeEndTime ?m0 \<or> playerFromCoin c playerPos > 40"
      by simp_all
    note e = guardianTarget_expire [OF h, of rndAngle rndMove]
    show "\<not> aggressiveMode (fst ?r)" and "aggressiveModeEndTime (fst ?r) = 0"
      by (simp_all add: r e(1))
    show "shouldMove (snd ?r)"
      by (simp add: r e(2) split: option.splits)
    show "\<forall>gp. guardPosition m = Some gp \<longrightarrow> targetX (snd ?r) = fst gp \<and> targetZ (snd ?r) = snd gp"
      by (simp add: r e(2))
    assume "guardPosition m = None"
    then show "targetX (snd ?r) = vec_x (c_position c)" and "targetZ (snd ?r) = vec_z (c_position c)"
      by (simp_all add: r e(2))
  }
  {
    assume a: "activeGuardian worldBlocks m c \<and> aggressiveMode m \<and> now < aggressiveModeEndTime m \<and>
      playerFromCoin c playerPos \<le> 40"
    then have r: "?r = guardianTarget now rndAngle rndMove playerPos c ?m0"
      using monsterThink_active by blast
    from a have h: "aggressiveMode ?m0" "now < aggressiveModeEndTime ?m0"
      "playerFromCoin c playerPos \<le> 40"
      by simp_all
    note k = guardianTarget_keep [OF h, of rndAngle rndMove]
    show "aggressiveMode (fst ?r)" and "aggressiveModeEndTime (fst ?r) = aggressiveModeEndTime m"
      and "snd ?r = \<lparr>targetX = vec_x playerPos, targetZ = vec_z playerPos, shouldMove = True\<rparr>"
      using a by (simp_all add: r k)
  }
qed

lemma horizontalDistance_same_z: "horizontalDistance ax az bx az = \<bar>ax - bx\<bar>"
  by (simp add: horizontalDistance_def)

lemmas guardian_eval = monsterThink_def monsterVoidStatus_def checkIfMonsterInVoid_def
  guardianTarget_def playerFromCoin_def activeGuardian_def guardian_def angryGuardian_def
  strandedGuardian_def originCoin_def trapWorld_def breakBlock_def groundBlock_def
  boxesOverlap_def horizontalDistance_same_z Let_def

text \<open>
  The guardian on its guard position next to the coin: the player three units from the coin
  turns it aggressive; so does an attack from one unit away; the aggressive guardian keeps
  chasing at time 100 and returns to its guard position at time 200.
\<close>

theorem guardian_aggro_bounded_witness:
  "\<not> aggressiveMode guardian \<and>
   aggressiveMode (fst (monsterThink trapWorld 100 0 0 \<lparr>vec_x = 3, vec_y = 11 / 10, vec_z = 0\<rparr>
     guardian)) \<and>
   aggressiveModeEndTime (fst (monsterThink trapWorld 100 0 0
     \<lparr>vec_x = 3, vec_y = 11 / 10, vec_z = 0\<rparr> guardian)) = 120 \<and>
   isGuardian guardian \<and> attackDistance (restingPlayer 3 (11 / 10) 0) guardian \<le>
     attackRange (restingPlayer 3 (11 / 10) 0) \<and>
   aggressiveMode (attackMonster 100 (restingPlayer 3 (11 / 10) 0) guardian) \<and>
   aggressiveModeEndTime (attackMonster 100 (restingPlayer 3 (11 / 10) 0) guardian) = 120 \<and>
   activeGuardian trapWorld angryGuardian originCoin \<and> aggressiveMode angryGuardian \<and>
   aggressiveModeEndTime angryGuardian > 0 \<and> 200 \<ge> aggressiveModeEndTime angryGuardian \<and>
   guardPosition angryGuardian = Some (2, 0) \<and>
   \<not> aggressiveMode (fst (monsterThink trapWorld 200 0 0 \<lparr>vec_x = 3, vec_y = 11 / 10, vec_z = 0\<rparr>
     angryGuardian)) \<and>
   targetX (snd (monsterThink trapWorld 200 0 0 \<lparr>vec_x = 3, vec_y = 11 / 10, vec_z = 0\<rparr>
     angryGuardian)) = 2 \<and>
   targetZ (snd (monsterThink trapWorld 200 0 0 \<lparr>vec_x = 3, vec_y = 11 / 10, vec_z = 0\<rparr>
     angryGuardian)) = 0 \<and>
   100 < aggressiveModeEndTime angryGuardian \<and>
   playerFromCoin originCoin \<lparr>vec_x = 3, vec_y = 11 / 10, vec_z = 0\<rparr> \<le> 40 \<and>
   aggressiveMode (fst (monsterThink trapWorld 100 0 0 \<lparr>vec_x = 3, vec_y = 11 / 10, vec_z = 0\<rparr>
     angryGuardian)) \<and>
   snd (monsterThink trapWorld 100 0 0 \<lparr>vec_x = 3, vec_y = 11 / 10, vec_z = 0\<rparr> angryGuardian) =
     \<lparr>targetX = 3, targetZ = 0, shouldMove = True\<rparr> \<and>
   checkIfMonsterInVoid trapWorld strandedGuardian \<and>
   aggressiveMode (fst (monsterThink trapWorld 200 0 0 \<lparr>vec_x = 3, vec_y = 11 / 10, vec_z = 0\<rparr>
     strandedGuardian)) = aggressiveMode strandedGuardian"
proof -
  let ?pp = "\<lparr>vec_x = 3, vec_y = 11 / 10, vec_z = 0\<rparr>"
  let ?p = "restingPlayer 3 (11 / 10) 0"
  have a1: "\<not> aggressiveMode guardian"
    and a2: "aggressiveMode (fst (monsterThink trapWorld 100 0 0 ?pp guardian))"
    by (simp_all add: guardian_eval)
  have b1: "isGuardian guardian"
    by (simp add: guardian_def)
  have "attackDistance ?p guardian = sqrt (34 / 25)"
    by (simp add: attackDistance_def guardian_def restingPlayer_def Let_def)
  also have "\<dots> \<le> 5"
    by (rule real_le_lsqrt) simp_all
  finally have b2: "attackDistance ?p guardian \<le> attackRange ?p"
    by (simp add: restingPlayer_def)
  have c1: "activeGuardian trapWorld angryGuardian originCoin" and c2: "aggressiveMode angryGuardian"
    and c3: "aggressiveModeEndTime angryGuardian > 0"
    and c4: "200 \<ge> aggressiveModeEndTime angryGuardian"
    and c5: "guardPosition angryGuardian = Some (2, 0)"
    and d1: "100 < aggressiveModeEndTime angryGuardian"
    and d2: "playerFromCoin originCoin ?pp \<le> 40"
    by (simp_all add: guardian_eval)
  note enter = guardian_aggro_bounded [where m = guardian and worldBlocks = trapWorld
      and now = 100 and rndAngle = 0 and rndMove = 0 and playerPos = ?pp and p = ?p
      and c = originCoin]
  note leave = guardian_aggro_bounded [where m = angryGuardian and worldBlocks = trapWorld
      and now = 200 and rndAngle = 0 and rndMove = 0 and playerPos = ?pp and p = ?p
      and c = originCoin]
  note chase = guardian_aggro_bounded [where m = angryGuardian and worldBlocks = trapWorld
      and now = 100 and rndAngle = 0 and rndMove = 0 and playerPos = ?pp and p = ?p
      and c = originCoin]
  from enter a1 a2
  have r1: "aggressiveModeEndTime (fst (monsterThink trapWorld 100 0 0 ?pp guardian)) = 100 + 20"
    by blast
  from enter b1 b2 have r2: "aggressiveMode (attackMonster 100 ?p guardian)"
    and r3: "aggressiveModeEndTime (attackMonster 100 ?p guardian) = 100 + 20"
    by blast+
  from leave c1 c2 c3 c4
  have r4: "\<not> aggressiveMode (fst (monsterThink trapWorld 200 0 0 ?pp angryGuardian))"
    and r5: "\<forall>gp. guardPosition angryGuardian = Some gp \<longrightarrow>
      targetX (snd (monsterThink trapWorld 200 0 0 ?pp angryGuardian)) = fst gp \<and>
      targetZ (snd (monsterThink trapWorld 200 0 0 ?pp angryGuardian)) = snd gp"
    by blast+
  from r5 c5 have r6: "targetX (snd (monsterThink trapWorld 200 0 0 ?pp angryGuardian)) = 2"
    and r7: "targetZ (snd (monsterThink trapWorld 200 0 0 ?pp angryGuardian)) = 0"
    by simp_all
  from chase c1 c2 d1 d2
  have r8: "aggressiveMode (fst (monsterThink trapWorld 100 0 0 ?pp angryGuardian))"
    and r9: "snd (monsterThink trapWorld 100 0 0 ?pp angryGuardian) =
      \<lparr>targetX = vec_x ?pp, targetZ = vec_z ?pp, shouldMove = True\<rparr>"
    by blast+
  have e1: "checkIfMonsterInVoid trapWorld strandedGuardian"
    by (simp add: guardian_eval)
  from guardian_aggro_bounded [where m = strandedGuardian and worldBlocks = trapWorld
      and now = 200 and rndAngle = 0 and rndMove = 0 and playerPos = ?pp and p = ?p
      and c = originCoin] e1
  have r10: "aggressiveMode (fst (monsterThink trapWorld 200 0 0 ?pp strandedGuardian)) =
      aggressiveMode strandedGuardian"
    by blast
  from r1 have r1': "aggressiveModeEndTime (fst (monsterThink trapWorld 100 0 0 ?pp guardian)) = 120"
    by simp
  from r3 have r3': "aggressiveModeEndTime (attackMonster 100 ?p guardian) = 120"
    by simp
  from r9 have r9': "snd (monsterThink trapWorld 100 0 0 ?pp angryGuardian) =
      \<lparr>targetX = 3, targetZ = 0, shouldMove = True\<rparr>"
    by simp
  from a1 a2 b1 b2 c1 c2 c3 c4 c5 d1 d2 e1 r1' r2 r3' r4 r6 r7 r8 r9' r10 show ?thesis
    by blast
qed

text \<open>
  C9 (as the specification states it) fails for a guardian that stands in a void block. The
  aggressive guardian in the broken block of \<open>trapWorld\<close> is updated at time 200, after its
  end time 120, with the player 100 from the coin: it stays aggressive, and its target is its
  own position, not its guard position (2, 0).
\<close>

theorem guardian_aggro_stuck_counterexample:
  "isGuardian strandedGuardian \<and> guardedCoin strandedGuardian = Some originCoin \<and>
   \<not> collected originCoin \<and> aggressiveMode strandedGuardian \<and>
   aggressiveModeEndTime strandedGuardian = 120 \<and> (200::real) \<ge> 120 \<and>
   playerFromCoin originCoin \<lparr>vec_x = 100, vec_y = 11 / 10, vec_z = 0\<rparr> > 40 \<and>
   guardPosition strandedGuardian = Some (2, 0) \<and>
   checkIfMonsterInVoid trapWorld strandedGuardian \<and>
   aggressiveMode (fst (monsterThink trapWorld 200 0 0
     \<lparr>vec_x = 100, vec_y = 11 / 10, vec_z = 0\<rparr> strandedGuardian)) \<and>
   aggressiveModeEndTime (fst (monsterThink trapWorld 200 0 0
     \<lparr>vec_x = 100, vec_y = 11 / 10, vec_z = 0\<rparr> strandedGuardian)) = 120 \<and>
   snd (monsterThink trapWorld 200 0 0 \<lparr>vec_x = 100, vec_y = 11 / 10, vec_z = 0\<rparr>
     strandedGuardian) = \<lparr>targetX = 0, targetZ = 0, shouldMove = False\<rparr>"
  by (simp add: guardian_eval)

end
